theory Spec2Isabelle
  imports Main "HOL-Library.Word"
begin

unbundle bit_operations_syntax

section \<open>Machine integers, results and errors\<close>

text \<open>
  The C++ sources compute on \<open>uint32_t\<close>, \<open>int32_t\<close>, \<open>uint8_t\<close> and \<open>int8_t\<close>.
  They are words of that width here, so that every sum, difference and product wraps as
  it does in the program. A signed field holds its two's complement bits and is read
  with \<open>sint\<close>, an unsigned one with \<open>unat\<close>.
\<close>

type_synonym uint8_t = "8 word"
type_synonym int8_t = "8 word"
type_synonym uint32_t = "32 word"
type_synonym int32_t = "32 word"
type_synonym VkResult = int

definition VK_SUCCESS :: VkResult where
  "VK_SUCCESS = 0"

text \<open>
  What ends a call early: a failed \<open>assert\<close> (the sources are modelled with assertions
  compiled in, that is without \<open>NDEBUG\<close>), the \<open>std::runtime_error\<close> thrown by the
  \<open>VK_CHECK\<close> macro of \<open>utility.hpp\<close> when a driver call does not return \<open>VK_SUCCESS\<close>
  (the result code is kept), and a \<open>std::runtime_error\<close> thrown with a message.
\<close>

datatype error = AssertionFailed | VkError VkResult | RuntimeError string | UndefinedBehaviour

text \<open>
  \<open>UndefinedBehaviour\<close> stands for the places where C++ gives the program no meaning: a
  shift by the width of \<open>int\<close> or more, and a \<open>std::vector\<close> read past its end. The
  model stops there instead of computing with an arbitrary value.
\<close>

section \<open>h264parameterset.hpp\<close>

subsection \<open>Enumerations of the H.264 std video header that the sources use\<close>

datatype StdVideoH264ProfileIdc =
    STD_VIDEO_H264_PROFILE_IDC_BASELINE
  | STD_VIDEO_H264_PROFILE_IDC_MAIN
  | STD_VIDEO_H264_PROFILE_IDC_HIGH
  | STD_VIDEO_H264_PROFILE_IDC_HIGH_444_PREDICTIVE
  | STD_VIDEO_H264_PROFILE_IDC_INVALID

datatype StdVideoH264LevelIdc =
    STD_VIDEO_H264_LEVEL_IDC_1_0 | STD_VIDEO_H264_LEVEL_IDC_1_1 | STD_VIDEO_H264_LEVEL_IDC_1_2
  | STD_VIDEO_H264_LEVEL_IDC_1_3 | STD_VIDEO_H264_LEVEL_IDC_2_0 | STD_VIDEO_H264_LEVEL_IDC_2_1
  | STD_VIDEO_H264_LEVEL_IDC_2_2 | STD_VIDEO_H264_LEVEL_IDC_3_0 | STD_VIDEO_H264_LEVEL_IDC_3_1
  | STD_VIDEO_H264_LEVEL_IDC_3_2 | STD_VIDEO_H264_LEVEL_IDC_4_0 | STD_VIDEO_H264_LEVEL_IDC_4_1
  | STD_VIDEO_H264_LEVEL_IDC_4_2 | STD_VIDEO_H264_LEVEL_IDC_5_0 | STD_VIDEO_H264_LEVEL_IDC_5_1
  | STD_VIDEO_H264_LEVEL_IDC_5_2 | STD_VIDEO_H264_LEVEL_IDC_6_0 | STD_VIDEO_H264_LEVEL_IDC_6_1
  | STD_VIDEO_H264_LEVEL_IDC_6_2 | STD_VIDEO_H264_LEVEL_IDC_INVALID

datatype StdVideoH264ChromaFormatIdc =
    STD_VIDEO_H264_CHROMA_FORMAT_IDC_MONOCHROME
  | STD_VIDEO_H264_CHROMA_FORMAT_IDC_420
  | STD_VIDEO_H264_CHROMA_FORMAT_IDC_422
  | STD_VIDEO_H264_CHROMA_FORMAT_IDC_444
  | STD_VIDEO_H264_CHROMA_FORMAT_IDC_INVALID

datatype StdVideoH264PocType =
    STD_VIDEO_H264_POC_TYPE_0
  | STD_VIDEO_H264_POC_TYPE_1
  | STD_VIDEO_H264_POC_TYPE_2
  | STD_VIDEO_H264_POC_TYPE_INVALID

datatype StdVideoH264SliceType =
    STD_VIDEO_H264_SLICE_TYPE_P
  | STD_VIDEO_H264_SLICE_TYPE_B
  | STD_VIDEO_H264_SLICE_TYPE_I
  | STD_VIDEO_H264_SLICE_TYPE_INVALID

datatype StdVideoH264PictureType =
    STD_VIDEO_H264_PICTURE_TYPE_P
  | STD_VIDEO_H264_PICTURE_TYPE_B
  | STD_VIDEO_H264_PICTURE_TYPE_I
  | STD_VIDEO_H264_PICTURE_TYPE_IDR
  | STD_VIDEO_H264_PICTURE_TYPE_INVALID

text \<open>
  Two constants of the same header: the length of a reference picture list and the entry
  that marks an unused position of it.
\<close>

definition STD_VIDEO_H264_MAX_NUM_LIST_REF :: nat where
  "STD_VIDEO_H264_MAX_NUM_LIST_REF = 32"

definition STD_VIDEO_H264_NO_REFERENCE_PICTURE :: uint8_t where
  "STD_VIDEO_H264_NO_REFERENCE_PICTURE = 0xFF"

subsection \<open>Parameter-set structures\<close>

text \<open>
  Each structure is a record of the fields the sources assign or read. The sources
  value-initialise every structure (\<open>= {}\<close>) before they fill it in, so each record has a
  zero value from which the builders start; one-bit flag fields are booleans. A pointer
  to a structure is the structure itself, or \<open>None\<close> for a null pointer.
\<close>

record StdVideoH264SpsVuiFlags =
  timing_info_present_flag :: bool
  fixed_frame_rate_flag :: bool

record StdVideoH264SequenceParameterSetVui =
  vui_flags :: StdVideoH264SpsVuiFlags
  num_units_in_tick :: uint32_t
  time_scale :: uint32_t

record StdVideoH264SpsFlags =
  direct_8x8_inference_flag :: bool
  frame_mbs_only_flag :: bool
  frame_cropping_flag :: bool
  vui_parameters_present_flag :: bool

record StdVideoH264SequenceParameterSet =
  sps_flags :: StdVideoH264SpsFlags
  profile_idc :: StdVideoH264ProfileIdc
  level_idc :: StdVideoH264LevelIdc
  chroma_format_idc :: StdVideoH264ChromaFormatIdc
  sps_seq_parameter_set_id :: uint8_t
  bit_depth_luma_minus8 :: uint8_t
  bit_depth_chroma_minus8 :: uint8_t
  log2_max_frame_num_minus4 :: uint8_t
  pic_order_cnt_type :: StdVideoH264PocType
  log2_max_pic_order_cnt_lsb_minus4 :: uint8_t
  max_num_ref_frames :: uint8_t
  pic_width_in_mbs_minus1 :: uint32_t
  pic_height_in_map_units_minus1 :: uint32_t
  frame_crop_left_offset :: uint32_t
  frame_crop_right_offset :: uint32_t
  frame_crop_top_offset :: uint32_t
  frame_crop_bottom_offset :: uint32_t
  pSequenceParameterSetVui :: "StdVideoH264SequenceParameterSetVui option"

record StdVideoH264PpsFlags =
  transform_8x8_mode_flag :: bool
  constrained_intra_pred_flag :: bool
  deblocking_filter_control_present_flag :: bool
  entropy_coding_mode_flag :: bool

record StdVideoH264PictureParameterSet =
  pps_flags :: StdVideoH264PpsFlags
  pps_seq_parameter_set_id :: uint8_t
  pic_parameter_set_id :: uint8_t
  num_ref_idx_l0_default_active_minus1 :: uint8_t
  pic_init_qp_minus26 :: int8_t

text \<open>
  The value-initialised structures. An enumeration field starts at its enumerator of
  value 0; \<open>profile_idc\<close> has none (its least enumerator is 66) and is shown with its
  first one: the builder overwrites it before the structure is used.
\<close>

definition zero_vui :: StdVideoH264SequenceParameterSetVui where
  "zero_vui =
     \<lparr> vui_flags = \<lparr> timing_info_present_flag = False, fixed_frame_rate_flag = False \<rparr>,
       num_units_in_tick = 0, time_scale = 0 \<rparr>"

definition zero_sps_flags :: StdVideoH264SpsFlags where
  "zero_sps_flags =
     \<lparr> direct_8x8_inference_flag = False, frame_mbs_only_flag = False,
       frame_cropping_flag = False, vui_parameters_present_flag = False \<rparr>"

definition zero_sps :: StdVideoH264SequenceParameterSet where
  "zero_sps =
     \<lparr> sps_flags = zero_sps_flags,
       profile_idc = STD_VIDEO_H264_PROFILE_IDC_BASELINE,
       level_idc = STD_VIDEO_H264_LEVEL_IDC_1_0,
       chroma_format_idc = STD_VIDEO_H264_CHROMA_FORMAT_IDC_MONOCHROME,
       sps_seq_parameter_set_id = 0,
       bit_depth_luma_minus8 = 0,
       bit_depth_chroma_minus8 = 0,
       log2_max_frame_num_minus4 = 0,
       pic_order_cnt_type = STD_VIDEO_H264_POC_TYPE_0,
       log2_max_pic_order_cnt_lsb_minus4 = 0,
       max_num_ref_frames = 0,
       pic_width_in_mbs_minus1 = 0,
       pic_height_in_map_units_minus1 = 0,
       frame_crop_left_offset = 0,
       frame_crop_right_offset = 0,
       frame_crop_top_offset = 0,
       frame_crop_bottom_offset = 0,
       pSequenceParameterSetVui = None \<rparr>"

definition zero_pps :: StdVideoH264PictureParameterSet where
  "zero_pps =
     \<lparr> pps_flags = \<lparr> transform_8x8_mode_flag = False, constrained_intra_pred_flag = False,
                     deblocking_filter_control_present_flag = False,
                     entropy_coding_mode_flag = False \<rparr>,
       pps_seq_parameter_set_id = 0,
       pic_parameter_set_id = 0,
       num_ref_idx_l0_default_active_minus1 = 0,
       pic_init_qp_minus26 = 0 \<rparr>"

subsection \<open>The parameter-set builders\<close>

definition H264MbSizeAlignment :: uint32_t where
  "H264MbSizeAlignment = 16"

text \<open>
  \<open>AlignSize\<close> asserts that the alignment is zero or a power of two, then rounds up with a
  mask. The sum \<open>size + alignment - 1\<close> is computed in the operand type and wraps.
\<close>

definition AlignSize :: "'a::len word \<Rightarrow> 'a word \<Rightarrow> error + 'a word" where
  "AlignSize sz alignment =
     (if alignment AND (alignment - 1) \<noteq> 0 then Inl AssertionFailed
      else Inr ((sz + alignment - 1) AND NOT (alignment - 1)))"

definition getStdVideoH264SequenceParameterSetVui ::
    "uint32_t \<Rightarrow> StdVideoH264SequenceParameterSetVui" where
  "getStdVideoH264SequenceParameterSetVui fps =
     (let vuiFlags = \<lparr> timing_info_present_flag = True, fixed_frame_rate_flag = True \<rparr>
      in zero_vui \<lparr> vui_flags := vuiFlags, num_units_in_tick := 1, time_scale := fps * 2 \<rparr>)"

definition getStdVideoH264SequenceParameterSet ::
    "uint32_t \<Rightarrow> uint32_t \<Rightarrow> StdVideoH264SequenceParameterSetVui option
       \<Rightarrow> error + StdVideoH264SequenceParameterSet" where
  "getStdVideoH264SequenceParameterSet width height pVui =
     (let spsFlags = zero_sps_flags
            \<lparr> direct_8x8_inference_flag := True,
              frame_mbs_only_flag := True,
              vui_parameters_present_flag := (if pVui = None then False else True) \<rparr>
      in case AlignSize width H264MbSizeAlignment of
           Inl e \<Rightarrow> Inl e
         | Inr mbAlignedWidth \<Rightarrow>
       (case AlignSize height H264MbSizeAlignment of
           Inl e \<Rightarrow> Inl e
         | Inr mbAlignedHeight \<Rightarrow>
       (let sps = zero_sps
              \<lparr> profile_idc := STD_VIDEO_H264_PROFILE_IDC_MAIN,
                level_idc := STD_VIDEO_H264_LEVEL_IDC_4_1,
                sps_seq_parameter_set_id := 0,
                chroma_format_idc := STD_VIDEO_H264_CHROMA_FORMAT_IDC_420,
                bit_depth_luma_minus8 := 0,
                bit_depth_chroma_minus8 := 0,
                log2_max_frame_num_minus4 := 0,
                pic_order_cnt_type := STD_VIDEO_H264_POC_TYPE_0,
                max_num_ref_frames := 1,
                pic_width_in_mbs_minus1 := mbAlignedWidth div H264MbSizeAlignment - 1,
                pic_height_in_map_units_minus1 := mbAlignedHeight div H264MbSizeAlignment - 1,
                sps_flags := spsFlags,
                pSequenceParameterSetVui := pVui,
                frame_crop_right_offset := mbAlignedWidth - width,
                frame_crop_bottom_offset := mbAlignedHeight - height,
                log2_max_pic_order_cnt_lsb_minus4 := 4 \<rparr>
        in if frame_crop_right_offset sps \<noteq> 0 \<or> frame_crop_bottom_offset sps \<noteq> 0
           then
             (let sps1 = sps \<lparr> sps_flags := (sps_flags sps) \<lparr> frame_cropping_flag := True \<rparr> \<rparr>
              in if chroma_format_idc sps1 = STD_VIDEO_H264_CHROMA_FORMAT_IDC_420
                 then Inr (sps1 \<lparr> frame_crop_right_offset := drop_bit 1 (frame_crop_right_offset sps1),
                                 frame_crop_bottom_offset := drop_bit 1 (frame_crop_bottom_offset sps1) \<rparr>)
                 else Inr sps1)
           else Inr sps)))"

definition getStdVideoH264PictureParameterSet :: StdVideoH264PictureParameterSet where
  "getStdVideoH264PictureParameterSet =
     (let ppsFlags = \<lparr> transform_8x8_mode_flag = False,
                       constrained_intra_pred_flag = False,
                       deblocking_filter_control_present_flag = True,
                       entropy_coding_mode_flag = True \<rparr>
      in zero_pps \<lparr> pps_seq_parameter_set_id := 0,
                    pic_parameter_set_id := 0,
                    num_ref_idx_l0_default_active_minus1 := 0,
                    pps_flags := ppsFlags \<rparr>)"

subsection \<open>Per-frame picture information: the class FrameInfo\<close>

datatype StdVideoH264CabacInitIdc =
    STD_VIDEO_H264_CABAC_INIT_IDC_0
  | STD_VIDEO_H264_CABAC_INIT_IDC_1
  | STD_VIDEO_H264_CABAC_INIT_IDC_2
  | STD_VIDEO_H264_CABAC_INIT_IDC_INVALID

datatype StdVideoH264DisableDeblockingFilterIdc =
    STD_VIDEO_H264_DISABLE_DEBLOCKING_FILTER_IDC_DISABLED
  | STD_VIDEO_H264_DISABLE_DEBLOCKING_FILTER_IDC_ENABLED
  | STD_VIDEO_H264_DISABLE_DEBLOCKING_FILTER_IDC_PARTIAL
  | STD_VIDEO_H264_DISABLE_DEBLOCKING_FILTER_IDC_INVALID

text \<open>
  Field names that occur in more than one C structure carry a prefix here (\<open>sh_\<close> for the
  slice header, \<open>pic_\<close> for the picture info, and so on), since a record field is a
  constant of the theory. A member that points to another member of the same object is
  the pointee's value at the time the driver reads it, which is after the constructor
  has returned.
\<close>

record StdVideoEncodeH264SliceHeaderFlags =
  direct_spatial_mv_pred_flag :: bool
  num_ref_idx_active_override_flag :: bool

record StdVideoEncodeH264SliceHeader =
  sh_flags :: StdVideoEncodeH264SliceHeaderFlags
  slice_type :: StdVideoH264SliceType
  cabac_init_idc :: StdVideoH264CabacInitIdc
  disable_deblocking_filter_idc :: StdVideoH264DisableDeblockingFilterIdc
  slice_alpha_c0_offset_div2 :: int8_t
  slice_beta_offset_div2 :: int8_t

record VkVideoEncodeH264NaluSliceInfoKHR =
  constantQp :: int32_t
  pStdSliceHeader :: StdVideoEncodeH264SliceHeader

record StdVideoEncodeH264PictureInfoFlags =
  IdrPicFlag :: bool
  is_reference :: bool
  no_output_of_prior_pics_flag :: bool
  adaptive_ref_pic_marking_mode_flag :: bool

record StdVideoEncodeH264ReferenceListsInfo =
  num_ref_idx_l0_active_minus1 :: uint8_t
  num_ref_idx_l1_active_minus1 :: uint8_t
  RefPicList0 :: "uint8_t list"
  RefPicList1 :: "uint8_t list"

record StdVideoEncodeH264PictureInfo =
  pic_flags :: StdVideoEncodeH264PictureInfoFlags
  pic_seq_parameter_set_id :: uint8_t
  pic_pic_parameter_set_id :: uint8_t
  idr_pic_id :: "16 word"
  pic_primary_pic_type :: StdVideoH264PictureType
  frame_num :: uint32_t
  pic_PicOrderCnt :: int32_t
  pRefLists :: StdVideoEncodeH264ReferenceListsInfo

record VkVideoEncodeH264PictureInfoKHR =
  naluSliceEntryCount :: uint32_t
  pNaluSliceEntries :: VkVideoEncodeH264NaluSliceInfoKHR
  pStdPictureInfo :: StdVideoEncodeH264PictureInfo

record FrameInfo =
  m_sliceHeaderFlags :: StdVideoEncodeH264SliceHeaderFlags
  m_sliceHeader :: StdVideoEncodeH264SliceHeader
  m_sliceInfo :: VkVideoEncodeH264NaluSliceInfoKHR
  m_pictureInfoFlags :: StdVideoEncodeH264PictureInfoFlags
  m_stdPictureInfo :: StdVideoEncodeH264PictureInfo
  m_encodeH264FrameInfo :: VkVideoEncodeH264PictureInfoKHR
  m_referenceLists :: StdVideoEncodeH264ReferenceListsInfo

text \<open>
  \<open>1 << n\<close> as both sources write it for \<open>MaxPicOrderCntLsb\<close>: the shift is computed in
  \<open>int\<close> and the result converted to \<open>uint32_t\<close>. The sources are C++20 (they use
  designated initialisers), where the shift has a value for every \<open>n\<close> below 32 and none
  from 32 on.
\<close>

definition shift_one_left :: "nat \<Rightarrow> error + uint32_t" where
  "shift_one_left n = (if n < 32 then Inr (push_bit n 1) else Inl UndefinedBehaviour)"

text \<open>
  The constructor of \<open>FrameInfo\<close>. Its parameters \<open>width\<close> and \<open>height\<close> are not used by
  the source for any member (only for the local \<open>iPicSizeInMbs\<close>, which is not used
  either). \<open>useConstantQp\<close> is a \<open>bool\<close> parameter.
\<close>

definition FrameInfo ::
    "uint32_t \<Rightarrow> uint32_t \<Rightarrow> uint32_t \<Rightarrow> StdVideoH264SequenceParameterSet
       \<Rightarrow> StdVideoH264PictureParameterSet \<Rightarrow> uint32_t \<Rightarrow> bool \<Rightarrow> error + FrameInfo" where
  "FrameInfo frameCount width height sps pps gopFrameCount useConstantQp =
     (let isI = (gopFrameCount = 0)
      in case shift_one_left (unat (log2_max_pic_order_cnt_lsb_minus4 sps) + 4) of
           Inl e \<Rightarrow> Inl e
         | Inr MaxPicOrderCntLsb \<Rightarrow>
       (let sliceHeaderFlags =
              \<lparr> direct_spatial_mv_pred_flag = True, num_ref_idx_active_override_flag = False \<rparr>;
            sliceHeader =
              \<lparr> sh_flags = sliceHeaderFlags,
                slice_type = (if isI then STD_VIDEO_H264_SLICE_TYPE_I else STD_VIDEO_H264_SLICE_TYPE_P),
                cabac_init_idc = STD_VIDEO_H264_CABAC_INIT_IDC_0,
                disable_deblocking_filter_idc = STD_VIDEO_H264_DISABLE_DEBLOCKING_FILTER_IDC_DISABLED,
                slice_alpha_c0_offset_div2 = 0,
                slice_beta_offset_div2 = 0 \<rparr>;
            sliceInfo =
              \<lparr> constantQp = (if useConstantQp then scast (pic_init_qp_minus26 pps) + 26 else 0),
                pStdSliceHeader = sliceHeader \<rparr>;
            pictureInfoFlags =
              \<lparr> IdrPicFlag = isI,
                is_reference = True,
                no_output_of_prior_pics_flag = isI,
                adaptive_ref_pic_marking_mode_flag = False \<rparr>;
            filled = replicate STD_VIDEO_H264_MAX_NUM_LIST_REF STD_VIDEO_H264_NO_REFERENCE_PICTURE;
            referenceLists =
              \<lparr> num_ref_idx_l0_active_minus1 = 0,
                num_ref_idx_l1_active_minus1 = 0,
                RefPicList0 =
                  (if \<not> isI then filled [0 := (if gopFrameCount AND 1 = 0 then 1 else 0)]
                   else filled),
                RefPicList1 = filled \<rparr>;
            stdPictureInfo =
              \<lparr> pic_flags = pictureInfoFlags,
                pic_seq_parameter_set_id = 0,
                pic_pic_parameter_set_id = pic_parameter_set_id pps,
                idr_pic_id = 0,
                pic_primary_pic_type =
                  (if isI then STD_VIDEO_H264_PICTURE_TYPE_IDR else STD_VIDEO_H264_PICTURE_TYPE_P),
                frame_num = frameCount,
                pic_PicOrderCnt = (frameCount * 2) mod MaxPicOrderCntLsb,
                pRefLists = referenceLists \<rparr>;
            encodeH264FrameInfo =
              \<lparr> naluSliceEntryCount = 1,
                pNaluSliceEntries = sliceInfo,
                pStdPictureInfo = stdPictureInfo \<rparr>
        in Inr \<lparr> m_sliceHeaderFlags = sliceHeaderFlags,
                 m_sliceHeader = sliceHeader,
                 m_sliceInfo = sliceInfo,
                 m_pictureInfoFlags = pictureInfoFlags,
                 m_stdPictureInfo = stdPictureInfo,
                 m_encodeH264FrameInfo = encodeH264FrameInfo,
                 m_referenceLists = referenceLists \<rparr>))"

definition getEncodeH264FrameInfo :: "FrameInfo \<Rightarrow> VkVideoEncodeH264PictureInfoKHR" where
  "getEncodeH264FrameInfo fi = m_encodeH264FrameInfo fi"

section \<open>videoencoder.cpp\<close>

subsection \<open>Driver objects\<close>

text \<open>
  A Vulkan handle is named after the member (or local variable) of \<open>VideoEncoder\<close> that
  holds it; the elements of a vector member carry their index. The owner of the encoder
  passes the input images and their views in.
\<close>

datatype VkSemaphore = InterQueueSemaphore | InterQueueSemaphore2 | InterQueueSemaphore3

datatype VkQueue = ComputeQueue | EncodeQueue

datatype VkCommandBuffer = InitCommandBuffer | ComputeCommandBuffer | EncodeCommandBuffer

datatype VkImage = InputImage nat | DpbImage nat | YCbCrImage | YCbCrImageLuma | YCbCrImageChroma

datatype VkImageView =
    InputImageView nat | DpbImageView nat | YCbCrImageView | YCbCrImageLumaView
  | YCbCrImageChromaView

text \<open>
  Everything the encoder creates and has to release again. An image stands for the pair
  of image and allocation that \<open>vmaCreateImage\<close> makes and \<open>vmaDestroyImage\<close> releases;
  \<open>BitStreamBuffer\<close> likewise for \<open>vmaCreateBuffer\<close>, and \<open>BitStreamMapping\<close> for the
  mapping that \<open>vmaMapMemory\<close> makes and \<open>vmaUnmapMemory\<close> ends. Descriptor sets belong
  to their pool and go with it.
\<close>

datatype handle =
    EncodeCommandPool
  | VideoSession
  | Allocation nat
  | VideoSessionParameters
  | BitStreamBuffer
  | BitStreamMapping
  | Image VkImage
  | ImageView VkImageView
  | QueryPool
  | ShaderModule
  | ComputeDescriptorSetLayout
  | ComputePipelineLayout
  | ComputePipeline
  | DescriptorPool
  | Semaphore VkSemaphore
  | EncodeFinishedFence
  | CommandBuffer VkCommandBuffer

subsection \<open>Structures of the encode command\<close>

record VkVideoPictureResourceInfoKHR =
  imageViewBinding :: VkImageView
  codedOffset :: "int32_t \<times> int32_t"
  codedExtent :: "uint32_t \<times> uint32_t"
  baseArrayLayer :: uint32_t

record StdVideoEncodeH264ReferenceInfo =
  ref_primary_pic_type :: StdVideoH264PictureType
  FrameNum :: uint32_t
  ref_PicOrderCnt :: int32_t

record VkVideoEncodeH264DpbSlotInfoKHR =
  pStdReferenceInfo :: StdVideoEncodeH264ReferenceInfo

record VkVideoReferenceSlotInfoKHR =
  slot_pNext :: VkVideoEncodeH264DpbSlotInfoKHR
  slotIndex :: int32_t
  pPictureResource :: VkVideoPictureResourceInfoKHR

text \<open>
  \<open>begin_rateControl\<close> tells whether the rate-control structures of the encoder hang on
  \<open>pNext\<close>; their contents are not modelled. \<open>begin_pReferenceSlots\<close> is the array the
  pointer leads to, of which the driver reads the first \<open>begin_referenceSlotCount\<close>.
\<close>

record VkVideoBeginCodingInfoKHR =
  begin_rateControl :: bool
  begin_referenceSlotCount :: uint32_t
  begin_pReferenceSlots :: "VkVideoReferenceSlotInfoKHR list"

record VkVideoEncodeInfoKHR =
  enc_pNext :: VkVideoEncodeH264PictureInfoKHR
  dstBufferOffset :: nat
  dstBufferRange :: nat
  srcPictureResource :: VkVideoPictureResourceInfoKHR
  pSetupReferenceSlot :: VkVideoReferenceSlotInfoKHR
  enc_referenceSlotCount :: uint32_t
  enc_pReferenceSlots :: "VkVideoReferenceSlotInfoKHR list"

record VkSubmitInfo =
  pWaitSemaphores :: "VkSemaphore list"
  pCommandBuffers :: "VkCommandBuffer list"
  pSignalSemaphores :: "VkSemaphore list"

subsection \<open>Driver calls and their trace\<close>

text \<open>
  A command recorded into a command buffer, with the arguments the encoder chooses.
  Pipeline barriers keep the images they transition.
\<close>

datatype command =
    CmdResetQueryPool
  | CmdBeginVideoCodingKHR VkVideoBeginCodingInfoKHR
  | CmdControlVideoCodingKHR
  | CmdEndVideoCodingKHR
  | CmdPipelineBarrier2 "VkImage list"
  | CmdBindPipeline
  | CmdBindDescriptorSets nat
  | CmdDispatch uint32_t uint32_t uint32_t
  | CmdCopyImage VkImage VkImage "uint32_t \<times> uint32_t"
  | CmdBeginQuery
  | CmdEncodeVideoKHR VkVideoEncodeInfoKHR
  | CmdEndQuery

text \<open>
  A call into Vulkan or the memory allocator. \<open>Create\<close> is any call that makes the
  handle (\<open>vkCreate...\<close>, \<open>vmaCreate...\<close>, \<open>vmaAllocateMemory\<close>, \<open>vmaMapMemory\<close>,
  \<open>vkAllocateCommandBuffers\<close>), \<open>Destroy\<close> the call that releases it (\<open>vkDestroy...\<close>,
  \<open>vmaDestroy...\<close>, \<open>vmaFreeMemory\<close>, \<open>vmaUnmapMemory\<close>, \<open>vkFreeCommandBuffers\<close>), and
  \<open>GetInfo\<close> a query of the driver named by its function. \<open>QueueSubmit\<close> carries the
  queue, the submit info and whether \<open>m_encodeFinishedFence\<close> is passed.
\<close>

datatype vkcall =
    Create handle
  | Destroy handle
  | GetInfo string
  | BindVideoSessionMemory nat
  | AllocateDescriptorSets nat
  | UpdateDescriptorSets nat
  | BeginCommandBuffer VkCommandBuffer
  | EndCommandBuffer VkCommandBuffer
  | Cmd VkCommandBuffer command
  | ResetFences
  | QueueSubmit VkQueue VkSubmitInfo bool
  | WaitForFences
  | GetQueryPoolResults
  | InvalidateAllocation uint32_t uint32_t

text \<open>
  What the encoder reads back from the feedback query: the local structure
  \<open>videoEncodeStatus\<close> of \<open>getOutputVideoPacket\<close>.
\<close>

record videoEncodeStatus =
  bitstreamStartOffset :: uint32_t
  bitstreamSize :: uint32_t
  status :: int32_t

text \<open>
  The driver, as far as the encoder observes it. \<open>result n\<close> is the result code of the
  driver call the encoder makes when it has made \<open>n\<close> calls before, so a driver may fail
  any call at any time; \<open>encodeResult n\<close> is the feedback that a query read at that
  moment returns. The other fields are what the queries of \<open>init\<close> report: the supported
  rate-control modes, the formats for encode sources and for reference pictures, the
  number of memory bindings of the session, the encoded parameter sets, and the contents
  of the shader file (\<open>None\<close> when it cannot be opened).
\<close>

record driver =
  result :: "nat \<Rightarrow> VkResult"
  encodeResult :: "nat \<Rightarrow> videoEncodeStatus"
  rateControlModes :: uint32_t
  srcVideoFormatProperties :: "int list"
  dpbVideoFormatProperties :: "int list"
  videoSessionMemoryRequirementsCount :: nat
  encodedVideoSessionParameters :: "uint8_t list"
  shaderFile :: "uint8_t list option"

subsection \<open>The encoder object\<close>

text \<open>
  The members of \<open>VideoEncoder\<close> that decide what the encoder does. A vector of handles
  is the list of its elements. Members that only hold a handle are left to the names of
  \<open>handle\<close>; the rate-control structures, the formats and the queue families are not
  modelled. \<open>calls\<close> is not a member: it is the trace of the driver calls made through
  the object so far, oldest first.
\<close>

record VideoEncoder =
  m_initialized :: bool
  m_running :: bool
  m_inputImages :: "VkImage list"
  m_width :: uint32_t
  m_height :: uint32_t
  m_allocations :: "handle list"
  m_vui :: StdVideoH264SequenceParameterSetVui
  m_sps :: StdVideoH264SequenceParameterSet
  m_pps :: StdVideoH264PictureParameterSet
  m_chosenRateControlMode :: uint32_t
  m_computeDescriptorSets :: "nat list"
  m_bitStreamHeader :: "uint8_t list"
  m_bitStreamHeaderPending :: bool
  m_dpbImages :: "VkImage list"
  m_dpbImageViews :: "VkImageView list"
  m_frameCount :: uint32_t
  calls :: "vkcall list"

text \<open>
  What \<open>finishEncode\<close> hands back through its reference parameters: \<open>out_data\<close> is
  \<open>None\<close> when the call leaves \<open>data\<close> unassigned, and otherwise points to the first byte
  of \<open>m_bitStreamHeader\<close> or into the mapped output buffer at the given offset.
\<close>

datatype pointer = BitStreamHeaderData | BitStreamData nat

record packet =
  out_data :: "pointer option"
  out_size :: nat

subsection \<open>Sequencing\<close>

definition bindE :: "error + 'a \<Rightarrow> ('a \<Rightarrow> error + 'b) \<Rightarrow> error + 'b" where
  "bindE m f = (case m of Inl e \<Rightarrow> Inl e | Inr x \<Rightarrow> f x)"

text \<open>
  A driver call is either wrapped in \<open>VK_CHECK\<close>, which throws unless the call returns
  \<open>VK_SUCCESS\<close>, or made unchecked (the \<open>void\<close> functions). A call that returns is added
  to the trace.
\<close>

datatype step = Checked vkcall | Unchecked vkcall

fun call_of :: "step \<Rightarrow> vkcall" where
  "call_of (Checked c) = c"
| "call_of (Unchecked c) = c"

fun run_steps :: "driver \<Rightarrow> step list \<Rightarrow> VideoEncoder \<Rightarrow> error + VideoEncoder" where
  "run_steps drv [] s = Inr s"
| "run_steps drv (Unchecked c # sts) s = run_steps drv sts (s \<lparr> calls := calls s @ [c] \<rparr>)"
| "run_steps drv (Checked c # sts) s =
     (if result drv (length (calls s)) = VK_SUCCESS
      then run_steps drv sts (s \<lparr> calls := calls s @ [c] \<rparr>)
      else Inl (VkError (result drv (length (calls s)))))"

text \<open>\<open>operator[]\<close> of \<open>std::vector\<close>: no meaning past the end.\<close>

definition vector_at :: "'a list \<Rightarrow> nat \<Rightarrow> error + 'a" where
  "vector_at xs i = (if i < length xs then Inr (xs ! i) else Inl UndefinedBehaviour)"

subsection \<open>Constants of the Vulkan headers\<close>

definition VK_VIDEO_ENCODE_RATE_CONTROL_MODE_DEFAULT_KHR :: uint32_t where
  "VK_VIDEO_ENCODE_RATE_CONTROL_MODE_DEFAULT_KHR = 0"

definition VK_VIDEO_ENCODE_RATE_CONTROL_MODE_DISABLED_BIT_KHR :: uint32_t where
  "VK_VIDEO_ENCODE_RATE_CONTROL_MODE_DISABLED_BIT_KHR = 1"

definition VK_VIDEO_ENCODE_RATE_CONTROL_MODE_CBR_BIT_KHR :: uint32_t where
  "VK_VIDEO_ENCODE_RATE_CONTROL_MODE_CBR_BIT_KHR = 2"

definition VK_VIDEO_ENCODE_RATE_CONTROL_MODE_VBR_BIT_KHR :: uint32_t where
  "VK_VIDEO_ENCODE_RATE_CONTROL_MODE_VBR_BIT_KHR = 4"

definition VK_FORMAT_UNDEFINED :: int where
  "VK_FORMAT_UNDEFINED = 0"

definition VK_FORMAT_G8_B8R8_2PLANE_420_UNORM :: int where
  "VK_FORMAT_G8_B8R8_2PLANE_420_UNORM = 1000156003"

subsection \<open>The helpers of init\<close>

definition createEncodeCommandPool :: "driver \<Rightarrow> VideoEncoder \<Rightarrow> error + VideoEncoder" where
  "createEncodeCommandPool drv s = run_steps drv [Checked (Create EncodeCommandPool)] s"

text \<open>
  \<open>createVideoSession\<close> picks the rate-control mode from the reported capabilities and
  throws when the driver offers no usable source format or no reference format.
\<close>

definition createVideoSession :: "driver \<Rightarrow> VideoEncoder \<Rightarrow> error + VideoEncoder" where
  "createVideoSession drv s =
     bindE (run_steps drv [Checked (GetInfo ''vkGetPhysicalDeviceVideoCapabilitiesKHR'')] s)
     (\<lambda>s1.
       let mode =
             (if rateControlModes drv AND VK_VIDEO_ENCODE_RATE_CONTROL_MODE_VBR_BIT_KHR \<noteq> 0
              then VK_VIDEO_ENCODE_RATE_CONTROL_MODE_VBR_BIT_KHR
              else if rateControlModes drv AND VK_VIDEO_ENCODE_RATE_CONTROL_MODE_CBR_BIT_KHR \<noteq> 0
              then VK_VIDEO_ENCODE_RATE_CONTROL_MODE_CBR_BIT_KHR
              else if rateControlModes drv AND VK_VIDEO_ENCODE_RATE_CONTROL_MODE_DISABLED_BIT_KHR \<noteq> 0
              then VK_VIDEO_ENCODE_RATE_CONTROL_MODE_DISABLED_BIT_KHR
              else VK_VIDEO_ENCODE_RATE_CONTROL_MODE_DEFAULT_KHR);
           s2 = s1 \<lparr> m_chosenRateControlMode := mode \<rparr>
       in
     bindE (run_steps drv
              [Checked (GetInfo ''vkGetPhysicalDeviceVideoEncodeQualityLevelPropertiesKHR''),
               Checked (GetInfo ''vkGetPhysicalDeviceVideoFormatPropertiesKHR''),
               Checked (GetInfo ''vkGetPhysicalDeviceVideoFormatPropertiesKHR'')] s2)
     (\<lambda>s3.
       if VK_FORMAT_G8_B8R8_2PLANE_420_UNORM \<notin> set (srcVideoFormatProperties drv)
       then Inl (RuntimeError ''Error: no supported video encode source image format'')
       else
     bindE (run_steps drv
              [Checked (GetInfo ''vkGetPhysicalDeviceVideoFormatPropertiesKHR''),
               Checked (GetInfo ''vkGetPhysicalDeviceVideoFormatPropertiesKHR'')] s3)
     (\<lambda>s4.
       if length (dpbVideoFormatProperties drv) < 1
       then Inl (RuntimeError ''Error: no supported video encode DPB image format'')
       else run_steps drv [Checked (Create VideoSession)] s4)))"

definition allocateVideoSessionMemory :: "driver \<Rightarrow> VideoEncoder \<Rightarrow> error + VideoEncoder" where
  "allocateVideoSessionMemory drv s =
     bindE (run_steps drv
              [Checked (GetInfo ''vkGetVideoSessionMemoryRequirementsKHR''),
               Checked (GetInfo ''vkGetVideoSessionMemoryRequirementsKHR'')] s)
     (\<lambda>s1.
       let n = videoSessionMemoryRequirementsCount drv
       in if n = 0 then Inr s1
          else run_steps drv
                 (map (\<lambda>memIdx. Checked (Create (Allocation memIdx))) [0..<n]
                  @ [Checked (BindVideoSessionMemory n)])
                 (s1 \<lparr> m_allocations := map Allocation [0..<n] \<rparr>))"

definition createVideoSessionParameters ::
    "driver \<Rightarrow> uint32_t \<Rightarrow> VideoEncoder \<Rightarrow> error + VideoEncoder" where
  "createVideoSessionParameters drv fps s =
     (let vui = getStdVideoH264SequenceParameterSetVui fps
      in bindE (getStdVideoH264SequenceParameterSet (m_width s) (m_height s) (Some vui))
         (\<lambda>sps.
           run_steps drv [Checked (Create VideoSessionParameters)]
             (s \<lparr> m_vui := vui, m_sps := sps, m_pps := getStdVideoH264PictureParameterSet \<rparr>)))"

definition readBitstreamHeader :: "driver \<Rightarrow> VideoEncoder \<Rightarrow> error + VideoEncoder" where
  "readBitstreamHeader drv s =
     bindE (run_steps drv
              [Checked (GetInfo ''vkGetEncodedVideoSessionParametersKHR''),
               Checked (GetInfo ''vkGetEncodedVideoSessionParametersKHR'')] s)
     (\<lambda>s1. Inr (s1 \<lparr> m_bitStreamHeader := encodedVideoSessionParameters drv,
                     m_bitStreamHeaderPending := True \<rparr>))"

definition allocateOutputBitStream :: "driver \<Rightarrow> VideoEncoder \<Rightarrow> error + VideoEncoder" where
  "allocateOutputBitStream drv s =
     run_steps drv [Checked (Create BitStreamBuffer), Checked (Create BitStreamMapping)] s"

definition allocateReferenceImages :: "driver \<Rightarrow> nat \<Rightarrow> VideoEncoder \<Rightarrow> error + VideoEncoder" where
  "allocateReferenceImages drv count s =
     run_steps drv
       (concat (map (\<lambda>i. [Checked (Create (Image (DpbImage i))),
                           Checked (Create (ImageView (DpbImageView i)))]) [0..<count]))
       (s \<lparr> m_dpbImages := map DpbImage [0..<count],
            m_dpbImageViews := map DpbImageView [0..<count] \<rparr>)"

definition allocateIntermediateImages :: "driver \<Rightarrow> VideoEncoder \<Rightarrow> error + VideoEncoder" where
  "allocateIntermediateImages drv s =
     run_steps drv
       [Checked (Create (Image YCbCrImage)),
        Checked (Create (ImageView YCbCrImageView)),
        Checked (Create (Image YCbCrImageLuma)),
        Checked (Create (ImageView YCbCrImageLumaView)),
        Checked (Create (Image YCbCrImageChroma)),
        Checked (Create (ImageView YCbCrImageChromaView))] s"

definition createOutputQueryPool :: "driver \<Rightarrow> VideoEncoder \<Rightarrow> error + VideoEncoder" where
  "createOutputQueryPool drv s = run_steps drv [Checked (Create QueryPool)] s"

definition createYCbCrConversionPipeline ::
    "driver \<Rightarrow> VkImageView list \<Rightarrow> VideoEncoder \<Rightarrow> error + VideoEncoder" where
  "createYCbCrConversionPipeline drv inputImageViews s =
     (case shaderFile drv of
        None \<Rightarrow> Inl (RuntimeError ''failed to open file: shaders/rgb-ycbcr-shader.comp.spv'')
      | Some computeShaderCode \<Rightarrow>
          (let maxFramesCount = length inputImageViews
           in run_steps drv
                ([Checked (Create ShaderModule),
                  Checked (Create ComputeDescriptorSetLayout),
                  Checked (Create ComputePipelineLayout),
                  Checked (Create ComputePipeline),
                  Unchecked (Destroy ShaderModule),
                  Checked (Create DescriptorPool),
                  Checked (AllocateDescriptorSets maxFramesCount)]
                 @ map (\<lambda>i. Unchecked (UpdateDescriptorSets i)) [0..<maxFramesCount])
                (s \<lparr> m_computeDescriptorSets := [0..<maxFramesCount] \<rparr>)))"

definition initRateControl :: "VkCommandBuffer \<Rightarrow> step list" where
  "initRateControl cmdBuf =
     [Unchecked (Cmd cmdBuf (CmdBeginVideoCodingKHR
        \<lparr> begin_rateControl = False, begin_referenceSlotCount = 0, begin_pReferenceSlots = [] \<rparr>)),
      Unchecked (Cmd cmdBuf CmdControlVideoCodingKHR),
      Unchecked (Cmd cmdBuf CmdEndVideoCodingKHR)]"

definition transitionImagesInitial :: "VkCommandBuffer \<Rightarrow> VideoEncoder \<Rightarrow> step list" where
  "transitionImagesInitial cmdBuf s = [Unchecked (Cmd cmdBuf (CmdPipelineBarrier2 (m_dpbImages s)))]"

subsection \<open>Retrieval and teardown\<close>

text \<open>
  \<open>getOutputVideoPacket\<close> waits for the fence, reads the feedback query (waiting for it)
  and returns the range of the output buffer that the driver reports.
\<close>

definition getOutputVideoPacket :: "driver \<Rightarrow> VideoEncoder \<Rightarrow> error + (packet \<times> VideoEncoder)" where
  "getOutputVideoPacket drv s =
     bindE (run_steps drv [Checked WaitForFences, Checked GetQueryPoolResults] s)
     (\<lambda>s1.
       let encodeResult = encodeResult drv (length (calls s1))
       in bindE (run_steps drv
                   [Unchecked (InvalidateAllocation (bitstreamStartOffset encodeResult)
                                 (bitstreamSize encodeResult))] s1)
          (\<lambda>s2. Inr (\<lparr> out_data = Some (BitStreamData (unat (bitstreamStartOffset encodeResult))),
                         out_size = unat (bitstreamSize encodeResult) \<rparr>, s2)))"

definition deinit :: "driver \<Rightarrow> VideoEncoder \<Rightarrow> error + VideoEncoder" where
  "deinit drv s =
     (if \<not> m_initialized s then Inr s
      else
        bindE (if m_running s
               then bindE (getOutputVideoPacket drv s)
                      (\<lambda>(p, s1). run_steps drv
                         [Unchecked (Destroy (CommandBuffer ComputeCommandBuffer)),
                          Unchecked (Destroy (CommandBuffer EncodeCommandBuffer))] s1)
               else Inr s)
        (\<lambda>s2.
          if length (m_dpbImageViews s2) < length (m_dpbImages s2) then Inl UndefinedBehaviour
          else
        bindE (run_steps drv
                 ([Unchecked (Destroy EncodeFinishedFence),
                   Unchecked (Destroy (Semaphore InterQueueSemaphore)),
                   Unchecked (Destroy (Semaphore InterQueueSemaphore2)),
                   Unchecked (Destroy (Semaphore InterQueueSemaphore3)),
                   Unchecked (Destroy ComputePipeline),
                   Unchecked (Destroy ComputePipelineLayout),
                   Unchecked (Destroy DescriptorPool),
                   Unchecked (Destroy ComputeDescriptorSetLayout),
                   Unchecked (Destroy VideoSessionParameters),
                   Unchecked (Destroy QueryPool),
                   Unchecked (Destroy BitStreamMapping),
                   Unchecked (Destroy BitStreamBuffer),
                   Unchecked (Destroy (ImageView YCbCrImageChromaView)),
                   Unchecked (Destroy (Image YCbCrImageChroma)),
                   Unchecked (Destroy (ImageView YCbCrImageLumaView)),
                   Unchecked (Destroy (Image YCbCrImageLuma)),
                   Unchecked (Destroy (ImageView YCbCrImageView)),
                   Unchecked (Destroy (Image YCbCrImage))]
                  @ concat (map (\<lambda>i. [Unchecked (Destroy (ImageView (m_dpbImageViews s2 ! i))),
                                        Unchecked (Destroy (Image (m_dpbImages s2 ! i)))])
                              [0..<length (m_dpbImages s2)])
                  @ [Unchecked (Destroy VideoSession)]
                  @ map (\<lambda>allocation. Unchecked (Destroy allocation)) (m_allocations s2)) s2)
        (\<lambda>s3.
        bindE (run_steps drv [Unchecked (Destroy EncodeCommandPool)]
                 (s3 \<lparr> m_allocations := [], m_bitStreamHeader := [] \<rparr>))
        (\<lambda>s4. Inr (s4 \<lparr> m_initialized := False \<rparr>)))))"

subsection \<open>Colour conversion\<close>

text \<open>
  The submit info of the conversion: it always signals \<open>m_interQueueSemaphore\<close> and
  \<open>m_interQueueSemaphore3\<close>, and waits on \<open>m_interQueueSemaphore2\<close> and
  \<open>m_interQueueSemaphore3\<close> unless the frame counter is 0.
\<close>

definition convert_submitInfo :: "VideoEncoder \<Rightarrow> VkSubmitInfo" where
  "convert_submitInfo s =
     (let signalSemaphores = [InterQueueSemaphore, InterQueueSemaphore3];
          waitSemaphores = [InterQueueSemaphore2, InterQueueSemaphore3];
          submitInfo = \<lparr> pWaitSemaphores = [],
                         pCommandBuffers = [ComputeCommandBuffer],
                         pSignalSemaphores = signalSemaphores \<rparr>
      in if m_frameCount s \<noteq> 0 then submitInfo \<lparr> pWaitSemaphores := waitSemaphores \<rparr>
         else submitInfo)"

definition convertRGBtoYCbCr :: "driver \<Rightarrow> nat \<Rightarrow> VideoEncoder \<Rightarrow> error + VideoEncoder" where
  "convertRGBtoYCbCr drv currentImageIx s =
     bindE (run_steps drv
              [Checked (Create (CommandBuffer ComputeCommandBuffer)),
               Checked (BeginCommandBuffer ComputeCommandBuffer)] s)
     (\<lambda>s1.
     bindE (vector_at (m_inputImages s1) currentImageIx)
     (\<lambda>inputImage.
     bindE (run_steps drv
              [Unchecked (Cmd ComputeCommandBuffer
                 (CmdPipelineBarrier2 [YCbCrImageLuma, YCbCrImageChroma, inputImage])),
               Unchecked (Cmd ComputeCommandBuffer CmdBindPipeline)] s1)
     (\<lambda>s2.
     bindE (vector_at (m_computeDescriptorSets s2) currentImageIx)
     (\<lambda>descriptorSet.
       run_steps drv
         [Unchecked (Cmd ComputeCommandBuffer (CmdBindDescriptorSets descriptorSet)),
          Unchecked (Cmd ComputeCommandBuffer
            (CmdDispatch ((m_width s2 + 15) div 16) ((m_height s2 + 15) div 16) 1)),
          Unchecked (Cmd ComputeCommandBuffer
            (CmdPipelineBarrier2 [YCbCrImageLuma, YCbCrImageChroma, YCbCrImage])),
          Unchecked (Cmd ComputeCommandBuffer
            (CmdCopyImage YCbCrImageLuma YCbCrImage (m_width s2, m_height s2))),
          Unchecked (Cmd ComputeCommandBuffer
            (CmdCopyImage YCbCrImageChroma YCbCrImage (m_width s2 div 2, m_height s2 div 2))),
          Checked (EndCommandBuffer ComputeCommandBuffer),
          Checked (QueueSubmit ComputeQueue (convert_submitInfo s2) False)] s2))))"

subsection \<open>Frame encode\<close>

definition GOP_LENGTH :: uint32_t where
  "GOP_LENGTH = 16"

text \<open>
  The local structures of \<open>encodeVideoFrame\<close>, each as a function of the locals it is
  built from. \<open>dpbView\<close> and \<open>refView\<close> are the elements \<open>gopFrameCount & 1\<close> and
  \<open>!(gopFrameCount & 1)\<close> of \<open>m_dpbImageViews\<close>.
\<close>

definition not_lsb :: "uint32_t \<Rightarrow> nat" where
  "not_lsb gopFrameCount = (if gopFrameCount AND 1 = 0 then 1 else 0)"

definition picResource :: "VkImageView \<Rightarrow> VideoEncoder \<Rightarrow> VkVideoPictureResourceInfoKHR" where
  "picResource view s =
     \<lparr> imageViewBinding = view, codedOffset = (0, 0),
       codedExtent = (m_width s, m_height s), baseArrayLayer = 0 \<rparr>"

definition dpbRefInfo :: "uint32_t \<Rightarrow> uint32_t \<Rightarrow> StdVideoEncodeH264ReferenceInfo" where
  "dpbRefInfo gopFrameCount MaxPicOrderCntLsb =
     \<lparr> ref_primary_pic_type =
         (if gopFrameCount = 0 then STD_VIDEO_H264_PICTURE_TYPE_IDR
          else STD_VIDEO_H264_PICTURE_TYPE_P),
       FrameNum = gopFrameCount,
       ref_PicOrderCnt = (gopFrameCount * 2) mod MaxPicOrderCntLsb \<rparr>"

definition refRefInfo :: "uint32_t \<Rightarrow> uint32_t \<Rightarrow> StdVideoEncodeH264ReferenceInfo" where
  "refRefInfo gopFrameCount MaxPicOrderCntLsb =
     \<lparr> ref_primary_pic_type =
         (if gopFrameCount - 1 = 0 then STD_VIDEO_H264_PICTURE_TYPE_IDR
          else STD_VIDEO_H264_PICTURE_TYPE_P),
       FrameNum = gopFrameCount - 1,
       ref_PicOrderCnt = ((gopFrameCount - 1) * 2) mod MaxPicOrderCntLsb \<rparr>"

text \<open>
  The array \<open>referenceSlots\<close>. Its element 0 has \<open>slotIndex\<close> -1 when the coding scope
  is begun and \<open>gopFrameCount & 1\<close> when the encode command is recorded: the source
  assigns the field twice, so the value is a parameter here.
\<close>

definition referenceSlots ::
    "int32_t \<Rightarrow> VkImageView \<Rightarrow> VkImageView \<Rightarrow> uint32_t \<Rightarrow> uint32_t \<Rightarrow> VideoEncoder
       \<Rightarrow> VkVideoReferenceSlotInfoKHR list" where
  "referenceSlots slotIndex0 dpbView refView gopFrameCount MaxPicOrderCntLsb s =
     [\<lparr> slot_pNext = \<lparr> pStdReferenceInfo = dpbRefInfo gopFrameCount MaxPicOrderCntLsb \<rparr>,
        slotIndex = slotIndex0,
        pPictureResource = picResource dpbView s \<rparr>,
      \<lparr> slot_pNext = \<lparr> pStdReferenceInfo = refRefInfo gopFrameCount MaxPicOrderCntLsb \<rparr>,
        slotIndex = of_nat (not_lsb gopFrameCount),
        pPictureResource = picResource refView s \<rparr>]"

definition encodeBeginInfo ::
    "VkImageView \<Rightarrow> VkImageView \<Rightarrow> uint32_t \<Rightarrow> uint32_t \<Rightarrow> VideoEncoder
       \<Rightarrow> VkVideoBeginCodingInfoKHR" where
  "encodeBeginInfo dpbView refView gopFrameCount MaxPicOrderCntLsb s =
     \<lparr> begin_rateControl = True,
       begin_referenceSlotCount = (if gopFrameCount = 0 then 1 else 2),
       begin_pReferenceSlots =
         referenceSlots (- 1) dpbView refView gopFrameCount MaxPicOrderCntLsb s \<rparr>"

definition videoEncodeInfo ::
    "FrameInfo \<Rightarrow> VkImageView \<Rightarrow> VkImageView \<Rightarrow> uint32_t \<Rightarrow> uint32_t \<Rightarrow> VideoEncoder
       \<Rightarrow> VkVideoEncodeInfoKHR" where
  "videoEncodeInfo frameInfo dpbView refView gopFrameCount MaxPicOrderCntLsb s =
     (let slots = referenceSlots (gopFrameCount AND 1) dpbView refView gopFrameCount
                    MaxPicOrderCntLsb s;
          info = \<lparr> enc_pNext = getEncodeH264FrameInfo frameInfo,
                   dstBufferOffset = 0,
                   dstBufferRange = 4 * 1024 * 1024,
                   srcPictureResource = picResource YCbCrImageView s,
                   pSetupReferenceSlot = slots ! 0,
                   enc_referenceSlotCount = 0,
                   enc_pReferenceSlots = [] \<rparr>
      in if 0 < gopFrameCount
         then info \<lparr> enc_referenceSlotCount := 1, enc_pReferenceSlots := [slots ! 1] \<rparr>
         else info)"

definition encode_submitInfo :: VkSubmitInfo where
  "encode_submitInfo =
     \<lparr> pWaitSemaphores = [InterQueueSemaphore],
       pCommandBuffers = [EncodeCommandBuffer],
       pSignalSemaphores = [InterQueueSemaphore2] \<rparr>"

definition encodeVideoFrame :: "driver \<Rightarrow> VideoEncoder \<Rightarrow> error + VideoEncoder" where
  "encodeVideoFrame drv s =
     (let gopFrameCount = m_frameCount s mod GOP_LENGTH
      in
     bindE (run_steps drv
              [Checked (Create (CommandBuffer EncodeCommandBuffer)),
               Checked (BeginCommandBuffer EncodeCommandBuffer),
               Unchecked (Cmd EncodeCommandBuffer CmdResetQueryPool)] s)
     (\<lambda>s1.
     bindE (vector_at (m_dpbImageViews s1) (unat (gopFrameCount AND 1)))
     (\<lambda>dpbView.
     bindE (vector_at (m_dpbImageViews s1) (not_lsb gopFrameCount))
     (\<lambda>refView.
     bindE (shift_one_left (unat (log2_max_pic_order_cnt_lsb_minus4 (m_sps s1)) + 4))
     (\<lambda>MaxPicOrderCntLsb.
     bindE (run_steps drv
              [Unchecked (Cmd EncodeCommandBuffer (CmdBeginVideoCodingKHR
                 (encodeBeginInfo dpbView refView gopFrameCount MaxPicOrderCntLsb s1))),
               Unchecked (Cmd EncodeCommandBuffer (CmdPipelineBarrier2 [YCbCrImage]))] s1)
     (\<lambda>s2.
     bindE (FrameInfo gopFrameCount (m_width s2) (m_height s2) (m_sps s2) (m_pps s2)
              gopFrameCount
              (m_chosenRateControlMode s2 AND VK_VIDEO_ENCODE_RATE_CONTROL_MODE_DISABLED_BIT_KHR \<noteq> 0))
     (\<lambda>frameInfo.
       run_steps drv
         [Unchecked (Cmd EncodeCommandBuffer CmdBeginQuery),
          Unchecked (Cmd EncodeCommandBuffer (CmdEncodeVideoKHR
            (videoEncodeInfo frameInfo dpbView refView gopFrameCount MaxPicOrderCntLsb s2))),
          Unchecked (Cmd EncodeCommandBuffer CmdEndQuery),
          Unchecked (Cmd EncodeCommandBuffer CmdEndVideoCodingKHR),
          Checked (EndCommandBuffer EncodeCommandBuffer),
          Checked ResetFences,
          Checked (QueueSubmit EncodeQueue encode_submitInfo True)] s2)))))))"

subsection \<open>The public operations\<close>

definition queueEncode :: "driver \<Rightarrow> nat \<Rightarrow> VideoEncoder \<Rightarrow> error + VideoEncoder" where
  "queueEncode drv currentImageIx s =
     (if m_running s then Inl AssertionFailed
      else bindE (convertRGBtoYCbCr drv currentImageIx s)
           (\<lambda>s1. bindE (encodeVideoFrame drv s1)
           (\<lambda>s2. Inr (s2 \<lparr> m_running := True \<rparr>))))"

definition finishEncode :: "driver \<Rightarrow> VideoEncoder \<Rightarrow> error + (packet \<times> VideoEncoder)" where
  "finishEncode drv s =
     (if \<not> m_running s then Inr (\<lparr> out_data = None, out_size = 0 \<rparr>, s)
      else if m_bitStreamHeaderPending s
      then Inr (\<lparr> out_data = Some BitStreamHeaderData, out_size = length (m_bitStreamHeader s) \<rparr>,
                s \<lparr> m_bitStreamHeaderPending := False \<rparr>)
      else bindE (getOutputVideoPacket drv s)
           (\<lambda>(p, s1).
             bindE (run_steps drv
                      [Unchecked (Destroy (CommandBuffer ComputeCommandBuffer)),
                       Unchecked (Destroy (CommandBuffer EncodeCommandBuffer))] s1)
             (\<lambda>s2. Inr (p, s2 \<lparr> m_frameCount := m_frameCount s2 + 1, m_running := False \<rparr>))))"

text \<open>
  \<open>init\<close>: the arguments that matter here are the input images, their views, the size
  and the frame rate.
\<close>

definition init ::
    "driver \<Rightarrow> VkImage list \<Rightarrow> VkImageView list \<Rightarrow> uint32_t \<Rightarrow> uint32_t \<Rightarrow> uint32_t
       \<Rightarrow> VideoEncoder \<Rightarrow> error + VideoEncoder" where
  "init drv inputImages inputImageViews width height fps s =
     (if m_running s then Inl AssertionFailed
      else if m_initialized s \<and> width AND NOT 1 = m_width s \<and> height AND NOT 1 = m_height s
      then Inr s
      else
        bindE (if m_initialized s then deinit drv s else Inr s)
        (\<lambda>s0.
        bindE (createEncodeCommandPool drv
                 (s0 \<lparr> m_inputImages := inputImages,
                       m_width := width AND NOT 1,
                       m_height := height AND NOT 1 \<rparr>))
        (\<lambda>s1. bindE (createVideoSession drv s1)
        (\<lambda>s2. bindE (allocateVideoSessionMemory drv s2)
        (\<lambda>s3. bindE (createVideoSessionParameters drv fps s3)
        (\<lambda>s4. bindE (readBitstreamHeader drv s4)
        (\<lambda>s5. bindE (allocateOutputBitStream drv s5)
        (\<lambda>s6. bindE (allocateReferenceImages drv 2 s6)
        (\<lambda>s7. bindE (allocateIntermediateImages drv s7)
        (\<lambda>s8. bindE (createOutputQueryPool drv s8)
        (\<lambda>s9. bindE (createYCbCrConversionPipeline drv inputImageViews s9)
        (\<lambda>s10.
        bindE (run_steps drv
                 ([Checked (Create (Semaphore InterQueueSemaphore)),
                   Checked (Create (Semaphore InterQueueSemaphore2)),
                   Checked (Create (Semaphore InterQueueSemaphore3)),
                   Checked (Create EncodeFinishedFence),
                   Checked (Create (CommandBuffer InitCommandBuffer)),
                   Checked (BeginCommandBuffer InitCommandBuffer)]
                  @ initRateControl InitCommandBuffer
                  @ transitionImagesInitial InitCommandBuffer s10
                  @ [Checked (EndCommandBuffer InitCommandBuffer),
                     Checked ResetFences,
                     Checked (QueueSubmit EncodeQueue
                       \<lparr> pWaitSemaphores = [], pCommandBuffers = [InitCommandBuffer],
                         pSignalSemaphores = [] \<rparr> True),
                     Checked WaitForFences,
                     Unchecked (Destroy (CommandBuffer InitCommandBuffer))]) s10)
        (\<lambda>s11. Inr (s11 \<lparr> m_frameCount := 0, m_initialized := True \<rparr>))))))))))))))"

subsection \<open>Callers, live handles and submissions\<close>



text \<open>The handles that a trace has created and not released.\<close>

fun apply_call :: "handle set \<Rightarrow> vkcall \<Rightarrow> handle set" where
  "apply_call L (Create h) = insert h L"
| "apply_call L (Destroy h) = L - {h}"
| "apply_call L c = L"

definition live_after :: "vkcall list \<Rightarrow> handle set" where
  "live_after t = foldl apply_call {} t"

text \<open>The queue submissions of a trace, in order.\<close>

fun submissions :: "vkcall list \<Rightarrow> (VkQueue \<times> VkSubmitInfo) list" where
  "submissions [] = []"
| "submissions (QueueSubmit q info fence # t) = (q, info) # submissions t"
| "submissions (c # t) = submissions t"

text \<open>The encode commands of a trace, in order, each with its encode info.\<close>

fun encode_commands :: "vkcall list \<Rightarrow> VkVideoEncodeInfoKHR list" where
  "encode_commands [] = []"
| "encode_commands (Cmd b (CmdEncodeVideoKHR info) # t) = info # encode_commands t"
| "encode_commands (c # t) = encode_commands t"

text \<open>
  A newly constructed encoder. The class gives \<open>m_initialized\<close> and \<open>m_running\<close> the
  initialiser \<open>false\<close> and default-constructs its vectors; every other member starts
  with an indeterminate value, which the argument supplies. No driver call has been
  made.
\<close>

definition VideoEncoder_new :: "VideoEncoder \<Rightarrow> VideoEncoder" where
  "VideoEncoder_new indeterminate =
     indeterminate
       \<lparr> m_initialized := False, m_running := False, m_inputImages := [], m_allocations := [],
         m_computeDescriptorSets := [], m_bitStreamHeader := [], m_dpbImages := [],
         m_dpbImageViews := [], calls := [] \<rparr>"

text \<open>
  The states an owner can bring the encoder into: it constructs the object, and calls
  \<open>init\<close> and \<open>deinit\<close> at any time and \<open>queueEncode\<close> and \<open>finishEncode\<close> on an
  initialised encoder. These are the states between calls that all returned; the
  members that a call leaves behind when it throws are not among them.
\<close>

inductive reachable :: "driver \<Rightarrow> VideoEncoder \<Rightarrow> bool" for drv :: driver where
  reachable_new: "reachable drv (VideoEncoder_new indeterminate)"
| reachable_init:
    "reachable drv s \<Longrightarrow> init drv inputImages inputImageViews width height fps s = Inr s'
       \<Longrightarrow> reachable drv s'"
| reachable_queueEncode:
    "reachable drv s \<Longrightarrow> m_initialized s \<Longrightarrow> queueEncode drv currentImageIx s = Inr s'
       \<Longrightarrow> reachable drv s'"
| reachable_finishEncode:
    "reachable drv s \<Longrightarrow> m_initialized s \<Longrightarrow> finishEncode drv s = Inr (p, s')
       \<Longrightarrow> reachable drv s'"
| reachable_deinit:
    "reachable drv s \<Longrightarrow> deinit drv s = Inr s' \<Longrightarrow> reachable drv s'"

text \<open>What \<open>finishEncode\<close> returns: the header, or a range of the output buffer.\<close>

definition header_packet :: "uint8_t list \<Rightarrow> packet" where
  "header_packet bytes = \<lparr> out_data = Some BitStreamHeaderData, out_size = length bytes \<rparr>"

fun is_frame_packet :: "packet \<Rightarrow> bool" where
  "is_frame_packet p = (case out_data p of Some (BitStreamData off) \<Rightarrow> True | _ \<Rightarrow> False)"



subsection \<open>The traces of the operations\<close>

text \<open>
  \<open>steps_ok drv n sts\<close>: every checked call of \<open>sts\<close> returns \<open>VK_SUCCESS\<close> when the
  steps are made after \<open>n\<close> earlier calls. The lists below are the calls that each
  operation adds to the trace when none of them throws.
\<close>

fun steps_ok :: "driver \<Rightarrow> nat \<Rightarrow> step list \<Rightarrow> bool" where
  "steps_ok drv n [] = True"
| "steps_ok drv n (Unchecked c # sts) = steps_ok drv (Suc n) sts"
| "steps_ok drv n (Checked c # sts) = (result drv n = VK_SUCCESS \<and> steps_ok drv (Suc n) sts)"

definition convert_calls :: "VkImage \<Rightarrow> nat \<Rightarrow> VideoEncoder \<Rightarrow> vkcall list" where
  "convert_calls inputImage descriptorSet s =
     [Create (CommandBuffer ComputeCommandBuffer),
      BeginCommandBuffer ComputeCommandBuffer,
      Cmd ComputeCommandBuffer (CmdPipelineBarrier2 [YCbCrImageLuma, YCbCrImageChroma, inputImage]),
      Cmd ComputeCommandBuffer CmdBindPipeline,
      Cmd ComputeCommandBuffer (CmdBindDescriptorSets descriptorSet),
      Cmd ComputeCommandBuffer (CmdDispatch ((m_width s + 15) div 16) ((m_height s + 15) div 16) 1),
      Cmd ComputeCommandBuffer (CmdPipelineBarrier2 [YCbCrImageLuma, YCbCrImageChroma, YCbCrImage]),
      Cmd ComputeCommandBuffer (CmdCopyImage YCbCrImageLuma YCbCrImage (m_width s, m_height s)),
      Cmd ComputeCommandBuffer
        (CmdCopyImage YCbCrImageChroma YCbCrImage (m_width s div 2, m_height s div 2)),
      EndCommandBuffer ComputeCommandBuffer,
      QueueSubmit ComputeQueue (convert_submitInfo s) False]"

definition encode_calls ::
    "FrameInfo \<Rightarrow> VkImageView \<Rightarrow> VkImageView \<Rightarrow> uint32_t \<Rightarrow> VideoEncoder \<Rightarrow> vkcall list" where
  "encode_calls frameInfo dpbView refView MaxPicOrderCntLsb s =
     [Create (CommandBuffer EncodeCommandBuffer),
      BeginCommandBuffer EncodeCommandBuffer,
      Cmd EncodeCommandBuffer CmdResetQueryPool,
      Cmd EncodeCommandBuffer (CmdBeginVideoCodingKHR
        (encodeBeginInfo dpbView refView (m_frameCount s mod GOP_LENGTH) MaxPicOrderCntLsb s)),
      Cmd EncodeCommandBuffer (CmdPipelineBarrier2 [YCbCrImage]),
      Cmd EncodeCommandBuffer CmdBeginQuery,
      Cmd EncodeCommandBuffer (CmdEncodeVideoKHR
        (videoEncodeInfo frameInfo dpbView refView (m_frameCount s mod GOP_LENGTH)
           MaxPicOrderCntLsb s)),
      Cmd EncodeCommandBuffer CmdEndQuery,
      Cmd EncodeCommandBuffer CmdEndVideoCodingKHR,
      EndCommandBuffer EncodeCommandBuffer,
      ResetFences,
      QueueSubmit EncodeQueue encode_submitInfo True]"

definition drain_calls :: "driver \<Rightarrow> VideoEncoder \<Rightarrow> vkcall list" where
  "drain_calls drv s =
     [WaitForFences, GetQueryPoolResults,
      InvalidateAllocation (bitstreamStartOffset (encodeResult drv (length (calls s) + 2)))
        (bitstreamSize (encodeResult drv (length (calls s) + 2))),
      Destroy (CommandBuffer ComputeCommandBuffer),
      Destroy (CommandBuffer EncodeCommandBuffer)]"

definition release_calls :: "VideoEncoder \<Rightarrow> vkcall list" where
  "release_calls s =
     [Destroy EncodeFinishedFence,
      Destroy (Semaphore InterQueueSemaphore),
      Destroy (Semaphore InterQueueSemaphore2),
      Destroy (Semaphore InterQueueSemaphore3),
      Destroy ComputePipeline,
      Destroy ComputePipelineLayout,
      Destroy DescriptorPool,
      Destroy ComputeDescriptorSetLayout,
      Destroy VideoSessionParameters,
      Destroy QueryPool,
      Destroy BitStreamMapping,
      Destroy BitStreamBuffer,
      Destroy (ImageView YCbCrImageChromaView),
      Destroy (Image YCbCrImageChroma),
      Destroy (ImageView YCbCrImageLumaView),
      Destroy (Image YCbCrImageLuma),
      Destroy (ImageView YCbCrImageView),
      Destroy (Image YCbCrImage)]
     @ concat (map (\<lambda>i. [Destroy (ImageView (m_dpbImageViews s ! i)),
                           Destroy (Image (m_dpbImages s ! i))])
                 [0..<length (m_dpbImages s)])
     @ [Destroy VideoSession]
     @ map Destroy (m_allocations s)
     @ [Destroy EncodeCommandPool]"

definition init_calls :: "nat \<Rightarrow> nat \<Rightarrow> vkcall list" where
  "init_calls n maxFramesCount =
     [Create EncodeCommandPool,
      GetInfo ''vkGetPhysicalDeviceVideoCapabilitiesKHR'',
      GetInfo ''vkGetPhysicalDeviceVideoEncodeQualityLevelPropertiesKHR'',
      GetInfo ''vkGetPhysicalDeviceVideoFormatPropertiesKHR'',
      GetInfo ''vkGetPhysicalDeviceVideoFormatPropertiesKHR'',
      GetInfo ''vkGetPhysicalDeviceVideoFormatPropertiesKHR'',
      GetInfo ''vkGetPhysicalDeviceVideoFormatPropertiesKHR'',
      Create VideoSession,
      GetInfo ''vkGetVideoSessionMemoryRequirementsKHR'',
      GetInfo ''vkGetVideoSessionMemoryRequirementsKHR'']
     @ (if n = 0 then []
        else map (\<lambda>memIdx. Create (Allocation memIdx)) [0..<n] @ [BindVideoSessionMemory n])
     @ [Create VideoSessionParameters,
        GetInfo ''vkGetEncodedVideoSessionParametersKHR'',
        GetInfo ''vkGetEncodedVideoSessionParametersKHR'',
        Create BitStreamBuffer,
        Create BitStreamMapping,
        Create (Image (DpbImage 0)),
        Create (ImageView (DpbImageView 0)),
        Create (Image (DpbImage 1)),
        Create (ImageView (DpbImageView 1)),
        Create (Image YCbCrImage),
        Create (ImageView YCbCrImageView),
        Create (Image YCbCrImageLuma),
        Create (ImageView YCbCrImageLumaView),
        Create (Image YCbCrImageChroma),
        Create (ImageView YCbCrImageChromaView),
        Create QueryPool,
        Create ShaderModule,
        Create ComputeDescriptorSetLayout,
        Create ComputePipelineLayout,
        Create ComputePipeline,
        Destroy ShaderModule,
        Create DescriptorPool,
        AllocateDescriptorSets maxFramesCount]
     @ map UpdateDescriptorSets [0..<maxFramesCount]
     @ [Create (Semaphore InterQueueSemaphore),
        Create (Semaphore InterQueueSemaphore2),
        Create (Semaphore InterQueueSemaphore3),
        Create EncodeFinishedFence,
        Create (CommandBuffer InitCommandBuffer),
        BeginCommandBuffer InitCommandBuffer,
        Cmd InitCommandBuffer (CmdBeginVideoCodingKHR
          \<lparr> begin_rateControl = False, begin_referenceSlotCount = 0,
            begin_pReferenceSlots = [] \<rparr>),
        Cmd InitCommandBuffer CmdControlVideoCodingKHR,
        Cmd InitCommandBuffer CmdEndVideoCodingKHR,
        Cmd InitCommandBuffer (CmdPipelineBarrier2 [DpbImage 0, DpbImage 1]),
        EndCommandBuffer InitCommandBuffer,
        ResetFences,
        QueueSubmit EncodeQueue
          \<lparr> pWaitSemaphores = [], pCommandBuffers = [InitCommandBuffer],
            pSignalSemaphores = [] \<rparr> True,
        WaitForFences,
        Destroy (CommandBuffer InitCommandBuffer)]"

subsection \<open>A driver and an encoder to run\<close>

text \<open>
  A driver whose every call succeeds and that reports one usable format of each kind,
  two memory bindings, a ten-byte header and 5000 encoded bytes for each frame; and a
  newly constructed encoder whose indeterminate members hold arbitrary values.
\<close>

definition example_driver :: driver where
  "example_driver =
     \<lparr> result = (\<lambda>n. VK_SUCCESS),
       encodeResult = (\<lambda>n. \<lparr> bitstreamStartOffset = 0, bitstreamSize = 5000, status = 1 \<rparr>),
       rateControlModes = 7,
       srcVideoFormatProperties = [VK_FORMAT_G8_B8R8_2PLANE_420_UNORM],
       dpbVideoFormatProperties = [VK_FORMAT_G8_B8R8_2PLANE_420_UNORM],
       videoSessionMemoryRequirementsCount = 2,
       encodedVideoSessionParameters = [0, 0, 0, 1, 0x67, 0, 0, 0, 1, 0x68],
       shaderFile = Some [] \<rparr>"

definition example_encoder :: VideoEncoder where
  "example_encoder = VideoEncoder_new
     \<lparr> m_initialized = True, m_running = True, m_inputImages = [], m_width = 7, m_height = 7,
       m_allocations = [], m_vui = zero_vui, m_sps = zero_sps, m_pps = zero_pps,
       m_chosenRateControlMode = 7, m_computeDescriptorSets = [], m_bitStreamHeader = [],
       m_bitStreamHeaderPending = False, m_dpbImages = [], m_dpbImageViews = [],
       m_frameCount = 7, calls = [] \<rparr>"

subsection \<open>Notions used in the proofs\<close>

text \<open>The rate-control mode that \<open>createVideoSession\<close> stores for a driver.\<close>

definition chosen_mode :: "driver \<Rightarrow> uint32_t" where
  "chosen_mode drv =
     (if rateControlModes drv AND VK_VIDEO_ENCODE_RATE_CONTROL_MODE_VBR_BIT_KHR \<noteq> 0
      then VK_VIDEO_ENCODE_RATE_CONTROL_MODE_VBR_BIT_KHR
      else if rateControlModes drv AND VK_VIDEO_ENCODE_RATE_CONTROL_MODE_CBR_BIT_KHR \<noteq> 0
      then VK_VIDEO_ENCODE_RATE_CONTROL_MODE_CBR_BIT_KHR
      else if rateControlModes drv AND VK_VIDEO_ENCODE_RATE_CONTROL_MODE_DISABLED_BIT_KHR \<noteq> 0
      then VK_VIDEO_ENCODE_RATE_CONTROL_MODE_DISABLED_BIT_KHR
      else VK_VIDEO_ENCODE_RATE_CONTROL_MODE_DEFAULT_KHR)"


text \<open>
  The example encoder after \<open>init\<close> for two input images of 800 by 600 at 30 frames per
  second, and after the first \<open>queueEncode\<close>.
\<close>

definition example_ready :: VideoEncoder where
  "example_ready = projr (init example_driver [InputImage 0, InputImage 1]
      [InputImageView 0, InputImageView 1] 800 600 30 example_encoder)"

definition example_queued :: VideoEncoder where
  "example_queued = projr (queueEncode example_driver 0 example_ready)"

text \<open>
  The same encoder after the \<open>finishEncode\<close> that hands out the header, after the
  \<open>finishEncode\<close> that hands out the first frame, and after the second \<open>queueEncode\<close>.
\<close>

definition example_header_sent :: VideoEncoder where
  "example_header_sent = snd (projr (finishEncode example_driver example_queued))"

definition example_frame_done :: VideoEncoder where
  "example_frame_done = snd (projr (finishEncode example_driver example_header_sent))"

definition example_second_queued :: VideoEncoder where
  "example_second_queued = projr (queueEncode example_driver 1 example_frame_done)"




section \<open>Properties of the parameter sets\<close>

lemma AlignSize_16: "AlignSize w H264MbSizeAlignment = Inr ((w + 15) AND NOT 15)"
  by (simp add: AlignSize_def H264MbSizeAlignment_def add.commute)

lemma and_not_15: "(x :: 32 word) AND NOT 15 = push_bit 4 (drop_bit 4 x)"
proof -
  have "(15 :: 32 word) = mask 4" by (simp add: mask_eq_exp_minus_1)
  then show ?thesis
    by (simp add: bit_eq_iff bit_simps) (auto simp: bit_simps)
qed

lemma unat_and_not_15: "unat ((x :: 32 word) AND NOT 15) = (unat x div 16) * 16"
proof -
  have b: "unat x < 2 ^ 32" using unsigned_less [of x] by simp
  have "unat x div 16 * 16 \<le> unat x" by simp
  with b have "unat (x div 16) * unat (16 :: 32 word) < 2 ^ LENGTH(32)"
    by (simp add: unat_div_distrib)
  then have "unat (x div 16 * 16) = unat (x div 16) * unat (16 :: 32 word)"
    by (simp only: unat_mult_lem)
  moreover have "x AND NOT 15 = x div 16 * 16"
    unfolding and_not_15 by (simp add: drop_bit_eq_div push_bit_eq_mult)
  ultimately show ?thesis
    by (simp add: unat_div_distrib)
qed

lemma unat_plus_15: "unat w \<le> 2 ^ 32 - 16 \<Longrightarrow> unat (w + 15 :: 32 word) = unat w + 15"
proof -
  assume "unat w \<le> 2 ^ 32 - 16"
  then have "unat w + unat (15 :: 32 word) < 2 ^ LENGTH(32)" by simp
  then have "unat (w + 15) = unat w + unat (15 :: 32 word)"
    by (simp only: unat_add_lem)
  then show ?thesis by simp
qed

lemma unat_div_16: "unat ((x :: 32 word) div 16) = unat x div 16"
  by (simp add: unat_div_distrib)



lemma builder_value:
  "getStdVideoH264SequenceParameterSet width height pVui =
     Inr (zero_sps
       \<lparr> profile_idc := STD_VIDEO_H264_PROFILE_IDC_MAIN,
         level_idc := STD_VIDEO_H264_LEVEL_IDC_4_1,
         chroma_format_idc := STD_VIDEO_H264_CHROMA_FORMAT_IDC_420,
         pic_order_cnt_type := STD_VIDEO_H264_POC_TYPE_0,
         max_num_ref_frames := 1,
         pic_width_in_mbs_minus1 := ((width + 15) AND NOT 15) div 16 - 1,
         pic_height_in_map_units_minus1 := ((height + 15) AND NOT 15) div 16 - 1,
         sps_flags := \<lparr> direct_8x8_inference_flag = True, frame_mbs_only_flag = True,
                        frame_cropping_flag =
                          (((width + 15) AND NOT 15) - width \<noteq> 0 \<or> ((height + 15) AND NOT 15) - height \<noteq> 0),
                        vui_parameters_present_flag = (pVui \<noteq> None) \<rparr>,
         pSequenceParameterSetVui := pVui,
         frame_crop_right_offset := drop_bit 1 (((width + 15) AND NOT 15) - width),
         frame_crop_bottom_offset := drop_bit 1 (((height + 15) AND NOT 15) - height),
         log2_max_pic_order_cnt_lsb_minus4 := 4 \<rparr>)"
  unfolding getStdVideoH264SequenceParameterSet_def AlignSize_16
  by (auto simp add: Let_def zero_sps_def zero_sps_flags_def H264MbSizeAlignment_def)

lemma unat_aligned:
  assumes "unat (w :: 32 word) \<le> 2 ^ 32 - 16"
  shows "unat ((w + 15) AND NOT 15) = (unat w + 15) div 16 * 16"
  by (simp only: unat_and_not_15 unat_plus_15 [OF assms])

lemma unat_mbs_minus1:
  assumes "0 < unat (w :: 32 word)" and "unat w \<le> 2 ^ 32 - 16"
  shows "unat (((w + 15) AND NOT 15) div 16 - 1) + 1 = (unat w + 15) div 16"
proof -
  let ?a = "(w + 15) AND NOT 15"
  have a: "unat (?a div 16) = (unat w + 15) div 16"
    by (simp only: unat_div_distrib unat_aligned [OF assms(2)]) simp
  have pos: "1 \<le> (unat w + 15) div 16" using assms(1) by simp
  then have "unat (1 :: 32 word) \<le> unat (?a div 16)" using a by simp
  then have "(1 :: 32 word) \<le> ?a div 16" by (simp only: word_le_nat_alt)
  then have "unat (?a div 16 - 1) = unat (?a div 16) - unat (1 :: 32 word)"
    by (rule unat_sub)
  then show ?thesis using a pos by simp
qed

lemma unat_crop:
  assumes "unat (w :: 32 word) \<le> 2 ^ 32 - 16"
  shows "unat (drop_bit 1 (((w + 15) AND NOT 15) - w)) = ((unat w + 15) div 16 * 16 - unat w) div 2"
proof -
  let ?a = "(w + 15) AND NOT 15"
  have a: "unat ?a = (unat w + 15) div 16 * 16" using assms by (rule unat_aligned)
  have "unat w \<le> (unat w + 15) div 16 * 16" by presburger
  then have "w \<le> ?a" using a by (simp only: word_le_nat_alt)
  then have "unat (?a - w) = unat ?a - unat w" by (rule unat_sub)
  moreover have "unat (drop_bit 1 (?a - w)) = unat (?a - w) div 2"
    by (simp add: drop_bit_eq_div unat_div_distrib)
  ultimately show ?thesis by (simp only: a)
qed

lemma shift_one_left_8: "shift_one_left 8 = Inr 256"
  by (simp add: shift_one_left_def)

lemma replicate_32_update: "(replicate 32 x)[0 := y] = y # replicate 31 x"
proof -
  have "replicate 32 x = x # replicate 31 x"
    by (simp only: replicate_Suc [symmetric]) simp
  then show ?thesis by simp
qed

lemma FrameInfo_facts:
  assumes "log2_max_pic_order_cnt_lsb_minus4 sps = 4"
  shows "\<exists>fi. FrameInfo frameCount w h sps pps g cq = Inr fi
     \<and> naluSliceEntryCount (getEncodeH264FrameInfo fi) = 1
     \<and> frame_num (pStdPictureInfo (getEncodeH264FrameInfo fi)) = frameCount
     \<and> pic_PicOrderCnt (pStdPictureInfo (getEncodeH264FrameInfo fi)) = (frameCount * 2) mod 256
     \<and> slice_type (pStdSliceHeader (pNaluSliceEntries (getEncodeH264FrameInfo fi)))
          = (if g = 0 then STD_VIDEO_H264_SLICE_TYPE_I else STD_VIDEO_H264_SLICE_TYPE_P)
     \<and> IdrPicFlag (pic_flags (pStdPictureInfo (getEncodeH264FrameInfo fi))) = (g = 0)
     \<and> pic_primary_pic_type (pStdPictureInfo (getEncodeH264FrameInfo fi))
          = (if g = 0 then STD_VIDEO_H264_PICTURE_TYPE_IDR else STD_VIDEO_H264_PICTURE_TYPE_P)
     \<and> RefPicList0 (pRefLists (pStdPictureInfo (getEncodeH264FrameInfo fi)))
          = (if g = 0 then replicate 32 0xFF
             else (if g AND 1 = 0 then 1 else 0) # replicate 31 0xFF)
     \<and> RefPicList1 (pRefLists (pStdPictureInfo (getEncodeH264FrameInfo fi))) = replicate 32 0xFF"
  by (simp add: FrameInfo_def assms shift_one_left_8 getEncodeH264FrameInfo_def Let_def
      STD_VIDEO_H264_MAX_NUM_LIST_REF_def STD_VIDEO_H264_NO_REFERENCE_PICTURE_def
      replicate_32_update)

lemma builder_log2:
  assumes "getStdVideoH264SequenceParameterSet width height pVui = Inr sps"
  shows "log2_max_pic_order_cnt_lsb_minus4 sps = 4"
  using assms unfolding builder_value by auto

text \<open>
  Claim C7, as amended. For every width and height from 1 to 4294967280 (that is
  \<open>2\<^sup>3\<^sup>2 - 16\<close>), every VUI pointer (so every frame rate) the builder of the sequence
  parameter set returns a parameter set and no error. Its picture size in macroblocks,
  times 16, is the least multiple of 16 that is not below the true size, in each
  dimension; the right and bottom crop offsets are that aligned size minus the true
  size, halved (the chroma format is 4:2:0), and the left and top offsets are 0;
  \<open>log2_max_pic_order_cnt_lsb_minus4\<close> is 4, which makes the picture-order-count range
  \<open>2\<^sup>8 = 256\<close>; at most one reference frame is used; and the picture information that
  \<open>FrameInfo\<close> builds from this parameter set has exactly one slice entry.
  Outside that range of sizes the sum \<open>size + 15\<close> wraps in \<open>uint32_t\<close>, or (for size 0)
  \<open>pic_width_in_mbs_minus1\<close> wraps, and the statement about the picture size fails.
\<close>

theorem parameter_set_builder:
  assumes "0 < unat width" and "unat width \<le> 2 ^ 32 - 16"
    and "0 < unat height" and "unat height \<le> 2 ^ 32 - 16"
  shows "\<exists>sps fi.
     getStdVideoH264SequenceParameterSet width height pVui = Inr sps
     \<and> unat width \<le> 16 * (unat (pic_width_in_mbs_minus1 sps) + 1)
     \<and> 16 * (unat (pic_width_in_mbs_minus1 sps) + 1) < unat width + 16
     \<and> unat height \<le> 16 * (unat (pic_height_in_map_units_minus1 sps) + 1)
     \<and> 16 * (unat (pic_height_in_map_units_minus1 sps) + 1) < unat height + 16
     \<and> unat (frame_crop_right_offset sps)
         = (16 * (unat (pic_width_in_mbs_minus1 sps) + 1) - unat width) div 2
     \<and> unat (frame_crop_bottom_offset sps)
         = (16 * (unat (pic_height_in_map_units_minus1 sps) + 1) - unat height) div 2
     \<and> frame_crop_left_offset sps = 0 \<and> frame_crop_top_offset sps = 0
     \<and> chroma_format_idc sps = STD_VIDEO_H264_CHROMA_FORMAT_IDC_420
     \<and> log2_max_pic_order_cnt_lsb_minus4 sps = 4
     \<and> max_num_ref_frames sps = 1
     \<and> pSequenceParameterSetVui sps = pVui
     \<and> FrameInfo gopFrameCount width height sps pps gopFrameCount useConstantQp = Inr fi
     \<and> naluSliceEntryCount (getEncodeH264FrameInfo fi) = 1"
proof -
  obtain sps where sps: "getStdVideoH264SequenceParameterSet width height pVui = Inr sps"
    unfolding builder_value by blast
  obtain fi where fi: "FrameInfo gopFrameCount width height sps pps gopFrameCount useConstantQp = Inr fi"
      "naluSliceEntryCount (getEncodeH264FrameInfo fi) = 1"
    using FrameInfo_facts [OF builder_log2 [OF sps]] by blast
  have w1: "unat (pic_width_in_mbs_minus1 sps) + 1 = (unat width + 15) div 16"
    using sps unat_mbs_minus1 [OF assms(1,2)] unfolding builder_value by auto
  have h1: "unat (pic_height_in_map_units_minus1 sps) + 1 = (unat height + 15) div 16"
    using sps unat_mbs_minus1 [OF assms(3,4)] unfolding builder_value by auto
  have cr: "unat (frame_crop_right_offset sps) = ((unat width + 15) div 16 * 16 - unat width) div 2"
    using sps unat_crop [OF assms(2)] unfolding builder_value by auto
  have cb: "unat (frame_crop_bottom_offset sps) = ((unat height + 15) div 16 * 16 - unat height) div 2"
    using sps unat_crop [OF assms(4)] unfolding builder_value by auto
  have rest: "frame_crop_left_offset sps = 0 \<and> frame_crop_top_offset sps = 0
     \<and> chroma_format_idc sps = STD_VIDEO_H264_CHROMA_FORMAT_IDC_420
     \<and> log2_max_pic_order_cnt_lsb_minus4 sps = 4
     \<and> max_num_ref_frames sps = 1
     \<and> pSequenceParameterSetVui sps = pVui"
    using sps unfolding builder_value by (auto simp: zero_sps_def)
  have a1: "unat width \<le> 16 * ((unat width + 15) div 16)" by presburger
  have a2: "16 * ((unat width + 15) div 16) < unat width + 16" by presburger
  have a3: "unat height \<le> 16 * ((unat height + 15) div 16)" by presburger
  have a4: "16 * ((unat height + 15) div 16) < unat height + 16" by presburger
  have cr': "unat (frame_crop_right_offset sps)
      = (16 * (unat (pic_width_in_mbs_minus1 sps) + 1) - unat width) div 2"
    unfolding w1 cr by (simp only: mult.commute)
  have cb': "unat (frame_crop_bottom_offset sps)
      = (16 * (unat (pic_height_in_map_units_minus1 sps) + 1) - unat height) div 2"
    unfolding h1 cb by (simp only: mult.commute)
  show ?thesis
    apply (rule exI [of _ sps])
    apply (rule exI [of _ fi])
    apply (intro conjI)
    using sps fi rest cr' cb' a1 a2 a3 a4 unfolding w1 h1
    apply blast+
    done
qed

text \<open>
  The theorem at 800 by 600 without VUI: 50 by 38 macroblocks, no crop on the right, a
  bottom crop of 4 chroma rows (8 luma rows).
\<close>

theorem parameter_set_builder_witness:
  "\<exists>sps fi.
     getStdVideoH264SequenceParameterSet 800 600 None = Inr sps
     \<and> unat (pic_width_in_mbs_minus1 sps) = 49
     \<and> unat (pic_height_in_map_units_minus1 sps) = 37
     \<and> unat (frame_crop_right_offset sps) = 0
     \<and> unat (frame_crop_bottom_offset sps) = 4
     \<and> log2_max_pic_order_cnt_lsb_minus4 sps = 4
     \<and> max_num_ref_frames sps = 1
     \<and> FrameInfo 3 800 600 sps getStdVideoH264PictureParameterSet 3 False = Inr fi
     \<and> naluSliceEntryCount (getEncodeH264FrameInfo fi) = 1"
proof -
  have "0 < unat (800 :: 32 word)" "unat (800 :: 32 word) \<le> 2 ^ 32 - 16"
       "0 < unat (600 :: 32 word)" "unat (600 :: 32 word) \<le> 2 ^ 32 - 16"
    by simp_all
  from parameter_set_builder [OF this, of None 3 getStdVideoH264PictureParameterSet False]
  obtain sps fi where *:
    "getStdVideoH264SequenceParameterSet 800 600 None = Inr sps"
    "800 \<le> 16 * (unat (pic_width_in_mbs_minus1 sps) + 1)"
    "16 * (unat (pic_width_in_mbs_minus1 sps) + 1) < 800 + 16"
    "600 \<le> 16 * (unat (pic_height_in_map_units_minus1 sps) + 1)"
    "16 * (unat (pic_height_in_map_units_minus1 sps) + 1) < 600 + 16"
    "unat (frame_crop_right_offset sps)
         = (16 * (unat (pic_width_in_mbs_minus1 sps) + 1) - 800) div 2"
    "unat (frame_crop_bottom_offset sps)
         = (16 * (unat (pic_height_in_map_units_minus1 sps) + 1) - 600) div 2"
    "log2_max_pic_order_cnt_lsb_minus4 sps = 4"
    "max_num_ref_frames sps = 1"
    "FrameInfo 3 800 600 sps getStdVideoH264PictureParameterSet 3 False = Inr fi"
    "naluSliceEntryCount (getEncodeH264FrameInfo fi) = 1"
    by auto
  from *(2,3) have w: "unat (pic_width_in_mbs_minus1 sps) = 49" by presburger
  from *(4,5) have h: "unat (pic_height_in_map_units_minus1 sps) = 37" by presburger
  from *(6,7) have "unat (frame_crop_right_offset sps) = 0" "unat (frame_crop_bottom_offset sps) = 4"
    unfolding w h by simp_all
  with * w h show ?thesis by blast
qed

text \<open>
  Claim C7 as stated, for every width: at width 4294967294 the aligned width wraps to
  0, the parameter set gets \<open>pic_width_in_mbs_minus1 = 4294967295\<close> and a crop offset of 1,
  and 16 times the picture width in macroblocks is not within 16 of the true width.
\<close>

theorem parameter_set_builder_counterexample:
  "map_sum id (\<lambda>sps. (pic_width_in_mbs_minus1 sps, frame_crop_right_offset sps))
     (getStdVideoH264SequenceParameterSet 0xFFFFFFFE 600 None) = Inr (0xFFFFFFFF, 1)
   \<and> \<not> 16 * (unat (0xFFFFFFFF :: 32 word) + 1) < unat (0xFFFFFFFE :: 32 word) + 16"
proof -
  have a: "((0xFFFFFFFE :: 32 word) + 15) AND NOT 15 = 0" by simp
  have b: "((600 :: 32 word) + 15) AND NOT 15 = 608" by simp
  have c: "unat (0xFFFFFFFF :: 32 word) = 4294967295" "unat (0xFFFFFFFE :: 32 word) = 4294967294"
    by simp_all
  show ?thesis
    unfolding builder_value a b c by simp
qed


lemma sint_small:
  assumes "unat (x :: 32 word) < 2 ^ 31"
  shows "sint x = int (unat x)"
proof -
  from assms have "int (unat x) < int (2 ^ 31)" by (simp only: of_nat_less_iff)
  then have "uint x < 2 ^ 31" by simp
  moreover have "- (2 ^ 31) \<le> uint x"
    by (rule order_trans [of _ 0]) simp_all
  ultimately have "signed_take_bit 31 (uint x) = uint x"
    by (intro signed_take_bit_int_eq_self)
  then show ?thesis by (simp add: sint_uint)
qed

section \<open>Properties of the encoder\<close>

lemma bindE_Inr_iff [simp]: "bindE m f = Inr y \<longleftrightarrow> (\<exists>x. m = Inr x \<and> f x = Inr y)"
  by (cases m) (simp_all add: bindE_def)

lemma bindE_Inr [simp]: "bindE (Inr x) f = f x"
  by (simp add: bindE_def)


lemma run_steps_Inr_iff:
  "run_steps drv sts s = Inr s' \<longleftrightarrow>
     steps_ok drv (length (calls s)) sts \<and> s' = s \<lparr> calls := calls s @ map call_of sts \<rparr>"
proof (induction sts arbitrary: s)
  case Nil
  show ?case by auto
next
  case (Cons st sts)
  show ?case by (cases st) (auto simp: Cons.IH)
qed

lemma steps_ok_append:
  "steps_ok drv n (a @ b) \<longleftrightarrow> steps_ok drv n a \<and> steps_ok drv (n + length a) b"
proof (induction a arbitrary: n)
  case Nil
  show ?case by simp
next
  case (Cons st a)
  show ?case by (cases st) (auto simp: Cons.IH)
qed

lemma steps_ok_all:
  assumes "\<forall>n. result drv n = VK_SUCCESS"
  shows "steps_ok drv n sts"
proof (induction sts arbitrary: n)
  case Nil
  show ?case by simp
next
  case (Cons st sts)
  show ?case by (cases st) (simp_all add: Cons.IH assms)
qed

lemma steps_ok_Unchecked: "steps_ok drv n (map Unchecked cs)"
  by (induction cs arbitrary: n) simp_all

lemma picResource_calls [simp]: "picResource v (s \<lparr> calls := t \<rparr>) = picResource v s"
  by (simp add: picResource_def)

lemma referenceSlots_calls [simp]:
  "referenceSlots i v0 v1 g mx (s \<lparr> calls := t \<rparr>) = referenceSlots i v0 v1 g mx s"
  by (simp add: referenceSlots_def)

lemma encodeBeginInfo_calls [simp]:
  "encodeBeginInfo v0 v1 g mx (s \<lparr> calls := t \<rparr>) = encodeBeginInfo v0 v1 g mx s"
  by (simp add: encodeBeginInfo_def)

lemma videoEncodeInfo_calls [simp]:
  "videoEncodeInfo fi v0 v1 g mx (s \<lparr> calls := t \<rparr>) = videoEncodeInfo fi v0 v1 g mx s"
  by (simp add: videoEncodeInfo_def)

lemma convert_submitInfo_calls [simp]:
  "convert_submitInfo (s \<lparr> calls := t \<rparr>) = convert_submitInfo s"
  by (simp add: convert_submitInfo_def)

lemma convertRGBtoYCbCr_Inr:
  assumes "convertRGBtoYCbCr drv currentImageIx s = Inr s'"
  shows "\<exists>inputImage descriptorSet.
     vector_at (m_inputImages s) currentImageIx = Inr inputImage
     \<and> vector_at (m_computeDescriptorSets s) currentImageIx = Inr descriptorSet
     \<and> s' = s \<lparr> calls := calls s @ convert_calls inputImage descriptorSet s \<rparr>"
  using assms
  by (auto simp: convertRGBtoYCbCr_def run_steps_Inr_iff convert_calls_def
      simp del: run_steps.simps)

lemma encodeVideoFrame_Inr:
  assumes "encodeVideoFrame drv s = Inr s'"
  shows "\<exists>dpbView refView MaxPicOrderCntLsb frameInfo.
     vector_at (m_dpbImageViews s) (unat ((m_frameCount s mod GOP_LENGTH) AND 1)) = Inr dpbView
     \<and> vector_at (m_dpbImageViews s) (not_lsb (m_frameCount s mod GOP_LENGTH)) = Inr refView
     \<and> shift_one_left (unat (log2_max_pic_order_cnt_lsb_minus4 (m_sps s)) + 4)
          = Inr MaxPicOrderCntLsb
     \<and> FrameInfo (m_frameCount s mod GOP_LENGTH) (m_width s) (m_height s) (m_sps s) (m_pps s)
          (m_frameCount s mod GOP_LENGTH)
          (m_chosenRateControlMode s AND VK_VIDEO_ENCODE_RATE_CONTROL_MODE_DISABLED_BIT_KHR \<noteq> 0)
          = Inr frameInfo
     \<and> s' = s \<lparr> calls := calls s @ encode_calls frameInfo dpbView refView MaxPicOrderCntLsb s \<rparr>"
  using assms
  by (auto simp: encodeVideoFrame_def run_steps_Inr_iff encode_calls_def Let_def
      simp del: run_steps.simps)

lemma queueEncode_Inr:
  assumes "queueEncode drv currentImageIx s = Inr s'"
  shows "\<not> m_running s \<and>
    (\<exists>inputImage descriptorSet dpbView refView MaxPicOrderCntLsb frameInfo.
       vector_at (m_inputImages s) currentImageIx = Inr inputImage
     \<and> vector_at (m_computeDescriptorSets s) currentImageIx = Inr descriptorSet
     \<and> vector_at (m_dpbImageViews s) (unat ((m_frameCount s mod GOP_LENGTH) AND 1)) = Inr dpbView
     \<and> vector_at (m_dpbImageViews s) (not_lsb (m_frameCount s mod GOP_LENGTH)) = Inr refView
     \<and> shift_one_left (unat (log2_max_pic_order_cnt_lsb_minus4 (m_sps s)) + 4)
          = Inr MaxPicOrderCntLsb
     \<and> FrameInfo (m_frameCount s mod GOP_LENGTH) (m_width s) (m_height s) (m_sps s) (m_pps s)
          (m_frameCount s mod GOP_LENGTH)
          (m_chosenRateControlMode s AND VK_VIDEO_ENCODE_RATE_CONTROL_MODE_DISABLED_BIT_KHR \<noteq> 0)
          = Inr frameInfo
     \<and> s' = s \<lparr> m_running := True,
                 calls := calls s @ convert_calls inputImage descriptorSet s
                            @ encode_calls frameInfo dpbView refView MaxPicOrderCntLsb s \<rparr>)"
proof -
  from assms have nr: "\<not> m_running s"
    by (auto simp: queueEncode_def split: if_splits)
  from assms nr obtain s1 s2 where c: "convertRGBtoYCbCr drv currentImageIx s = Inr s1"
    and e: "encodeVideoFrame drv s1 = Inr s2" and s': "s' = s2 \<lparr> m_running := True \<rparr>"
    by (auto simp: queueEncode_def)
  from convertRGBtoYCbCr_Inr [OF c] obtain inputImage descriptorSet where
    1: "vector_at (m_inputImages s) currentImageIx = Inr inputImage"
       "vector_at (m_computeDescriptorSets s) currentImageIx = Inr descriptorSet"
       "s1 = s \<lparr> calls := calls s @ convert_calls inputImage descriptorSet s \<rparr>"
    by blast
  from encodeVideoFrame_Inr [OF e] obtain dpbView refView MaxPicOrderCntLsb frameInfo where
    2: "vector_at (m_dpbImageViews s1) (unat ((m_frameCount s1 mod GOP_LENGTH) AND 1)) = Inr dpbView"
       "vector_at (m_dpbImageViews s1) (not_lsb (m_frameCount s1 mod GOP_LENGTH)) = Inr refView"
       "shift_one_left (unat (log2_max_pic_order_cnt_lsb_minus4 (m_sps s1)) + 4)
          = Inr MaxPicOrderCntLsb"
       "FrameInfo (m_frameCount s1 mod GOP_LENGTH) (m_width s1) (m_height s1) (m_sps s1) (m_pps s1)
          (m_frameCount s1 mod GOP_LENGTH)
          (m_chosenRateControlMode s1 AND VK_VIDEO_ENCODE_RATE_CONTROL_MODE_DISABLED_BIT_KHR \<noteq> 0)
          = Inr frameInfo"
       "s2 = s1 \<lparr> calls := calls s1 @ encode_calls frameInfo dpbView refView MaxPicOrderCntLsb s1 \<rparr>"
    by blast
  have ec: "encode_calls frameInfo dpbView refView MaxPicOrderCntLsb s1
      = encode_calls frameInfo dpbView refView MaxPicOrderCntLsb s"
    unfolding 1(3) by (simp add: encode_calls_def)
  show ?thesis
    using nr 1(1,2) 2 s' unfolding ec unfolding 1(3) by auto
qed

lemma getOutputVideoPacket_Inr_iff:
  "getOutputVideoPacket drv s = Inr (p, s') \<longleftrightarrow>
     result drv (length (calls s)) = VK_SUCCESS
   \<and> result drv (Suc (length (calls s))) = VK_SUCCESS
   \<and> p = \<lparr> out_data = Some (BitStreamData (unat (bitstreamStartOffset
                 (encodeResult drv (length (calls s) + 2))))),
           out_size = unat (bitstreamSize (encodeResult drv (length (calls s) + 2))) \<rparr>
   \<and> s' = s \<lparr> calls := calls s @
         [WaitForFences, GetQueryPoolResults,
          InvalidateAllocation (bitstreamStartOffset (encodeResult drv (length (calls s) + 2)))
            (bitstreamSize (encodeResult drv (length (calls s) + 2)))] \<rparr>"
  by (auto simp: getOutputVideoPacket_def run_steps_Inr_iff Let_def simp del: run_steps.simps)

lemma finishEncode_idle:
  assumes "\<not> m_running s"
  shows "finishEncode drv s = Inr (\<lparr> out_data = None, out_size = 0 \<rparr>, s)"
  using assms by (simp add: finishEncode_def)

lemma finishEncode_header:
  assumes "m_running s" and "m_bitStreamHeaderPending s"
  shows "finishEncode drv s =
     Inr (\<lparr> out_data = Some BitStreamHeaderData, out_size = length (m_bitStreamHeader s) \<rparr>,
          s \<lparr> m_bitStreamHeaderPending := False \<rparr>)"
  using assms by (simp add: finishEncode_def)

lemma finishEncode_packet_iff:
  assumes "m_running s" and "\<not> m_bitStreamHeaderPending s"
  shows "finishEncode drv s = Inr (p, s') \<longleftrightarrow>
     result drv (length (calls s)) = VK_SUCCESS
   \<and> result drv (Suc (length (calls s))) = VK_SUCCESS
   \<and> p = \<lparr> out_data = Some (BitStreamData (unat (bitstreamStartOffset
                 (encodeResult drv (length (calls s) + 2))))),
           out_size = unat (bitstreamSize (encodeResult drv (length (calls s) + 2))) \<rparr>
   \<and> s' = s \<lparr> m_running := False, m_frameCount := m_frameCount s + 1,
         calls := calls s @
         [WaitForFences, GetQueryPoolResults,
          InvalidateAllocation (bitstreamStartOffset (encodeResult drv (length (calls s) + 2)))
            (bitstreamSize (encodeResult drv (length (calls s) + 2))),
          Destroy (CommandBuffer ComputeCommandBuffer),
          Destroy (CommandBuffer EncodeCommandBuffer)] \<rparr>"
  using assms
  by (auto simp: finishEncode_def getOutputVideoPacket_Inr_iff run_steps_Inr_iff
      simp del: run_steps.simps)

lemma upt_0_2: "[0..<2] = [0, 1]"
  by (simp add: upt_rec)

lemma createVideoSession_Inr:
  assumes "createVideoSession drv s = Inr s'"
  shows "s' = s \<lparr> m_chosenRateControlMode := chosen_mode drv,
                  calls := calls s @
                    [GetInfo ''vkGetPhysicalDeviceVideoCapabilitiesKHR'',
                     GetInfo ''vkGetPhysicalDeviceVideoEncodeQualityLevelPropertiesKHR'',
                     GetInfo ''vkGetPhysicalDeviceVideoFormatPropertiesKHR'',
                     GetInfo ''vkGetPhysicalDeviceVideoFormatPropertiesKHR'',
                     GetInfo ''vkGetPhysicalDeviceVideoFormatPropertiesKHR'',
                     GetInfo ''vkGetPhysicalDeviceVideoFormatPropertiesKHR'',
                     Create VideoSession] \<rparr>"
  using assms
  by (auto simp: createVideoSession_def run_steps_Inr_iff Let_def chosen_mode_def
      simp del: run_steps.simps split: if_splits)

lemma allocateVideoSessionMemory_Inr:
  assumes "allocateVideoSessionMemory drv s = Inr s'"
  shows "s' = s \<lparr> m_allocations :=
                    (if videoSessionMemoryRequirementsCount drv = 0 then m_allocations s
                     else map Allocation [0..<videoSessionMemoryRequirementsCount drv]),
                  calls := calls s @
                    [GetInfo ''vkGetVideoSessionMemoryRequirementsKHR'',
                     GetInfo ''vkGetVideoSessionMemoryRequirementsKHR'']
                    @ (if videoSessionMemoryRequirementsCount drv = 0 then []
                       else map (\<lambda>memIdx. Create (Allocation memIdx))
                              [0..<videoSessionMemoryRequirementsCount drv]
                            @ [BindVideoSessionMemory (videoSessionMemoryRequirementsCount drv)]) \<rparr>"
  using assms
  by (auto simp: allocateVideoSessionMemory_def run_steps_Inr_iff Let_def comp_def
      simp del: run_steps.simps split: if_splits)

lemma createVideoSessionParameters_Inr:
  assumes "createVideoSessionParameters drv fps s = Inr s'"
  shows "\<exists>sps. getStdVideoH264SequenceParameterSet (m_width s) (m_height s)
                 (Some (getStdVideoH264SequenceParameterSetVui fps)) = Inr sps
     \<and> s' = s \<lparr> m_vui := getStdVideoH264SequenceParameterSetVui fps, m_sps := sps,
                 m_pps := getStdVideoH264PictureParameterSet,
                 calls := calls s @ [Create VideoSessionParameters] \<rparr>"
  using assms
  by (auto simp: createVideoSessionParameters_def run_steps_Inr_iff Let_def
      simp del: run_steps.simps)

lemma readBitstreamHeader_Inr:
  assumes "readBitstreamHeader drv s = Inr s'"
  shows "s' = s \<lparr> m_bitStreamHeader := encodedVideoSessionParameters drv,
                  m_bitStreamHeaderPending := True,
                  calls := calls s @
                    [GetInfo ''vkGetEncodedVideoSessionParametersKHR'',
                     GetInfo ''vkGetEncodedVideoSessionParametersKHR''] \<rparr>"
  using assms
  by (auto simp: readBitstreamHeader_def run_steps_Inr_iff simp del: run_steps.simps)

lemma allocateReferenceImages_2_Inr:
  assumes "allocateReferenceImages drv 2 s = Inr s'"
  shows "s' = s \<lparr> m_dpbImages := [DpbImage 0, DpbImage 1],
                  m_dpbImageViews := [DpbImageView 0, DpbImageView 1],
                  calls := calls s @
                    [Create (Image (DpbImage 0)), Create (ImageView (DpbImageView 0)),
                     Create (Image (DpbImage 1)), Create (ImageView (DpbImageView 1))] \<rparr>"
  using assms
  by (auto simp: allocateReferenceImages_def run_steps_Inr_iff upt_0_2
      simp del: run_steps.simps)

lemma createYCbCrConversionPipeline_Inr:
  assumes "createYCbCrConversionPipeline drv inputImageViews s = Inr s'"
  shows "s' = s \<lparr> m_computeDescriptorSets := [0..<length inputImageViews],
                  calls := calls s @
                    [Create ShaderModule, Create ComputeDescriptorSetLayout,
                     Create ComputePipelineLayout, Create ComputePipeline,
                     Destroy ShaderModule, Create DescriptorPool,
                     AllocateDescriptorSets (length inputImageViews)]
                    @ map UpdateDescriptorSets [0..<length inputImageViews] \<rparr>"
  using assms
  by (auto simp: createYCbCrConversionPipeline_def run_steps_Inr_iff Let_def comp_def
      simp del: run_steps.simps split: option.splits)

lemma init_fresh_Inr:
  assumes "init drv inputImages inputImageViews width height fps s = Inr s'"
    and "\<not> m_initialized s"
  shows "\<not> m_running s \<and> (\<exists>sps.
     getStdVideoH264SequenceParameterSet (width AND NOT 1) (height AND NOT 1)
        (Some (getStdVideoH264SequenceParameterSetVui fps)) = Inr sps
     \<and> s' = s \<lparr> m_initialized := True,
                 m_inputImages := inputImages,
                 m_width := width AND NOT 1,
                 m_height := height AND NOT 1,
                 m_allocations :=
                    (if videoSessionMemoryRequirementsCount drv = 0 then m_allocations s
                     else map Allocation [0..<videoSessionMemoryRequirementsCount drv]),
                 m_vui := getStdVideoH264SequenceParameterSetVui fps,
                 m_sps := sps,
                 m_pps := getStdVideoH264PictureParameterSet,
                 m_chosenRateControlMode := chosen_mode drv,
                 m_computeDescriptorSets := [0..<length inputImageViews],
                 m_bitStreamHeader := encodedVideoSessionParameters drv,
                 m_bitStreamHeaderPending := True,
                 m_dpbImages := [DpbImage 0, DpbImage 1],
                 m_dpbImageViews := [DpbImageView 0, DpbImageView 1],
                 m_frameCount := 0,
                 calls := calls s @ init_calls (videoSessionMemoryRequirementsCount drv)
                                      (length inputImageViews) \<rparr>)"
proof -
  from assms have nr: "\<not> m_running s"
    by (auto simp: init_def split: if_splits)
  from assms nr obtain s1 s2 s3 s4 s5 s6 s7 s8 s9 s10 s11 where
    1: "createEncodeCommandPool drv
          (s \<lparr> m_inputImages := inputImages, m_width := width AND NOT 1,
               m_height := height AND NOT 1 \<rparr>) = Inr s1"
    and 2: "createVideoSession drv s1 = Inr s2"
    and 3: "allocateVideoSessionMemory drv s2 = Inr s3"
    and 4: "createVideoSessionParameters drv fps s3 = Inr s4"
    and 5: "readBitstreamHeader drv s4 = Inr s5"
    and 6: "allocateOutputBitStream drv s5 = Inr s6"
    and 7: "allocateReferenceImages drv 2 s6 = Inr s7"
    and 8: "allocateIntermediateImages drv s7 = Inr s8"
    and 9: "createOutputQueryPool drv s8 = Inr s9"
    and 10: "createYCbCrConversionPipeline drv inputImageViews s9 = Inr s10"
    and 11: "run_steps drv
                 ([Checked (Create (Semaphore InterQueueSemaphore)),
                   Checked (Create (Semaphore InterQueueSemaphore2)),
                   Checked (Create (Semaphore InterQueueSemaphore3)),
                   Checked (Create EncodeFinishedFence),
                   Checked (Create (CommandBuffer InitCommandBuffer)),
                   Checked (BeginCommandBuffer InitCommandBuffer)]
                  @ initRateControl InitCommandBuffer
                  @ transitionImagesInitial InitCommandBuffer s10
                  @ [Checked (EndCommandBuffer InitCommandBuffer),
                     Checked ResetFences,
                     Checked (QueueSubmit EncodeQueue
                       \<lparr> pWaitSemaphores = [], pCommandBuffers = [InitCommandBuffer],
                         pSignalSemaphores = [] \<rparr> True),
                     Checked WaitForFences,
                     Unchecked (Destroy (CommandBuffer InitCommandBuffer))]) s10 = Inr s11"
    and 12: "s' = s11 \<lparr> m_frameCount := 0, m_initialized := True \<rparr>"
    unfolding init_def by (auto simp del: run_steps.simps)
  from 1 have e1: "s1 = s \<lparr> m_inputImages := inputImages, m_width := width AND NOT 1,
               m_height := height AND NOT 1, calls := calls s @ [Create EncodeCommandPool] \<rparr>"
    by (auto simp: createEncodeCommandPool_def run_steps_Inr_iff simp del: run_steps.simps)
  note e2 = createVideoSession_Inr [OF 2]
  note e3 = allocateVideoSessionMemory_Inr [OF 3]
  from createVideoSessionParameters_Inr [OF 4] obtain sps where
    sps: "getStdVideoH264SequenceParameterSet (m_width s3) (m_height s3)
                 (Some (getStdVideoH264SequenceParameterSetVui fps)) = Inr sps"
    and e4: "s4 = s3 \<lparr> m_vui := getStdVideoH264SequenceParameterSetVui fps, m_sps := sps,
                 m_pps := getStdVideoH264PictureParameterSet,
                 calls := calls s3 @ [Create VideoSessionParameters] \<rparr>"
    by blast
  note e5 = readBitstreamHeader_Inr [OF 5]
  from 6 have e6: "s6 = s5 \<lparr> calls := calls s5 @ [Create BitStreamBuffer, Create BitStreamMapping] \<rparr>"
    by (auto simp: allocateOutputBitStream_def run_steps_Inr_iff simp del: run_steps.simps)
  note e7 = allocateReferenceImages_2_Inr [OF 7]
  from 8 have e8: "s8 = s7 \<lparr> calls := calls s7 @
        [Create (Image YCbCrImage), Create (ImageView YCbCrImageView),
         Create (Image YCbCrImageLuma), Create (ImageView YCbCrImageLumaView),
         Create (Image YCbCrImageChroma), Create (ImageView YCbCrImageChromaView)] \<rparr>"
    by (auto simp: allocateIntermediateImages_def run_steps_Inr_iff simp del: run_steps.simps)
  from 9 have e9: "s9 = s8 \<lparr> calls := calls s8 @ [Create QueryPool] \<rparr>"
    by (auto simp: createOutputQueryPool_def run_steps_Inr_iff simp del: run_steps.simps)
  note e10 = createYCbCrConversionPipeline_Inr [OF 10]
  from 11 have e11: "s11 = s10 \<lparr> calls := calls s10 @
        [Create (Semaphore InterQueueSemaphore),
         Create (Semaphore InterQueueSemaphore2),
         Create (Semaphore InterQueueSemaphore3),
         Create EncodeFinishedFence,
         Create (CommandBuffer InitCommandBuffer),
         BeginCommandBuffer InitCommandBuffer,
         Cmd InitCommandBuffer (CmdBeginVideoCodingKHR
           \<lparr> begin_rateControl = False, begin_referenceSlotCount = 0,
             begin_pReferenceSlots = [] \<rparr>),
         Cmd InitCommandBuffer CmdControlVideoCodingKHR,
         Cmd InitCommandBuffer CmdEndVideoCodingKHR,
         Cmd InitCommandBuffer (CmdPipelineBarrier2 (m_dpbImages s10)),
         EndCommandBuffer InitCommandBuffer,
         ResetFences,
         QueueSubmit EncodeQueue
           \<lparr> pWaitSemaphores = [], pCommandBuffers = [InitCommandBuffer],
             pSignalSemaphores = [] \<rparr> True,
         WaitForFences,
         Destroy (CommandBuffer InitCommandBuffer)] \<rparr>"
    by (auto simp: run_steps_Inr_iff initRateControl_def transitionImagesInitial_def
        simp del: run_steps.simps)
  have w3: "m_width s3 = width AND NOT 1" "m_height s3 = height AND NOT 1"
    unfolding e3 e2 e1 by simp_all
  have "s' = s \<lparr> m_initialized := True,
                 m_inputImages := inputImages,
                 m_width := width AND NOT 1,
                 m_height := height AND NOT 1,
                 m_allocations :=
                    (if videoSessionMemoryRequirementsCount drv = 0 then m_allocations s
                     else map Allocation [0..<videoSessionMemoryRequirementsCount drv]),
                 m_vui := getStdVideoH264SequenceParameterSetVui fps,
                 m_sps := sps,
                 m_pps := getStdVideoH264PictureParameterSet,
                 m_chosenRateControlMode := chosen_mode drv,
                 m_computeDescriptorSets := [0..<length inputImageViews],
                 m_bitStreamHeader := encodedVideoSessionParameters drv,
                 m_bitStreamHeaderPending := True,
                 m_dpbImages := [DpbImage 0, DpbImage 1],
                 m_dpbImageViews := [DpbImageView 0, DpbImageView 1],
                 m_frameCount := 0,
                 calls := calls s @ init_calls (videoSessionMemoryRequirementsCount drv)
                                      (length inputImageViews) \<rparr>"
    unfolding 12 e11 e10 e9 e8 e7 e6 e5 e4 e3 e2 e1
    by (simp add: init_calls_def)
  with nr sps show ?thesis unfolding w3 by blast
qed

lemma deinit_uninitialized:
  assumes "\<not> m_initialized s"
  shows "deinit drv s = Inr s"
  using assms by (simp add: deinit_def)

lemma steps_ok_unchecked:
  assumes "\<And>st. st \<in> set sts \<Longrightarrow> \<exists>c. st = Unchecked c"
  shows "steps_ok drv n sts"
  using assms
proof (induction sts arbitrary: n)
  case Nil
  show ?case by simp
next
  case (Cons st sts)
  from Cons.prems [of st] obtain c where "st = Unchecked c" by auto
  with Cons show ?case by simp
qed

lemma deinit_Inr_iff:
  assumes "m_initialized s"
  shows "deinit drv s = Inr s' \<longleftrightarrow>
     (m_running s \<longrightarrow> result drv (length (calls s)) = VK_SUCCESS
                      \<and> result drv (Suc (length (calls s))) = VK_SUCCESS)
   \<and> length (m_dpbImages s) \<le> length (m_dpbImageViews s)
   \<and> s' = s \<lparr> m_initialized := False, m_allocations := [], m_bitStreamHeader := [],
              calls := calls s @ (if m_running s then drain_calls drv s else [])
                         @ release_calls s \<rparr>"
  using assms
  by (auto simp: deinit_def getOutputVideoPacket_Inr_iff run_steps_Inr_iff
        drain_calls_def release_calls_def steps_ok_append comp_def map_concat
        simp del: run_steps.simps intro!: steps_ok_unchecked)

lemma live_after_append: "live_after (t @ u) = foldl apply_call (live_after t) u"
  by (simp add: live_after_def)


lemma foldl_Create_comp [simp]:
  "foldl apply_call L (map (Create \<circ> f) xs) = L \<union> f ` set xs"
  by (induction xs arbitrary: L) auto






lemma foldl_drain_calls:
  "foldl apply_call L (drain_calls drv s)
     = L - {CommandBuffer ComputeCommandBuffer, CommandBuffer EncodeCommandBuffer}"
  by (auto simp: drain_calls_def)

lemma foldl_convert_calls:
  "foldl apply_call L (convert_calls inputImage descriptorSet s)
     = insert (CommandBuffer ComputeCommandBuffer) L"
  by (simp add: convert_calls_def)

lemma foldl_encode_calls:
  "foldl apply_call L (encode_calls frameInfo dpbView refView mx s)
     = insert (CommandBuffer EncodeCommandBuffer) L"
  by (simp add: encode_calls_def)







lemma init_Inr_cases:
  assumes "init drv inputImages inputImageViews width height fps s = Inr s'"
  shows "s' = s \<or>
    (\<exists>s0. (if m_initialized s then deinit drv s = Inr s0 else s0 = s)
        \<and> \<not> m_initialized s0
        \<and> init drv inputImages inputImageViews width height fps s0 = Inr s')"
proof (cases "m_initialized s")
  case False
  with assms show ?thesis by auto
next
  case True
  show ?thesis
  proof (cases "width AND NOT 1 = m_width s \<and> height AND NOT 1 = m_height s")
    case same: True
    with True assms have "s' = s" by (auto simp: init_def split: if_splits)
    then show ?thesis ..
  next
    case False
    from assms have nr: "\<not> m_running s" by (auto simp: init_def split: if_splits)
    from assms True False nr obtain s0 where d: "deinit drv s = Inr s0"
      by (auto simp: init_def simp del: run_steps.simps split: if_splits)
    from d have s0: "\<not> m_initialized s0" "\<not> m_running s0"
      using nr unfolding deinit_Inr_iff [OF True] by simp_all
    from assms True False nr d s0
    have "init drv inputImages inputImageViews width height fps s0 = Inr s'"
      by (auto simp: init_def simp del: run_steps.simps split: if_splits)
    with d s0 True show ?thesis by auto
  qed
qed




lemma run_steps_all_ok:
  assumes "\<forall>n. result drv n = VK_SUCCESS"
  shows "run_steps drv sts s = Inr (s \<lparr> calls := calls s @ map call_of sts \<rparr>)"
  unfolding run_steps_Inr_iff using steps_ok_all [OF assms] by simp

lemma createVideoSession_success:
  assumes ok: "\<forall>n. result drv n = VK_SUCCESS"
    and "VK_FORMAT_G8_B8R8_2PLANE_420_UNORM \<in> set (srcVideoFormatProperties drv)"
    and "dpbVideoFormatProperties drv \<noteq> []"
  shows "\<exists>s'. createVideoSession drv s = Inr s'"
  using assms(2-)
  by (simp add: createVideoSession_def run_steps_all_ok [OF ok] Let_def del: run_steps.simps)

lemma allocateVideoSessionMemory_success:
  assumes ok: "\<forall>n. result drv n = VK_SUCCESS"
  shows "\<exists>s'. allocateVideoSessionMemory drv s = Inr s'"
  by (simp add: allocateVideoSessionMemory_def run_steps_all_ok [OF ok] Let_def
      del: run_steps.simps)

lemma createVideoSessionParameters_success:
  assumes ok: "\<forall>n. result drv n = VK_SUCCESS"
  shows "\<exists>s'. createVideoSessionParameters drv fps s = Inr s'"
  by (simp add: createVideoSessionParameters_def run_steps_all_ok [OF ok] Let_def builder_value
      del: run_steps.simps)

lemma createYCbCrConversionPipeline_success:
  assumes ok: "\<forall>n. result drv n = VK_SUCCESS" and "shaderFile drv \<noteq> None"
  shows "\<exists>s'. createYCbCrConversionPipeline drv inputImageViews s = Inr s'"
  using assms(2)
  by (auto simp: createYCbCrConversionPipeline_def run_steps_all_ok [OF ok] Let_def
      simp del: run_steps.simps)

lemma init_success:
  assumes ok: "\<forall>n. result drv n = VK_SUCCESS"
    and fmt: "VK_FORMAT_G8_B8R8_2PLANE_420_UNORM \<in> set (srcVideoFormatProperties drv)"
      "dpbVideoFormatProperties drv \<noteq> []"
    and sh: "shaderFile drv \<noteq> None"
    and nr: "\<not> m_running s" and ni: "\<not> m_initialized s"
  shows "\<exists>s'. init drv inputImages inputImageViews width height fps s = Inr s'"
proof -
  obtain s1 where 1: "createEncodeCommandPool drv
          (s \<lparr> m_inputImages := inputImages, m_width := width AND NOT 1,
               m_height := height AND NOT 1 \<rparr>) = Inr s1"
    by (simp add: createEncodeCommandPool_def run_steps_all_ok [OF ok] del: run_steps.simps)
  obtain s2 where 2: "createVideoSession drv s1 = Inr s2"
    using createVideoSession_success [OF ok fmt] by blast
  obtain s3 where 3: "allocateVideoSessionMemory drv s2 = Inr s3"
    using allocateVideoSessionMemory_success [OF ok] by blast
  obtain s4 where 4: "createVideoSessionParameters drv fps s3 = Inr s4"
    using createVideoSessionParameters_success [OF ok] by blast
  obtain s5 where 5: "readBitstreamHeader drv s4 = Inr s5"
    by (simp add: readBitstreamHeader_def run_steps_all_ok [OF ok] del: run_steps.simps)
  obtain s6 where 6: "allocateOutputBitStream drv s5 = Inr s6"
    by (simp add: allocateOutputBitStream_def run_steps_all_ok [OF ok] del: run_steps.simps)
  obtain s7 where 7: "allocateReferenceImages drv 2 s6 = Inr s7"
    by (simp add: allocateReferenceImages_def run_steps_all_ok [OF ok] del: run_steps.simps)
  obtain s8 where 8: "allocateIntermediateImages drv s7 = Inr s8"
    by (simp add: allocateIntermediateImages_def run_steps_all_ok [OF ok] del: run_steps.simps)
  obtain s9 where 9: "createOutputQueryPool drv s8 = Inr s9"
    by (simp add: createOutputQueryPool_def run_steps_all_ok [OF ok] del: run_steps.simps)
  obtain s10 where 10: "createYCbCrConversionPipeline drv inputImageViews s9 = Inr s10"
    using createYCbCrConversionPipeline_success [OF ok sh] by blast
  show ?thesis
    unfolding init_def using nr ni
    by (simp only: if_False bindE_Inr 1 2 3 4 5 6 7 8 9 10 run_steps_all_ok [OF ok] simp_thms)
      blast
qed

lemma queueEncode_success:
  assumes ok: "\<forall>n. result drv n = VK_SUCCESS"
    and "\<not> m_running s"
    and "currentImageIx < length (m_inputImages s)"
    and "currentImageIx < length (m_computeDescriptorSets s)"
    and "2 \<le> length (m_dpbImageViews s)"
    and "log2_max_pic_order_cnt_lsb_minus4 (m_sps s) = 4"
  shows "\<exists>s'. queueEncode drv currentImageIx s = Inr s'"
proof -
  have a: "unat ((m_frameCount s mod GOP_LENGTH) AND 1) < length (m_dpbImageViews s)"
  proof -
    have "unat ((m_frameCount s mod GOP_LENGTH) AND 1) \<le> unat (1 :: 32 word)"
      by (rule word_and_le1 [THEN word_le_nat_alt [THEN iffD1]])
    with assms(5) show ?thesis by simp
  qed
  have b: "not_lsb (m_frameCount s mod GOP_LENGTH) < length (m_dpbImageViews s)"
    using assms(5) by (auto simp: not_lsb_def)
  obtain fi where fi: "FrameInfo (m_frameCount s mod GOP_LENGTH) (m_width s) (m_height s)
      (m_sps s) (m_pps s) (m_frameCount s mod GOP_LENGTH)
      (m_chosenRateControlMode s AND VK_VIDEO_ENCODE_RATE_CONTROL_MODE_DISABLED_BIT_KHR \<noteq> 0)
      = Inr fi"
    using FrameInfo_facts [OF assms(6)] by blast
  have v: "vector_at (m_inputImages s) currentImageIx = Inr (m_inputImages s ! currentImageIx)"
    "vector_at (m_computeDescriptorSets s) currentImageIx
       = Inr (m_computeDescriptorSets s ! currentImageIx)"
    "vector_at (m_dpbImageViews s) (unat ((m_frameCount s mod GOP_LENGTH) AND 1))
       = Inr (m_dpbImageViews s ! unat ((m_frameCount s mod GOP_LENGTH) AND 1))"
    "vector_at (m_dpbImageViews s) (not_lsb (m_frameCount s mod GOP_LENGTH))
       = Inr (m_dpbImageViews s ! not_lsb (m_frameCount s mod GOP_LENGTH))"
    using assms(3,4) a b unfolding vector_at_def by simp_all
  have sh: "shift_one_left (unat (log2_max_pic_order_cnt_lsb_minus4 (m_sps s)) + 4) = Inr 256"
    unfolding assms(6) by (simp add: shift_one_left_8)
  show ?thesis
    using assms(2)
    by (simp add: queueEncode_def convertRGBtoYCbCr_def encodeVideoFrame_def
        run_steps_all_ok [OF ok] v sh fi Let_def
        del: run_steps.simps)
qed

lemma example_driver_ok: "\<forall>n. result example_driver n = VK_SUCCESS"
  by (simp add: example_driver_def)

lemma example_encoder_fresh: "\<not> m_running example_encoder" "\<not> m_initialized example_encoder"
  by (simp_all add: example_encoder_def VideoEncoder_new_def)

lemma example_init:
  "init example_driver [InputImage 0, InputImage 1] [InputImageView 0, InputImageView 1]
     800 600 30 example_encoder = Inr example_ready"
proof -
  have "\<exists>s'. init example_driver [InputImage 0, InputImage 1]
      [InputImageView 0, InputImageView 1] 800 600 30 example_encoder = Inr s'"
    by (rule init_success [OF example_driver_ok _ _ _ example_encoder_fresh])
      (simp_all add: example_driver_def)
  then show ?thesis unfolding example_ready_def by auto
qed

lemma example_ready_fields:
  "m_initialized example_ready" "\<not> m_running example_ready"
  "m_bitStreamHeaderPending example_ready"
  "m_bitStreamHeader example_ready = [0, 0, 0, 1, 0x67, 0, 0, 0, 1, 0x68]"
  "m_frameCount example_ready = 0"
  "m_inputImages example_ready = [InputImage 0, InputImage 1]"
  "m_computeDescriptorSets example_ready = [0, 1]"
  "m_dpbImageViews example_ready = [DpbImageView 0, DpbImageView 1]"
  "log2_max_pic_order_cnt_lsb_minus4 (m_sps example_ready) = 4"
proof -
  from init_fresh_Inr [OF example_init example_encoder_fresh(2)] obtain sps where
    sps: "getStdVideoH264SequenceParameterSet (800 AND NOT 1) (600 AND NOT 1)
        (Some (getStdVideoH264SequenceParameterSetVui 30)) = Inr sps"
    and e: "example_ready = example_encoder \<lparr> m_initialized := True,
                 m_inputImages := [InputImage 0, InputImage 1],
                 m_width := 800 AND NOT 1,
                 m_height := 600 AND NOT 1,
                 m_allocations :=
                    (if videoSessionMemoryRequirementsCount example_driver = 0
                     then m_allocations example_encoder
                     else map Allocation [0..<videoSessionMemoryRequirementsCount example_driver]),
                 m_vui := getStdVideoH264SequenceParameterSetVui 30,
                 m_sps := sps,
                 m_pps := getStdVideoH264PictureParameterSet,
                 m_chosenRateControlMode := chosen_mode example_driver,
                 m_computeDescriptorSets := [0..<length [InputImageView 0, InputImageView 1]],
                 m_bitStreamHeader := encodedVideoSessionParameters example_driver,
                 m_bitStreamHeaderPending := True,
                 m_dpbImages := [DpbImage 0, DpbImage 1],
                 m_dpbImageViews := [DpbImageView 0, DpbImageView 1],
                 m_frameCount := 0,
                 calls := calls example_encoder
                   @ init_calls (videoSessionMemoryRequirementsCount example_driver)
                       (length [InputImageView 0, InputImageView 1]) \<rparr>"
    by blast
  have l: "log2_max_pic_order_cnt_lsb_minus4 sps = 4" using sps by (rule builder_log2)
  show "m_initialized example_ready" "\<not> m_running example_ready"
    "m_bitStreamHeaderPending example_ready"
    "m_bitStreamHeader example_ready = [0, 0, 0, 1, 0x67, 0, 0, 0, 1, 0x68]"
    "m_frameCount example_ready = 0"
    "m_inputImages example_ready = [InputImage 0, InputImage 1]"
    "m_computeDescriptorSets example_ready = [0, 1]"
    "m_dpbImageViews example_ready = [DpbImageView 0, DpbImageView 1]"
    "log2_max_pic_order_cnt_lsb_minus4 (m_sps example_ready) = 4"
    unfolding e using example_encoder_fresh l
    by (simp_all add: example_driver_def upt_0_2)
qed

lemma example_queue:
  "queueEncode example_driver 0 example_ready = Inr example_queued"
proof -
  have "\<exists>s'. queueEncode example_driver 0 example_ready = Inr s'"
    by (rule queueEncode_success [OF example_driver_ok])
      (simp_all add: example_ready_fields)
  then show ?thesis unfolding example_queued_def by auto
qed

lemma reachable_example_ready: "reachable example_driver example_ready"
proof -
  have "reachable example_driver example_encoder"
    unfolding example_encoder_def by (rule reachable_new)
  from this example_init show ?thesis by (rule reachable_init)
qed

lemma reachable_example_queued: "reachable example_driver example_queued"
  using reachable_example_ready example_ready_fields(1) example_queue
  by (rule reachable_queueEncode)

lemma example_queued_fields:
  "m_initialized example_queued" "m_running example_queued"
  "m_bitStreamHeaderPending example_queued"
  "m_bitStreamHeader example_queued = [0, 0, 0, 1, 0x67, 0, 0, 0, 1, 0x68]"
  "m_frameCount example_queued = 0"
  "m_inputImages example_queued = [InputImage 0, InputImage 1]"
  "m_computeDescriptorSets example_queued = [0, 1]"
  "m_dpbImageViews example_queued = [DpbImageView 0, DpbImageView 1]"
  "log2_max_pic_order_cnt_lsb_minus4 (m_sps example_queued) = 4"
proof -
  from queueEncode_Inr [OF example_queue] obtain t where
    e: "example_queued = example_ready \<lparr> m_running := True, calls := t \<rparr>"
    by blast
  show "m_initialized example_queued" "m_running example_queued"
    "m_bitStreamHeaderPending example_queued"
    "m_bitStreamHeader example_queued = [0, 0, 0, 1, 0x67, 0, 0, 0, 1, 0x68]"
    "m_frameCount example_queued = 0"
    "m_inputImages example_queued = [InputImage 0, InputImage 1]"
    "m_computeDescriptorSets example_queued = [0, 1]"
    "m_dpbImageViews example_queued = [DpbImageView 0, DpbImageView 1]"
    "log2_max_pic_order_cnt_lsb_minus4 (m_sps example_queued) = 4"
    unfolding e using example_ready_fields by simp_all
qed

lemma encode_commands_append:
  "encode_commands (t @ u) = encode_commands t @ encode_commands u"
  by (induction t rule: encode_commands.induct) simp_all

lemma encode_commands_encode_calls:
  "encode_commands (encode_calls fi v0 v1 mx s)
     = [videoEncodeInfo fi v0 v1 (m_frameCount s mod GOP_LENGTH) mx s]"
  by (simp add: encode_calls_def)

lemma encode_commands_convert_calls:
  "encode_commands (convert_calls inputImage descriptorSet s) = []"
  by (simp add: convert_calls_def)

lemma unat_and_1: "unat ((g :: 32 word) AND 1) = unat g mod 2"
  by (simp add: and_one_eq unat_mod_distrib)

lemma sint_and_1: "sint ((g :: 32 word) AND 1) = int (unat g mod 2)"
proof -
  have "unat (g AND 1) < 2 ^ 31"
    unfolding unat_and_1 by (rule less_trans [of _ 2]) simp_all
  then show ?thesis by (simp only: sint_small unat_and_1)
qed

lemma not_lsb_eq: "not_lsb g = 1 - unat g mod 2"
proof -
  have "(g AND 1 = 0) = (unat (g AND 1) = 0)" by (simp only: unat_eq_0)
  then have a: "(g AND 1 = 0) = (unat g mod 2 = 0)" by (simp only: unat_and_1)
  have "unat g mod 2 = 0 \<or> unat g mod 2 = 1" by presburger
  then show ?thesis unfolding not_lsb_def a by auto
qed

lemma sint_not_lsb: "sint (of_nat (not_lsb g) :: 32 word) = 1 - int (unat g mod 2)"
proof -
  have "sint (of_nat (not_lsb g) :: 32 word) = int (not_lsb g)"
    by (simp add: not_lsb_def)
  then show ?thesis unfolding not_lsb_eq by simp
qed

lemma slot_indices_differ: "(of_nat (not_lsb g) :: 32 word) \<noteq> g AND 1"
proof
  assume "(of_nat (not_lsb g) :: 32 word) = g AND 1"
  then have "sint (of_nat (not_lsb g) :: 32 word) = sint (g AND 1)" by simp
  then show False unfolding sint_not_lsb sint_and_1 by presburger
qed

lemma referenceSlots_indices:
  "map slotIndex (referenceSlots i v0 v1 g mx s) = [i, of_nat (not_lsb g)]"
  "map (imageViewBinding \<circ> pPictureResource) (referenceSlots i v0 v1 g mx s) = [v0, v1]"
  "map (FrameNum \<circ> pStdReferenceInfo \<circ> slot_pNext) (referenceSlots i v0 v1 g mx s) = [g, g - 1]"
  by (simp_all add: referenceSlots_def picResource_def dpbRefInfo_def refRefInfo_def)

lemma videoEncodeInfo_setup:
  "slotIndex (pSetupReferenceSlot (videoEncodeInfo fi v0 v1 g mx s)) = g AND 1"
  "imageViewBinding (pPictureResource (pSetupReferenceSlot (videoEncodeInfo fi v0 v1 g mx s))) = v0"
  "enc_pNext (videoEncodeInfo fi v0 v1 g mx s) = getEncodeH264FrameInfo fi"
  by (simp_all add: videoEncodeInfo_def referenceSlots_def picResource_def Let_def)

lemma videoEncodeInfo_intra:
  "enc_pReferenceSlots (videoEncodeInfo fi v0 v1 0 mx s) = []"
  "enc_referenceSlotCount (videoEncodeInfo fi v0 v1 0 mx s) = 0"
  by (simp_all add: videoEncodeInfo_def Let_def)

lemma videoEncodeInfo_predicted:
  assumes "g \<noteq> 0"
  shows "\<exists>r. enc_pReferenceSlots (videoEncodeInfo fi v0 v1 g mx s) = [r]
     \<and> slotIndex r = of_nat (not_lsb g)
     \<and> imageViewBinding (pPictureResource r) = v1
     \<and> FrameNum (pStdReferenceInfo (slot_pNext r)) = g - 1"
    and "enc_referenceSlotCount (videoEncodeInfo fi v0 v1 g mx s) = 1"
proof -
  from assms have "0 < g" by (simp add: word_greater_zero_iff)
  then show "\<exists>r. enc_pReferenceSlots (videoEncodeInfo fi v0 v1 g mx s) = [r]
     \<and> slotIndex r = of_nat (not_lsb g)
     \<and> imageViewBinding (pPictureResource r) = v1
     \<and> FrameNum (pStdReferenceInfo (slot_pNext r)) = g - 1"
    and "enc_referenceSlotCount (videoEncodeInfo fi v0 v1 g mx s) = 1"
    by (simp_all add: videoEncodeInfo_def referenceSlots_def picResource_def refRefInfo_def
        Let_def)
qed

lemma vector_at_Inr: "vector_at xs i = Inr x \<Longrightarrow> x = xs ! i"
  by (simp add: vector_at_def split: if_splits)

lemma FrameInfo_Inr_facts:
  assumes "FrameInfo frameCount w h sps pps g cq = Inr fi"
  shows "slice_type (pStdSliceHeader (pNaluSliceEntries (getEncodeH264FrameInfo fi)))
          = (if g = 0 then STD_VIDEO_H264_SLICE_TYPE_I else STD_VIDEO_H264_SLICE_TYPE_P)"
    and "IdrPicFlag (pic_flags (pStdPictureInfo (getEncodeH264FrameInfo fi))) = (g = 0)"
    and "pic_primary_pic_type (pStdPictureInfo (getEncodeH264FrameInfo fi))
          = (if g = 0 then STD_VIDEO_H264_PICTURE_TYPE_IDR else STD_VIDEO_H264_PICTURE_TYPE_P)"
    and "RefPicList0 (pRefLists (pStdPictureInfo (getEncodeH264FrameInfo fi)))
          = (if g = 0
             then replicate STD_VIDEO_H264_MAX_NUM_LIST_REF STD_VIDEO_H264_NO_REFERENCE_PICTURE
             else of_nat (not_lsb g) # replicate 31 STD_VIDEO_H264_NO_REFERENCE_PICTURE)"
    and "frame_num (pStdPictureInfo (getEncodeH264FrameInfo fi)) = frameCount"
proof -
  from assms obtain mx where
    "shift_one_left (unat (log2_max_pic_order_cnt_lsb_minus4 sps) + 4) = Inr mx"
    by (cases "shift_one_left (unat (log2_max_pic_order_cnt_lsb_minus4 sps) + 4)")
      (simp_all add: FrameInfo_def)
  with assms have fi: "fi = projr (FrameInfo frameCount w h sps pps g cq)" by simp
  show "slice_type (pStdSliceHeader (pNaluSliceEntries (getEncodeH264FrameInfo fi)))
          = (if g = 0 then STD_VIDEO_H264_SLICE_TYPE_I else STD_VIDEO_H264_SLICE_TYPE_P)"
    and "IdrPicFlag (pic_flags (pStdPictureInfo (getEncodeH264FrameInfo fi))) = (g = 0)"
    and "pic_primary_pic_type (pStdPictureInfo (getEncodeH264FrameInfo fi))
          = (if g = 0 then STD_VIDEO_H264_PICTURE_TYPE_IDR else STD_VIDEO_H264_PICTURE_TYPE_P)"
    and "RefPicList0 (pRefLists (pStdPictureInfo (getEncodeH264FrameInfo fi)))
          = (if g = 0
             then replicate STD_VIDEO_H264_MAX_NUM_LIST_REF STD_VIDEO_H264_NO_REFERENCE_PICTURE
             else of_nat (not_lsb g) # replicate 31 STD_VIDEO_H264_NO_REFERENCE_PICTURE)"
    and "frame_num (pStdPictureInfo (getEncodeH264FrameInfo fi)) = frameCount"
    unfolding fi
    using \<open>shift_one_left (unat (log2_max_pic_order_cnt_lsb_minus4 sps) + 4) = Inr mx\<close>
    by (simp_all add: FrameInfo_def getEncodeH264FrameInfo_def Let_def not_lsb_def
        STD_VIDEO_H264_MAX_NUM_LIST_REF_def replicate_32_update)
qed

lemma encodeVideoFrame_command:
  assumes "encodeVideoFrame drv s = Inr s'"
  shows "\<exists>fi mx. FrameInfo (m_frameCount s mod GOP_LENGTH) (m_width s) (m_height s) (m_sps s)
            (m_pps s) (m_frameCount s mod GOP_LENGTH)
            (m_chosenRateControlMode s AND VK_VIDEO_ENCODE_RATE_CONTROL_MODE_DISABLED_BIT_KHR \<noteq> 0)
          = Inr fi
      \<and> encode_commands (calls s') = encode_commands (calls s) @
          [videoEncodeInfo fi (m_dpbImageViews s ! (unat (m_frameCount s mod GOP_LENGTH) mod 2))
             (m_dpbImageViews s ! (1 - unat (m_frameCount s mod GOP_LENGTH) mod 2))
             (m_frameCount s mod GOP_LENGTH) mx s]"
proof -
  from encodeVideoFrame_Inr [OF assms] obtain dpbView refView mx fi where
    v: "vector_at (m_dpbImageViews s) (unat ((m_frameCount s mod GOP_LENGTH) AND 1)) = Inr dpbView"
       "vector_at (m_dpbImageViews s) (not_lsb (m_frameCount s mod GOP_LENGTH)) = Inr refView"
    and fi: "FrameInfo (m_frameCount s mod GOP_LENGTH) (m_width s) (m_height s) (m_sps s)
            (m_pps s) (m_frameCount s mod GOP_LENGTH)
            (m_chosenRateControlMode s AND VK_VIDEO_ENCODE_RATE_CONTROL_MODE_DISABLED_BIT_KHR \<noteq> 0)
          = Inr fi"
    and s': "s' = s \<lparr> calls := calls s @ encode_calls fi dpbView refView mx s \<rparr>"
    by blast
  from v have "dpbView = m_dpbImageViews s ! (unat (m_frameCount s mod GOP_LENGTH) mod 2)"
    "refView = m_dpbImageViews s ! (1 - unat (m_frameCount s mod GOP_LENGTH) mod 2)"
    by (simp_all only: vector_at_Inr [OF v(1)] vector_at_Inr [OF v(2)] unat_and_1 not_lsb_eq)
  with fi s' show ?thesis
    by (auto simp: encode_commands_append encode_commands_encode_calls)
qed

text \<open>
  Claim C1. When \<open>encodeVideoFrame\<close> returns, it has recorded exactly one encode
  command. For the GOP index \<open>g\<close> of the frame, the setup slot of that command (the slot
  being written) has slot index \<open>g & 1\<close> and the reference picture view of that index;
  for \<open>g > 0\<close> the command binds one reference slot, which has slot index \<open>!(g & 1)\<close> (1
  if \<open>g\<close> is even, 0 if it is odd) and the view of that index, and the two slot indices
  differ; for \<open>g = 0\<close> no slot is read as reference.
\<close>

theorem reference_slot_parity:
  assumes "encodeVideoFrame drv s = Inr s'" and "g = m_frameCount s mod GOP_LENGTH"
  shows "\<exists>info. encode_commands (calls s') = encode_commands (calls s) @ [info]
     \<and> slotIndex (pSetupReferenceSlot info) = g AND 1
     \<and> sint (slotIndex (pSetupReferenceSlot info)) = int (unat g mod 2)
     \<and> imageViewBinding (pPictureResource (pSetupReferenceSlot info))
         = m_dpbImageViews s ! (unat g mod 2)
     \<and> (g = 0 \<longrightarrow> enc_pReferenceSlots info = [])
     \<and> (g \<noteq> 0 \<longrightarrow>
          (\<exists>r. enc_pReferenceSlots info = [r]
             \<and> slotIndex r = of_nat (not_lsb g)
             \<and> sint (slotIndex r) = 1 - int (unat g mod 2)
             \<and> imageViewBinding (pPictureResource r) = m_dpbImageViews s ! (1 - unat g mod 2)
             \<and> slotIndex r \<noteq> slotIndex (pSetupReferenceSlot info)))"
proof -
  from encodeVideoFrame_command [OF assms(1)] obtain fi mx where
    c: "encode_commands (calls s') = encode_commands (calls s) @
          [videoEncodeInfo fi (m_dpbImageViews s ! (unat g mod 2))
             (m_dpbImageViews s ! (1 - unat g mod 2)) g mx s]"
    unfolding assms(2) by blast
  let ?info = "videoEncodeInfo fi (m_dpbImageViews s ! (unat g mod 2))
             (m_dpbImageViews s ! (1 - unat g mod 2)) g mx s"
  have p: "g \<noteq> 0 \<longrightarrow>
          (\<exists>r. enc_pReferenceSlots ?info = [r]
             \<and> slotIndex r = of_nat (not_lsb g)
             \<and> sint (slotIndex r) = 1 - int (unat g mod 2)
             \<and> imageViewBinding (pPictureResource r) = m_dpbImageViews s ! (1 - unat g mod 2)
             \<and> slotIndex r \<noteq> slotIndex (pSetupReferenceSlot ?info))"
  proof
    assume "g \<noteq> 0"
    from videoEncodeInfo_predicted(1) [OF this] obtain r where
      "enc_pReferenceSlots ?info = [r]" "slotIndex r = of_nat (not_lsb g)"
      "imageViewBinding (pPictureResource r) = m_dpbImageViews s ! (1 - unat g mod 2)"
      by blast
    then show "\<exists>r. enc_pReferenceSlots ?info = [r]
             \<and> slotIndex r = of_nat (not_lsb g)
             \<and> sint (slotIndex r) = 1 - int (unat g mod 2)
             \<and> imageViewBinding (pPictureResource r) = m_dpbImageViews s ! (1 - unat g mod 2)
             \<and> slotIndex r \<noteq> slotIndex (pSetupReferenceSlot ?info)"
      using slot_indices_differ [of g]
      by (simp add: sint_not_lsb videoEncodeInfo_setup)
  qed
  have i: "g = 0 \<longrightarrow> enc_pReferenceSlots ?info = []"
    by (auto simp: videoEncodeInfo_intra)
  show ?thesis
    apply (rule exI [of _ ?info])
    apply (intro conjI)
    using c p i apply (simp_all only: videoEncodeInfo_setup sint_and_1)
    done
qed

section \<open>The in-flight protocol\<close>

subsection \<open>The example session\<close>

lemma example_finish_header:
  "finishEncode example_driver example_queued
     = Inr (header_packet [0, 0, 0, 1, 0x67, 0, 0, 0, 1, 0x68], example_header_sent)"
  unfolding example_header_sent_def
  by (simp add: finishEncode_header example_queued_fields header_packet_def)

lemma example_header_sent_eq:
  "example_header_sent = example_queued \<lparr> m_bitStreamHeaderPending := False \<rparr>"
  unfolding example_header_sent_def
  by (simp add: finishEncode_header example_queued_fields)

lemma example_header_sent_fields:
  "m_initialized example_header_sent" "m_running example_header_sent"
  "\<not> m_bitStreamHeaderPending example_header_sent"
  "m_frameCount example_header_sent = 0"
  "m_inputImages example_header_sent = [InputImage 0, InputImage 1]"
  "m_computeDescriptorSets example_header_sent = [0, 1]"
  "m_dpbImageViews example_header_sent = [DpbImageView 0, DpbImageView 1]"
  "log2_max_pic_order_cnt_lsb_minus4 (m_sps example_header_sent) = 4"
  unfolding example_header_sent_eq using example_queued_fields by simp_all

lemma example_finish_packet:
  "finishEncode example_driver example_header_sent
     = Inr (\<lparr> out_data = Some (BitStreamData 0), out_size = 5000 \<rparr>, example_frame_done)"
proof -
  have "\<exists>p s'. finishEncode example_driver example_header_sent = Inr (p, s')
      \<and> p = \<lparr> out_data = Some (BitStreamData 0), out_size = 5000 \<rparr>"
    unfolding finishEncode_packet_iff [OF example_header_sent_fields(2,3)]
    by (simp add: example_driver_def VK_SUCCESS_def)
  then show ?thesis unfolding example_frame_done_def by auto
qed

lemma example_frame_done_fields:
  "m_initialized example_frame_done" "\<not> m_running example_frame_done"
  "\<not> m_bitStreamHeaderPending example_frame_done"
  "m_frameCount example_frame_done = 1"
  "m_inputImages example_frame_done = [InputImage 0, InputImage 1]"
  "m_computeDescriptorSets example_frame_done = [0, 1]"
  "m_dpbImageViews example_frame_done = [DpbImageView 0, DpbImageView 1]"
  "log2_max_pic_order_cnt_lsb_minus4 (m_sps example_frame_done) = 4"
proof -
  from example_finish_packet obtain t where
    e: "example_frame_done = example_header_sent
          \<lparr> m_running := False, m_frameCount := m_frameCount example_header_sent + 1,
            calls := t \<rparr>"
    unfolding finishEncode_packet_iff [OF example_header_sent_fields(2,3)] by blast
  show "m_initialized example_frame_done" "\<not> m_running example_frame_done"
    "\<not> m_bitStreamHeaderPending example_frame_done"
    "m_frameCount example_frame_done = 1"
    "m_inputImages example_frame_done = [InputImage 0, InputImage 1]"
    "m_computeDescriptorSets example_frame_done = [0, 1]"
    "m_dpbImageViews example_frame_done = [DpbImageView 0, DpbImageView 1]"
    "log2_max_pic_order_cnt_lsb_minus4 (m_sps example_frame_done) = 4"
    unfolding e using example_header_sent_fields by simp_all
qed

lemma encodeVideoFrame_success:
  assumes ok: "\<forall>n. result drv n = VK_SUCCESS"
    and "2 \<le> length (m_dpbImageViews s)"
    and "log2_max_pic_order_cnt_lsb_minus4 (m_sps s) = 4"
  shows "\<exists>s'. encodeVideoFrame drv s = Inr s'"
proof -
  have a: "unat ((m_frameCount s mod GOP_LENGTH) AND 1) < length (m_dpbImageViews s)"
    unfolding unat_and_1 using assms(2) by (simp add: less_le_trans [of _ 2])
  have b: "not_lsb (m_frameCount s mod GOP_LENGTH) < length (m_dpbImageViews s)"
    using assms(2) by (auto simp: not_lsb_def)
  obtain fi where fi: "FrameInfo (m_frameCount s mod GOP_LENGTH) (m_width s) (m_height s)
      (m_sps s) (m_pps s) (m_frameCount s mod GOP_LENGTH)
      (m_chosenRateControlMode s AND VK_VIDEO_ENCODE_RATE_CONTROL_MODE_DISABLED_BIT_KHR \<noteq> 0)
      = Inr fi"
    using FrameInfo_facts [OF assms(3)] by blast
  have v: "vector_at (m_dpbImageViews s) (unat ((m_frameCount s mod GOP_LENGTH) AND 1))
       = Inr (m_dpbImageViews s ! unat ((m_frameCount s mod GOP_LENGTH) AND 1))"
    "vector_at (m_dpbImageViews s) (not_lsb (m_frameCount s mod GOP_LENGTH))
       = Inr (m_dpbImageViews s ! not_lsb (m_frameCount s mod GOP_LENGTH))"
    using a b unfolding vector_at_def by simp_all
  have sh: "shift_one_left (unat (log2_max_pic_order_cnt_lsb_minus4 (m_sps s)) + 4) = Inr 256"
    unfolding assms(3) by (simp add: shift_one_left_8)
  show ?thesis
    by (simp add: encodeVideoFrame_def run_steps_all_ok [OF ok] v sh fi Let_def
        del: run_steps.simps)
qed

lemma example_gop_index:
  "m_frameCount example_ready mod GOP_LENGTH = 0"
  "m_frameCount example_frame_done mod GOP_LENGTH = 1"
  by (simp_all add: example_ready_fields example_frame_done_fields GOP_LENGTH_def)

text \<open>
  The theorem at the example session: the first frame (GOP index 0) is written to slot 0
  and reads no reference; the second frame (GOP index 1) is written to slot 1 and reads
  slot 0.
\<close>

theorem reference_slot_parity_witness:
  "(\<exists>s' info. encodeVideoFrame example_driver example_ready = Inr s'
      \<and> encode_commands (calls s') = encode_commands (calls example_ready) @ [info]
      \<and> sint (slotIndex (pSetupReferenceSlot info)) = 0
      \<and> imageViewBinding (pPictureResource (pSetupReferenceSlot info)) = DpbImageView 0
      \<and> enc_pReferenceSlots info = [])
   \<and> (\<exists>s' info r. encodeVideoFrame example_driver example_frame_done = Inr s'
      \<and> encode_commands (calls s') = encode_commands (calls example_frame_done) @ [info]
      \<and> sint (slotIndex (pSetupReferenceSlot info)) = 1
      \<and> imageViewBinding (pPictureResource (pSetupReferenceSlot info)) = DpbImageView 1
      \<and> enc_pReferenceSlots info = [r]
      \<and> sint (slotIndex r) = 0
      \<and> imageViewBinding (pPictureResource r) = DpbImageView 0)"
proof (rule conjI)
  obtain s' where e: "encodeVideoFrame example_driver example_ready = Inr s'"
    using encodeVideoFrame_success [OF example_driver_ok, of example_ready]
    by (auto simp: example_ready_fields)
  from reference_slot_parity [OF e example_gop_index(1) [symmetric]]
  show "\<exists>s' info. encodeVideoFrame example_driver example_ready = Inr s'
      \<and> encode_commands (calls s') = encode_commands (calls example_ready) @ [info]
      \<and> sint (slotIndex (pSetupReferenceSlot info)) = 0
      \<and> imageViewBinding (pPictureResource (pSetupReferenceSlot info)) = DpbImageView 0
      \<and> enc_pReferenceSlots info = []"
    using e by (auto simp: example_ready_fields)
next
  obtain s' where e: "encodeVideoFrame example_driver example_frame_done = Inr s'"
    using encodeVideoFrame_success [OF example_driver_ok, of example_frame_done]
    by (auto simp: example_frame_done_fields)
  from reference_slot_parity [OF e example_gop_index(2) [symmetric]]
  show "\<exists>s' info r. encodeVideoFrame example_driver example_frame_done = Inr s'
      \<and> encode_commands (calls s') = encode_commands (calls example_frame_done) @ [info]
      \<and> sint (slotIndex (pSetupReferenceSlot info)) = 1
      \<and> imageViewBinding (pPictureResource (pSetupReferenceSlot info)) = DpbImageView 1
      \<and> enc_pReferenceSlots info = [r]
      \<and> sint (slotIndex r) = 0
      \<and> imageViewBinding (pPictureResource r) = DpbImageView 0"
    using e by (auto simp: example_frame_done_fields)
qed

subsection \<open>Picture types, the in-flight flag and the pending header\<close>

text \<open>
  Claim C2. When \<open>encodeVideoFrame\<close> returns, it has recorded exactly one encode
  command, for the GOP index \<open>g = m_frameCount mod 16\<close>. For \<open>g = 0\<close> the picture is intra:
  the slice type is I, \<open>IdrPicFlag\<close> is set, the primary picture type is IDR, every entry
  of \<open>RefPicList0\<close> is the no-reference marker, and the encode information has a
  reference-slot count of 0 and no reference slot. For \<open>g > 0\<close> the picture is predicted:
  slice type and primary picture type are P, \<open>IdrPicFlag\<close> is clear, only the first entry
  of \<open>RefPicList0\<close> is used, and exactly one reference slot is bound, whose reference
  information has \<open>frame_num = g - 1\<close> (as a number, without wrap-around).
\<close>

theorem intra_and_predicted_pictures:
  assumes "encodeVideoFrame drv s = Inr s'" and "g = m_frameCount s mod GOP_LENGTH"
  shows "\<exists>info. encode_commands (calls s') = encode_commands (calls s) @ [info]
     \<and> (g = 0 \<longrightarrow>
           slice_type (pStdSliceHeader (pNaluSliceEntries (enc_pNext info)))
             = STD_VIDEO_H264_SLICE_TYPE_I
         \<and> IdrPicFlag (pic_flags (pStdPictureInfo (enc_pNext info)))
         \<and> pic_primary_pic_type (pStdPictureInfo (enc_pNext info))
             = STD_VIDEO_H264_PICTURE_TYPE_IDR
         \<and> RefPicList0 (pRefLists (pStdPictureInfo (enc_pNext info)))
             = replicate STD_VIDEO_H264_MAX_NUM_LIST_REF STD_VIDEO_H264_NO_REFERENCE_PICTURE
         \<and> enc_referenceSlotCount info = 0
         \<and> enc_pReferenceSlots info = [])
     \<and> (g \<noteq> 0 \<longrightarrow>
           slice_type (pStdSliceHeader (pNaluSliceEntries (enc_pNext info)))
             = STD_VIDEO_H264_SLICE_TYPE_P
         \<and> \<not> IdrPicFlag (pic_flags (pStdPictureInfo (enc_pNext info)))
         \<and> pic_primary_pic_type (pStdPictureInfo (enc_pNext info))
             = STD_VIDEO_H264_PICTURE_TYPE_P
         \<and> RefPicList0 (pRefLists (pStdPictureInfo (enc_pNext info)))
             = of_nat (not_lsb g) # replicate 31 STD_VIDEO_H264_NO_REFERENCE_PICTURE
         \<and> enc_referenceSlotCount info = 1
         \<and> (\<exists>r. enc_pReferenceSlots info = [r]
                \<and> FrameNum (pStdReferenceInfo (slot_pNext r)) = g - 1
                \<and> unat (FrameNum (pStdReferenceInfo (slot_pNext r))) = unat g - 1))"
proof -
  from encodeVideoFrame_command [OF assms(1)] obtain fi mx where
    fi: "FrameInfo g (m_width s) (m_height s) (m_sps s) (m_pps s) g
            (m_chosenRateControlMode s AND VK_VIDEO_ENCODE_RATE_CONTROL_MODE_DISABLED_BIT_KHR \<noteq> 0)
          = Inr fi"
    and c: "encode_commands (calls s') = encode_commands (calls s) @
          [videoEncodeInfo fi (m_dpbImageViews s ! (unat g mod 2))
             (m_dpbImageViews s ! (1 - unat g mod 2)) g mx s]"
    unfolding assms(2) by blast
  let ?info = "videoEncodeInfo fi (m_dpbImageViews s ! (unat g mod 2))
             (m_dpbImageViews s ! (1 - unat g mod 2)) g mx s"
  note f = FrameInfo_Inr_facts(1-4) [OF fi]
  have i: "g = 0 \<longrightarrow>
           slice_type (pStdSliceHeader (pNaluSliceEntries (enc_pNext ?info)))
             = STD_VIDEO_H264_SLICE_TYPE_I
         \<and> IdrPicFlag (pic_flags (pStdPictureInfo (enc_pNext ?info)))
         \<and> pic_primary_pic_type (pStdPictureInfo (enc_pNext ?info))
             = STD_VIDEO_H264_PICTURE_TYPE_IDR
         \<and> RefPicList0 (pRefLists (pStdPictureInfo (enc_pNext ?info)))
             = replicate STD_VIDEO_H264_MAX_NUM_LIST_REF STD_VIDEO_H264_NO_REFERENCE_PICTURE
         \<and> enc_referenceSlotCount ?info = 0
         \<and> enc_pReferenceSlots ?info = []"
    using f by (auto simp: videoEncodeInfo_setup(3) videoEncodeInfo_intra)
  have p: "g \<noteq> 0 \<longrightarrow>
           slice_type (pStdSliceHeader (pNaluSliceEntries (enc_pNext ?info)))
             = STD_VIDEO_H264_SLICE_TYPE_P
         \<and> \<not> IdrPicFlag (pic_flags (pStdPictureInfo (enc_pNext ?info)))
         \<and> pic_primary_pic_type (pStdPictureInfo (enc_pNext ?info))
             = STD_VIDEO_H264_PICTURE_TYPE_P
         \<and> RefPicList0 (pRefLists (pStdPictureInfo (enc_pNext ?info)))
             = of_nat (not_lsb g) # replicate 31 STD_VIDEO_H264_NO_REFERENCE_PICTURE
         \<and> enc_referenceSlotCount ?info = 1
         \<and> (\<exists>r. enc_pReferenceSlots ?info = [r]
                \<and> FrameNum (pStdReferenceInfo (slot_pNext r)) = g - 1
                \<and> unat (FrameNum (pStdReferenceInfo (slot_pNext r))) = unat g - 1)"
  proof
    assume g: "g \<noteq> 0"
    then have "unat (1 :: 32 word) \<le> unat g"
      by (simp add: Suc_le_eq unat_gt_0)
    then have "(1 :: 32 word) \<le> g" by (simp only: word_le_nat_alt)
    then have u: "unat (g - 1) = unat g - 1"
      using unat_sub [of 1 g] by simp
    from videoEncodeInfo_predicted(1) [OF g, of fi "m_dpbImageViews s ! (unat g mod 2)"
        "m_dpbImageViews s ! (1 - unat g mod 2)" mx s]
    obtain r where r: "enc_pReferenceSlots ?info = [r]"
      "FrameNum (pStdReferenceInfo (slot_pNext r)) = g - 1"
      by blast
    have cnt: "enc_referenceSlotCount ?info = 1"
      by (rule videoEncodeInfo_predicted(2) [OF g])
    from r u have "\<exists>r. enc_pReferenceSlots ?info = [r]
                \<and> FrameNum (pStdReferenceInfo (slot_pNext r)) = g - 1
                \<and> unat (FrameNum (pStdReferenceInfo (slot_pNext r))) = unat g - 1"
      by simp
    with cnt f g
    show "slice_type (pStdSliceHeader (pNaluSliceEntries (enc_pNext ?info)))
             = STD_VIDEO_H264_SLICE_TYPE_P
         \<and> \<not> IdrPicFlag (pic_flags (pStdPictureInfo (enc_pNext ?info)))
         \<and> pic_primary_pic_type (pStdPictureInfo (enc_pNext ?info))
             = STD_VIDEO_H264_PICTURE_TYPE_P
         \<and> RefPicList0 (pRefLists (pStdPictureInfo (enc_pNext ?info)))
             = of_nat (not_lsb g) # replicate 31 STD_VIDEO_H264_NO_REFERENCE_PICTURE
         \<and> enc_referenceSlotCount ?info = 1
         \<and> (\<exists>r. enc_pReferenceSlots ?info = [r]
                \<and> FrameNum (pStdReferenceInfo (slot_pNext r)) = g - 1
                \<and> unat (FrameNum (pStdReferenceInfo (slot_pNext r))) = unat g - 1)"
      by (auto simp: videoEncodeInfo_setup(3))
  qed
  show ?thesis
    apply (rule exI [of _ ?info])
    using c i p apply blast
    done
qed

text \<open>
  The theorem at the example session: the first frame is an IDR picture without
  reference slot, the second a P picture with one reference slot of \<open>frame_num\<close> 0.
\<close>

theorem intra_and_predicted_pictures_witness:
  "(\<exists>s' info. encodeVideoFrame example_driver example_ready = Inr s'
      \<and> encode_commands (calls s') = encode_commands (calls example_ready) @ [info]
      \<and> slice_type (pStdSliceHeader (pNaluSliceEntries (enc_pNext info)))
           = STD_VIDEO_H264_SLICE_TYPE_I
      \<and> IdrPicFlag (pic_flags (pStdPictureInfo (enc_pNext info)))
      \<and> enc_referenceSlotCount info = 0
      \<and> enc_pReferenceSlots info = [])
   \<and> (\<exists>s' info r. encodeVideoFrame example_driver example_frame_done = Inr s'
      \<and> encode_commands (calls s') = encode_commands (calls example_frame_done) @ [info]
      \<and> slice_type (pStdSliceHeader (pNaluSliceEntries (enc_pNext info)))
           = STD_VIDEO_H264_SLICE_TYPE_P
      \<and> \<not> IdrPicFlag (pic_flags (pStdPictureInfo (enc_pNext info)))
      \<and> enc_referenceSlotCount info = 1
      \<and> enc_pReferenceSlots info = [r]
      \<and> FrameNum (pStdReferenceInfo (slot_pNext r)) = 0)"
proof (rule conjI)
  obtain s' where e: "encodeVideoFrame example_driver example_ready = Inr s'"
    using encodeVideoFrame_success [OF example_driver_ok, of example_ready]
    by (auto simp: example_ready_fields)
  from intra_and_predicted_pictures [OF e example_gop_index(1) [symmetric]]
  show "\<exists>s' info. encodeVideoFrame example_driver example_ready = Inr s'
      \<and> encode_commands (calls s') = encode_commands (calls example_ready) @ [info]
      \<and> slice_type (pStdSliceHeader (pNaluSliceEntries (enc_pNext info)))
           = STD_VIDEO_H264_SLICE_TYPE_I
      \<and> IdrPicFlag (pic_flags (pStdPictureInfo (enc_pNext info)))
      \<and> enc_referenceSlotCount info = 0
      \<and> enc_pReferenceSlots info = []"
    using e by auto
next
  obtain s' where e: "encodeVideoFrame example_driver example_frame_done = Inr s'"
    using encodeVideoFrame_success [OF example_driver_ok, of example_frame_done]
    by (auto simp: example_frame_done_fields)
  from intra_and_predicted_pictures [OF e example_gop_index(2) [symmetric]]
  show "\<exists>s' info r. encodeVideoFrame example_driver example_frame_done = Inr s'
      \<and> encode_commands (calls s') = encode_commands (calls example_frame_done) @ [info]
      \<and> slice_type (pStdSliceHeader (pNaluSliceEntries (enc_pNext info)))
           = STD_VIDEO_H264_SLICE_TYPE_P
      \<and> \<not> IdrPicFlag (pic_flags (pStdPictureInfo (enc_pNext info)))
      \<and> enc_referenceSlotCount info = 1
      \<and> enc_pReferenceSlots info = [r]
      \<and> FrameNum (pStdReferenceInfo (slot_pNext r)) = 0"
    using e by auto
qed

text \<open>
  Claim C5. \<open>queueEncode\<close> on an encoder with a frame in flight fails its assertion and
  returns no state, so nothing is queued. In particular a second \<open>queueEncode\<close> right
  after a successful one is rejected, and so is one after a \<open>finishEncode\<close> that only
  handed out the pending header, which is no retrieval of the frame. The assertion is
  modelled as compiled in.
\<close>

theorem queueEncode_in_flight_rejected:
  "(m_running s \<longrightarrow> queueEncode drv currentImageIx s = Inl AssertionFailed)
   \<and> (\<forall>s1. queueEncode drv currentImageIx s = Inr s1 \<longrightarrow>
         queueEncode drv nextImageIx s1 = Inl AssertionFailed
       \<and> (m_bitStreamHeaderPending s1 \<longrightarrow>
            (\<exists>s2. finishEncode drv s1 = Inr (header_packet (m_bitStreamHeader s1), s2)
               \<and> queueEncode drv nextImageIx s2 = Inl AssertionFailed)))"
proof (intro conjI impI allI)
  assume "m_running s"
  then show "queueEncode drv currentImageIx s = Inl AssertionFailed"
    by (simp add: queueEncode_def)
next
  fix s1
  assume q: "queueEncode drv currentImageIx s = Inr s1"
  from queueEncode_Inr [OF q] obtain t where "s1 = s \<lparr> m_running := True, calls := t \<rparr>"
    by blast
  then have r: "m_running s1" by simp
  then show "queueEncode drv nextImageIx s1 = Inl AssertionFailed"
    by (simp add: queueEncode_def)
  assume p: "m_bitStreamHeaderPending s1"
  have "finishEncode drv s1 = Inr (header_packet (m_bitStreamHeader s1),
      s1 \<lparr> m_bitStreamHeaderPending := False \<rparr>)"
    unfolding header_packet_def using r p by (rule finishEncode_header)
  moreover have "queueEncode drv nextImageIx (s1 \<lparr> m_bitStreamHeaderPending := False \<rparr>)
      = Inl AssertionFailed"
    using r by (simp add: queueEncode_def)
  ultimately show "\<exists>s2. finishEncode drv s1 = Inr (header_packet (m_bitStreamHeader s1), s2)
               \<and> queueEncode drv nextImageIx s2 = Inl AssertionFailed"
    by blast
qed

text \<open>
  The theorem at the example session: after the first \<open>queueEncode\<close> a second one is
  rejected, also after the header has been handed out.
\<close>

theorem queueEncode_in_flight_rejected_witness:
  "m_running example_queued
   \<and> queueEncode example_driver 1 example_queued = Inl AssertionFailed
   \<and> queueEncode example_driver 0 example_ready = Inr example_queued
   \<and> m_bitStreamHeaderPending example_queued
   \<and> (\<exists>s2. finishEncode example_driver example_queued
              = Inr (header_packet (m_bitStreamHeader example_queued), s2)
          \<and> queueEncode example_driver 1 s2 = Inl AssertionFailed)"
  using queueEncode_in_flight_rejected [of example_queued example_driver 1 1]
    queueEncode_in_flight_rejected [of example_ready example_driver 0 1]
    example_queue example_queued_fields(2,3)
  by blast

text \<open>
  Claim C6. \<open>finishEncode\<close> on an encoder with no frame in flight returns the packet of
  length 0 with a null data pointer and the encoder exactly as it was. The trace of
  driver calls is part of that state, so no fence is waited for and no query is read.
\<close>

theorem finishEncode_nothing_in_flight:
  assumes "\<not> m_running s"
  shows "finishEncode drv s = Inr (\<lparr> out_data = None, out_size = 0 \<rparr>, s)"
  using assms by (rule finishEncode_idle)

text \<open>
  The theorem at the example encoder right after \<open>init\<close>.
\<close>

theorem finishEncode_nothing_in_flight_witness:
  "\<not> m_running example_ready
   \<and> finishEncode example_driver example_ready
       = Inr (\<lparr> out_data = None, out_size = 0 \<rparr>, example_ready)"
  using finishEncode_nothing_in_flight [OF example_ready_fields(2), of example_driver]
    example_ready_fields(2)
  by simp

text \<open>
  Claim C10. After a \<open>queueEncode\<close> on an encoder whose header is pending, the next
  \<open>finishEncode\<close> returns the header and a state in which the frame is still in flight:
  \<open>m_running\<close> is set, \<open>m_frameCount\<close> is unchanged, no driver call was made and both
  command buffers of the frame are still allocated. One more \<open>finishEncode\<close> is needed:
  it succeeds when the fence wait and the query read succeed, and whenever it returns,
  it returns a frame packet, clears \<open>m_running\<close>, increments \<open>m_frameCount\<close> and frees
  both command buffers.
\<close>

theorem header_does_not_complete_cycle:
  assumes "queueEncode drv currentImageIx s0 = Inr s" and "m_bitStreamHeaderPending s0"
  shows "\<exists>s1. finishEncode drv s = Inr (header_packet (m_bitStreamHeader s0), s1)
     \<and> m_running s1
     \<and> m_frameCount s1 = m_frameCount s0
     \<and> calls s1 = calls s
     \<and> CommandBuffer ComputeCommandBuffer \<in> live_after (calls s1)
     \<and> CommandBuffer EncodeCommandBuffer \<in> live_after (calls s1)
     \<and> (result drv (length (calls s1)) = VK_SUCCESS
          \<and> result drv (Suc (length (calls s1))) = VK_SUCCESS
          \<longrightarrow> (\<exists>p s2. finishEncode drv s1 = Inr (p, s2)))
     \<and> (\<forall>p s2. finishEncode drv s1 = Inr (p, s2) \<longrightarrow>
           is_frame_packet p
         \<and> \<not> m_running s2
         \<and> m_frameCount s2 = m_frameCount s0 + 1
         \<and> calls s2 = calls s @ drain_calls drv s
         \<and> CommandBuffer ComputeCommandBuffer \<notin> live_after (calls s2)
         \<and> CommandBuffer EncodeCommandBuffer \<notin> live_after (calls s2))"
proof -
  from queueEncode_Inr [OF assms(1)] obtain inputImage descriptorSet dpbView refView mx fi
    where s: "s = s0 \<lparr> m_running := True,
                 calls := calls s0 @ convert_calls inputImage descriptorSet s0
                            @ encode_calls fi dpbView refView mx s0 \<rparr>"
    by blast
  have r: "m_running s" and p: "m_bitStreamHeaderPending s"
    and h: "m_bitStreamHeader s = m_bitStreamHeader s0"
    and fc: "m_frameCount s = m_frameCount s0"
    unfolding s using assms(2) by simp_all
  let ?s1 = "s \<lparr> m_bitStreamHeaderPending := False \<rparr>"
  have f1: "finishEncode drv s = Inr (header_packet (m_bitStreamHeader s0), ?s1)"
    unfolding header_packet_def h [symmetric] using r p by (rule finishEncode_header)
  have live: "live_after (calls s) = insert (CommandBuffer EncodeCommandBuffer)
      (insert (CommandBuffer ComputeCommandBuffer) (live_after (calls s0)))"
    unfolding s by (simp add: live_after_append foldl_convert_calls foldl_encode_calls)
  have r1: "m_running ?s1" and p1: "\<not> m_bitStreamHeaderPending ?s1"
    using r by simp_all
  have d: "drain_calls drv ?s1 = drain_calls drv s"
    by (simp add: drain_calls_def)
  have ex: "result drv (length (calls ?s1)) = VK_SUCCESS
          \<and> result drv (Suc (length (calls ?s1))) = VK_SUCCESS
          \<longrightarrow> (\<exists>p s2. finishEncode drv ?s1 = Inr (p, s2))"
    unfolding finishEncode_packet_iff [OF r1 p1] by simp
  have post: "\<forall>p s2. finishEncode drv ?s1 = Inr (p, s2) \<longrightarrow>
           is_frame_packet p
         \<and> \<not> m_running s2
         \<and> m_frameCount s2 = m_frameCount s0 + 1
         \<and> calls s2 = calls s @ drain_calls drv s
         \<and> CommandBuffer ComputeCommandBuffer \<notin> live_after (calls s2)
         \<and> CommandBuffer EncodeCommandBuffer \<notin> live_after (calls s2)"
  proof (intro allI impI)
    fix p s2
    assume "finishEncode drv ?s1 = Inr (p, s2)"
    then have pk: "p = \<lparr> out_data = Some (BitStreamData (unat (bitstreamStartOffset
                 (encodeResult drv (length (calls ?s1) + 2))))),
           out_size = unat (bitstreamSize (encodeResult drv (length (calls ?s1) + 2))) \<rparr>"
      and s2: "s2 = ?s1 \<lparr> m_running := False, m_frameCount := m_frameCount ?s1 + 1,
         calls := calls ?s1 @ drain_calls drv ?s1 \<rparr>"
      unfolding finishEncode_packet_iff [OF r1 p1] by (simp_all add: drain_calls_def)
    have "live_after (calls s2) = live_after (calls s)
        - {CommandBuffer ComputeCommandBuffer, CommandBuffer EncodeCommandBuffer}"
      unfolding s2 by (simp add: live_after_append foldl_drain_calls)
    then show "is_frame_packet p
         \<and> \<not> m_running s2
         \<and> m_frameCount s2 = m_frameCount s0 + 1
         \<and> calls s2 = calls s @ drain_calls drv s
         \<and> CommandBuffer ComputeCommandBuffer \<notin> live_after (calls s2)
         \<and> CommandBuffer EncodeCommandBuffer \<notin> live_after (calls s2)"
      unfolding pk s2 d using fc by simp
  qed
  have c: "m_running ?s1" "m_frameCount ?s1 = m_frameCount s0" "calls ?s1 = calls s"
    "CommandBuffer ComputeCommandBuffer \<in> live_after (calls ?s1)"
    "CommandBuffer EncodeCommandBuffer \<in> live_after (calls ?s1)"
    using r fc live by simp_all
  from f1 c ex post show ?thesis by blast
qed

text \<open>
  The theorem at the example session: the first \<open>finishEncode\<close> after the first
  \<open>queueEncode\<close> returns the header, the second the frame packet of 5000 bytes.
\<close>

theorem header_does_not_complete_cycle_witness:
  "queueEncode example_driver 0 example_ready = Inr example_queued
   \<and> m_bitStreamHeaderPending example_ready
   \<and> finishEncode example_driver example_queued
       = Inr (header_packet (m_bitStreamHeader example_ready), example_header_sent)
   \<and> m_running example_header_sent
   \<and> m_frameCount example_header_sent = 0
   \<and> finishEncode example_driver example_header_sent
       = Inr (\<lparr> out_data = Some (BitStreamData 0), out_size = 5000 \<rparr>, example_frame_done)
   \<and> \<not> m_running example_frame_done
   \<and> m_frameCount example_frame_done = 1
   \<and> CommandBuffer ComputeCommandBuffer \<notin> live_after (calls example_frame_done)"
proof -
  from header_does_not_complete_cycle [OF example_queue example_ready_fields(3)]
  obtain s1 where
    a: "finishEncode example_driver example_queued
          = Inr (header_packet (m_bitStreamHeader example_ready), s1)"
    and b: "\<forall>p s2. finishEncode example_driver s1 = Inr (p, s2) \<longrightarrow>
           is_frame_packet p
         \<and> \<not> m_running s2
         \<and> m_frameCount s2 = m_frameCount example_ready + 1
         \<and> calls s2 = calls example_queued @ drain_calls example_driver example_queued
         \<and> CommandBuffer ComputeCommandBuffer \<notin> live_after (calls s2)
         \<and> CommandBuffer EncodeCommandBuffer \<notin> live_after (calls s2)"
    by blast
  from a have s1: "s1 = example_header_sent"
    unfolding example_finish_header by simp
  from b example_finish_packet
  have "CommandBuffer ComputeCommandBuffer \<notin> live_after (calls example_frame_done)"
    unfolding s1 by blast
  with a show ?thesis
    unfolding s1
    using example_queue example_ready_fields(3) example_header_sent_fields(2,4)
      example_finish_packet example_frame_done_fields(2,4)
    by simp
qed

lemma example_second_queue:
  "queueEncode example_driver 1 example_frame_done = Inr example_second_queued"
proof -
  have "\<exists>s'. queueEncode example_driver 1 example_frame_done = Inr s'"
    by (rule queueEncode_success [OF example_driver_ok])
      (simp_all add: example_frame_done_fields)
  then show ?thesis unfolding example_second_queued_def by auto
qed

subsection \<open>Teardown\<close>



subsection \<open>Teardown after an init that threw\<close>





subsection \<open>Semaphores\<close>

lemma submissions_append: "submissions (t @ u) = submissions t @ submissions u"
  by (induction t rule: submissions.induct) simp_all

lemma submissions_convert_calls:
  "submissions (convert_calls inputImage descriptorSet s) = [(ComputeQueue, convert_submitInfo s)]"
  by (simp add: convert_calls_def)

lemma submissions_encode_calls:
  "submissions (encode_calls fi v0 v1 mx s) = [(EncodeQueue, encode_submitInfo)]"
  by (simp add: encode_calls_def)

lemma submissions_drain_calls: "submissions (drain_calls drv s) = []"
  by (simp add: drain_calls_def)

lemma submissions_map_Create: "submissions (map (\<lambda>i. Create (f i)) xs) = []"
  by (induction xs) simp_all

lemma submissions_map_Update: "submissions (map UpdateDescriptorSets xs) = []"
  by (induction xs) simp_all

lemma submissions_init_calls:
  "submissions (init_calls n k) =
     [(EncodeQueue, \<lparr> pWaitSemaphores = [], pCommandBuffers = [InitCommandBuffer],
                      pSignalSemaphores = [] \<rparr>)]"
  by (simp add: init_calls_def submissions_append submissions_map_Create
      submissions_map_Update)

lemma queueEncode_submissions:
  assumes "queueEncode drv currentImageIx s = Inr s'"
  shows "submissions (calls s') = submissions (calls s)
      @ [(ComputeQueue, convert_submitInfo s), (EncodeQueue, encode_submitInfo)]"
proof -
  from queueEncode_Inr [OF assms] obtain inputImage descriptorSet dpbView refView mx fi
    where s': "s' = s \<lparr> m_running := True,
                 calls := calls s @ convert_calls inputImage descriptorSet s
                            @ encode_calls fi dpbView refView mx s \<rparr>"
    by blast
  show ?thesis
    unfolding s'
    by (simp add: submissions_append submissions_convert_calls submissions_encode_calls)
qed

lemma init_fresh_calls:
  assumes "init drv inputImages inputImageViews width height fps s = Inr s'"
    and "\<not> m_initialized s"
  shows "calls s' = calls s
      @ init_calls (videoSessionMemoryRequirementsCount drv) (length inputImageViews)"
  using init_fresh_Inr [OF assms] by auto

lemma finishEncode_packet_calls:
  assumes "m_running s" and "\<not> m_bitStreamHeaderPending s"
    and "finishEncode drv s = Inr (p, s')"
  shows "calls s' = calls s @ drain_calls drv s"
  using assms(3) unfolding finishEncode_packet_iff [OF assms(1,2)]
  by (simp add: drain_calls_def)

text \<open>
  Claim C8, as amended. A \<open>queueEncode\<close> that returns has made exactly two queue
  submissions. The conversion, on the compute queue, signals exactly two semaphores,
  \<open>m_interQueueSemaphore\<close> and \<open>m_interQueueSemaphore3\<close>; for the first frame it waits on
  nothing, for every later frame it waits on \<open>m_interQueueSemaphore2\<close> and
  \<open>m_interQueueSemaphore3\<close>. The encode, on the encode queue, waits only on
  \<open>m_interQueueSemaphore\<close> and signals \<open>m_interQueueSemaphore2\<close>. So the semaphore that
  the encode signals is waited on by the conversion of the next frame.
\<close>

theorem queue_submissions:
  assumes "queueEncode drv currentImageIx s = Inr s'"
  shows "submissions (calls s') = submissions (calls s) @
     [(ComputeQueue,
        \<lparr> pWaitSemaphores =
            (if m_frameCount s = 0 then [] else [InterQueueSemaphore2, InterQueueSemaphore3]),
          pCommandBuffers = [ComputeCommandBuffer],
          pSignalSemaphores = [InterQueueSemaphore, InterQueueSemaphore3] \<rparr>),
      (EncodeQueue,
        \<lparr> pWaitSemaphores = [InterQueueSemaphore],
          pCommandBuffers = [EncodeCommandBuffer],
          pSignalSemaphores = [InterQueueSemaphore2] \<rparr>)]"
proof -
  from queueEncode_Inr [OF assms] obtain inputImage descriptorSet dpbView refView mx fi
    where s': "s' = s \<lparr> m_running := True,
                 calls := calls s @ convert_calls inputImage descriptorSet s
                            @ encode_calls fi dpbView refView mx s \<rparr>"
    by blast
  show ?thesis
    unfolding s'
    by (simp add: submissions_append submissions_convert_calls submissions_encode_calls
        convert_submitInfo_def encode_submitInfo_def)
qed

text \<open>
  The theorem at the first \<open>queueEncode\<close> of the example session.
\<close>

theorem queue_submissions_witness:
  "queueEncode example_driver 0 example_ready = Inr example_queued
   \<and> submissions (calls example_queued) = submissions (calls example_ready) @
     [(ComputeQueue,
        \<lparr> pWaitSemaphores = [],
          pCommandBuffers = [ComputeCommandBuffer],
          pSignalSemaphores = [InterQueueSemaphore, InterQueueSemaphore3] \<rparr>),
      (EncodeQueue,
        \<lparr> pWaitSemaphores = [InterQueueSemaphore],
          pCommandBuffers = [EncodeCommandBuffer],
          pSignalSemaphores = [InterQueueSemaphore2] \<rparr>)]"
  using queue_submissions [OF example_queue] example_queue example_ready_fields(5)
  by simp

lemma example_ready_submissions:
  "submissions (calls example_ready) =
     [(EncodeQueue, \<lparr> pWaitSemaphores = [], pCommandBuffers = [InitCommandBuffer],
                      pSignalSemaphores = [] \<rparr>)]"
  using init_fresh_calls [OF example_init example_encoder_fresh(2)]
  by (simp add: example_encoder_def VideoEncoder_new_def submissions_init_calls)

lemma example_frame_done_submissions:
  "submissions (calls example_frame_done) = submissions (calls example_queued)"
  using finishEncode_packet_calls [OF example_header_sent_fields(2,3) example_finish_packet]
  by (simp add: submissions_append submissions_drain_calls example_header_sent_eq)

text \<open>
  Claim C8 as stated, that no submission waits on the semaphore signalled by the
  encode: all queue submissions of the example session up to the second \<open>queueEncode\<close>.
  The encode of the first frame signals \<open>m_interQueueSemaphore2\<close>, and the conversion of
  the second frame waits on it.
\<close>

theorem encode_semaphore_counterexample:
  "submissions (calls example_second_queued) =
     [(EncodeQueue,
        \<lparr> pWaitSemaphores = [], pCommandBuffers = [InitCommandBuffer],
          pSignalSemaphores = [] \<rparr>),
      (ComputeQueue,
        \<lparr> pWaitSemaphores = [],
          pCommandBuffers = [ComputeCommandBuffer],
          pSignalSemaphores = [InterQueueSemaphore, InterQueueSemaphore3] \<rparr>),
      (EncodeQueue,
        \<lparr> pWaitSemaphores = [InterQueueSemaphore],
          pCommandBuffers = [EncodeCommandBuffer],
          pSignalSemaphores = [InterQueueSemaphore2] \<rparr>),
      (ComputeQueue,
        \<lparr> pWaitSemaphores = [InterQueueSemaphore2, InterQueueSemaphore3],
          pCommandBuffers = [ComputeCommandBuffer],
          pSignalSemaphores = [InterQueueSemaphore, InterQueueSemaphore3] \<rparr>),
      (EncodeQueue,
        \<lparr> pWaitSemaphores = [InterQueueSemaphore],
          pCommandBuffers = [EncodeCommandBuffer],
          pSignalSemaphores = [InterQueueSemaphore2] \<rparr>)]"
proof -
  note 1 = example_ready_submissions
  note 2 = queueEncode_submissions [OF example_queue]
  note 3 = queueEncode_submissions [OF example_second_queue]
  show ?thesis
    unfolding 3 example_frame_done_submissions 2 1
    by (simp add: convert_submitInfo_def encode_submitInfo_def example_ready_fields
        example_frame_done_fields)
qed

subsection \<open>The header protocol\<close>





lemma finishEncode_cases:
  assumes "finishEncode drv s = Inr (p, s1)"
  shows "(\<not> m_running s \<and> p = \<lparr> out_data = None, out_size = 0 \<rparr> \<and> s1 = s)
       \<or> (m_running s \<and> m_bitStreamHeaderPending s \<and> p = header_packet (m_bitStreamHeader s)
            \<and> s1 = s \<lparr> m_bitStreamHeaderPending := False \<rparr>)
       \<or> (m_running s \<and> \<not> m_bitStreamHeaderPending s \<and> is_frame_packet p
            \<and> s1 = s \<lparr> m_running := False, m_frameCount := m_frameCount s + 1,
                         calls := calls s @ drain_calls drv s \<rparr>)"
proof (cases "m_running s")
  case False
  with assms show ?thesis by (simp add: finishEncode_idle)
next
  case True
  show ?thesis
  proof (cases "m_bitStreamHeaderPending s")
    case pending: True
    with True assms show ?thesis by (simp add: finishEncode_header header_packet_def)
  next
    case False
    from assms show ?thesis
      unfolding finishEncode_packet_iff [OF True False]
      using True False by (simp add: drain_calls_def)
  qed
qed













subsection \<open>The picture-order-count of a queued frame\<close>

lemma unat_poc_shift:
  assumes "n < 32"
  shows "unat ((g * 2) mod push_bit n 1 :: 32 word) = (2 * unat g) mod 2 ^ n"
proof -
  have lt: "(2 :: nat) ^ n < 2 ^ 32" using assms by (rule power_strict_increasing) simp
  have "push_bit n 1 = (of_nat (2 ^ n) :: 32 word)" by simp
  then have "unat (push_bit n 1 :: 32 word) = (2 ^ n) mod 2 ^ 32"
    by (simp only: unat_of_nat) simp
  also from lt have "\<dots> = 2 ^ n" by (rule mod_less)
  finally have "unat (push_bit n 1 :: 32 word) = 2 ^ n" .
  then have p: "unat (2 ^ n :: 32 word) = 2 ^ n" by simp
  have "unat ((g * 2) mod push_bit n 1 :: 32 word) = (unat g * 2 mod 2 ^ 32) mod 2 ^ n"
    by (simp add: unat_mod_distrib unat_word_ariths p)
  also have "\<dots> = (unat g * 2) mod 2 ^ n"
  proof (rule mod_mod_cancel)
    from assms have "n \<le> 32" by simp
    then show "(2 :: nat) ^ n dvd 2 ^ 32" by (rule le_imp_power_dvd)
  qed
  finally show ?thesis by (simp add: mult.commute)
qed

lemma sint_poc_shift:
  assumes "n < 32"
  shows "sint ((g * 2) mod push_bit n 1 :: 32 word) = int ((2 * unat g) mod 2 ^ n)"
proof -
  have "(2 * unat g) mod 2 ^ n < (2 :: nat) ^ n" by simp
  also have "(2 :: nat) ^ n \<le> 2 ^ 31"
    using assms by (intro power_increasing) simp_all
  finally have "unat ((g * 2) mod push_bit n 1 :: 32 word) < 2 ^ 31"
    unfolding unat_poc_shift [OF assms] .
  then show ?thesis by (simp only: sint_small unat_poc_shift [OF assms])
qed

lemma unat_gop_index: "unat (x mod GOP_LENGTH) < 16"
  by (simp add: GOP_LENGTH_def unat_mod_distrib)

lemma FrameInfo_poc:
  assumes "FrameInfo frameCount w h sps pps g cq = Inr fi"
  shows "unat (log2_max_pic_order_cnt_lsb_minus4 sps) + 4 < 32"
    and "pic_PicOrderCnt (pStdPictureInfo (getEncodeH264FrameInfo fi))
          = (frameCount * 2) mod push_bit (unat (log2_max_pic_order_cnt_lsb_minus4 sps) + 4) 1"
proof -
  from assms show n: "unat (log2_max_pic_order_cnt_lsb_minus4 sps) + 4 < 32"
    by (auto simp: FrameInfo_def shift_one_left_def split: if_splits)
  with assms show "pic_PicOrderCnt (pStdPictureInfo (getEncodeH264FrameInfo fi))
          = (frameCount * 2) mod push_bit (unat (log2_max_pic_order_cnt_lsb_minus4 sps) + 4) 1"
    by (auto simp: FrameInfo_def shift_one_left_def getEncodeH264FrameInfo_def Let_def)
qed

lemma videoEncodeInfo_pNext:
  "enc_pNext (videoEncodeInfo fi v0 v1 g mx s) = getEncodeH264FrameInfo fi"
  by (simp add: videoEncodeInfo_def Let_def)

lemma queueEncode_command:
  assumes "queueEncode drv currentImageIx s = Inr s'"
  shows "\<exists>fi v0 v1 mx.
       FrameInfo (m_frameCount s mod GOP_LENGTH) (m_width s) (m_height s) (m_sps s)
          (m_pps s) (m_frameCount s mod GOP_LENGTH)
          (m_chosenRateControlMode s AND VK_VIDEO_ENCODE_RATE_CONTROL_MODE_DISABLED_BIT_KHR \<noteq> 0)
        = Inr fi
     \<and> encode_commands (calls s') = encode_commands (calls s)
          @ [videoEncodeInfo fi v0 v1 (m_frameCount s mod GOP_LENGTH) mx s]
     \<and> m_dpbImageViews s \<noteq> []"
proof -
  from queueEncode_Inr [OF assms] obtain inputImage descriptorSet dpbView refView mx fi where
    v: "vector_at (m_dpbImageViews s) (unat ((m_frameCount s mod GOP_LENGTH) AND 1)) = Inr dpbView"
    and fi: "FrameInfo (m_frameCount s mod GOP_LENGTH) (m_width s) (m_height s) (m_sps s)
          (m_pps s) (m_frameCount s mod GOP_LENGTH)
          (m_chosenRateControlMode s AND VK_VIDEO_ENCODE_RATE_CONTROL_MODE_DISABLED_BIT_KHR \<noteq> 0)
        = Inr fi"
    and s': "s' = s \<lparr> m_running := True,
                 calls := calls s @ convert_calls inputImage descriptorSet s
                            @ encode_calls fi dpbView refView mx s \<rparr>"
    by blast
  from v have ne: "m_dpbImageViews s \<noteq> []"
    by (auto simp: vector_at_def split: if_splits)
  have "encode_commands (calls s') = encode_commands (calls s)
          @ [videoEncodeInfo fi dpbView refView (m_frameCount s mod GOP_LENGTH) mx s]"
    unfolding s'
    by (simp add: encode_commands_append encode_commands_encode_calls
        encode_commands_convert_calls)
  with fi ne show ?thesis by blast
qed

lemma queueEncode_keeps_sps:
  assumes "queueEncode drv currentImageIx s = Inr s1"
  shows "m_sps s1 = m_sps s" "m_dpbImageViews s1 = m_dpbImageViews s"
  using queueEncode_Inr [OF assms] by auto

lemma finishEncode_keeps_sps:
  assumes "finishEncode drv s = Inr (p, s1)"
  shows "m_sps s1 = m_sps s" "m_dpbImageViews s1 = m_dpbImageViews s"
  using finishEncode_cases [OF assms] by auto

lemma deinit_keeps_sps:
  assumes "deinit drv s = Inr s1"
  shows "m_sps s1 = m_sps s" "m_dpbImageViews s1 = m_dpbImageViews s"
proof -
  have "m_sps s1 = m_sps s \<and> m_dpbImageViews s1 = m_dpbImageViews s"
  proof (cases "m_initialized s")
    case True
    from assms show ?thesis unfolding deinit_Inr_iff [OF True] by simp
  next
    case False
    with assms show ?thesis by (simp add: deinit_uninitialized)
  qed
  then show "m_sps s1 = m_sps s" "m_dpbImageViews s1 = m_dpbImageViews s" by simp_all
qed

lemma init_fresh_sps:
  assumes "init drv inputImages inputImageViews width height fps s = Inr s'"
    and "\<not> m_initialized s"
  shows "log2_max_pic_order_cnt_lsb_minus4 (m_sps s') = 4"
proof -
  from init_fresh_Inr [OF assms] obtain sps where
    b: "getStdVideoH264SequenceParameterSet (width AND NOT 1) (height AND NOT 1)
        (Some (getStdVideoH264SequenceParameterSetVui fps)) = Inr sps"
    and "m_sps s' = sps"
    by auto
  with builder_log2 [OF b] show ?thesis by simp
qed

lemma init_sps:
  assumes "init drv inputImages inputImageViews width height fps s = Inr s'"
    and "m_dpbImageViews s \<noteq> [] \<longrightarrow> log2_max_pic_order_cnt_lsb_minus4 (m_sps s) = 4"
  shows "m_dpbImageViews s' \<noteq> [] \<longrightarrow> log2_max_pic_order_cnt_lsb_minus4 (m_sps s') = 4"
proof -
  from init_Inr_cases [OF assms(1)]
  consider "s' = s"
    | s0 where "\<not> m_initialized s0"
        "init drv inputImages inputImageViews width height fps s0 = Inr s'"
    by blast
  then show ?thesis
  proof cases
    case 1
    with assms(2) show ?thesis by simp
  next
    case 2
    from init_fresh_sps [OF 2(2,1)] show ?thesis by simp
  qed
qed

lemma reachable_sps:
  assumes "reachable drv s"
  shows "m_dpbImageViews s \<noteq> [] \<longrightarrow> log2_max_pic_order_cnt_lsb_minus4 (m_sps s) = 4"
  using assms
proof (induction rule: reachable.induct)
  case (reachable_new indeterminate)
  show ?case by (simp add: VideoEncoder_new_def)
next
  case (reachable_init s inputImages inputImageViews width height fps s')
  from init_sps [OF reachable_init(2) reachable_init(3)] show ?case .
next
  case (reachable_queueEncode s currentImageIx s')
  from queueEncode_keeps_sps [OF reachable_queueEncode(3)] reachable_queueEncode(4)
  show ?case by simp
next
  case (reachable_finishEncode s p s')
  from finishEncode_keeps_sps [OF reachable_finishEncode(3)] reachable_finishEncode(4)
  show ?case by simp
next
  case (reachable_deinit s s')
  from deinit_keeps_sps [OF reachable_deinit(2)] reachable_deinit(3)
  show ?case by simp
qed

text \<open>
  Claim C3. A \<open>queueEncode\<close> that returns has recorded exactly one encode command, for
  the GOP index \<open>g = m_frameCount mod 16\<close> of the frame. The picture-order-count that
  this command carries is \<open>2g mod 2\<^bsup>l + 4\<^esup>\<close>, where \<open>l\<close> is the field
  \<open>log2_max_pic_order_cnt_lsb_minus4\<close> of the sequence parameter set held by the encoder.
  In every state that the encoder reaches through its public functions and in which
  \<open>queueEncode\<close> returns, that field is 4, as the parameter-set builder called by \<open>init\<close>
  sets it, the range is 256, and the picture-order-count is \<open>2g\<close>: since \<open>g\<close> is below
  16, the values over one GOP are 0, 2, 4, up to 30, increasing by 2 with \<open>g\<close>.
\<close>

theorem submitted_picture_order_count:
  assumes "queueEncode drv currentImageIx s = Inr s'"
    and "g = m_frameCount s mod GOP_LENGTH"
  shows "\<exists>info. encode_commands (calls s') = encode_commands (calls s) @ [info]
     \<and> unat g < 16
     \<and> sint (pic_PicOrderCnt (pStdPictureInfo (enc_pNext info)))
         = int ((2 * unat g) mod 2 ^ (unat (log2_max_pic_order_cnt_lsb_minus4 (m_sps s)) + 4))
     \<and> (reachable drv s \<longrightarrow>
           log2_max_pic_order_cnt_lsb_minus4 (m_sps s) = 4
         \<and> sint (pic_PicOrderCnt (pStdPictureInfo (enc_pNext info))) = int ((2 * unat g) mod 256)
         \<and> sint (pic_PicOrderCnt (pStdPictureInfo (enc_pNext info))) = 2 * int (unat g))"
proof -
  from queueEncode_command [OF assms(1)] obtain fi v0 v1 mx where
    fi: "FrameInfo g (m_width s) (m_height s) (m_sps s) (m_pps s) g
          (m_chosenRateControlMode s AND VK_VIDEO_ENCODE_RATE_CONTROL_MODE_DISABLED_BIT_KHR \<noteq> 0)
        = Inr fi"
    and c: "encode_commands (calls s') = encode_commands (calls s)
          @ [videoEncodeInfo fi v0 v1 g mx s]"
    and ne: "m_dpbImageViews s \<noteq> []"
    unfolding assms(2) by blast
  let ?info = "videoEncodeInfo fi v0 v1 g mx s"
  let ?n = "unat (log2_max_pic_order_cnt_lsb_minus4 (m_sps s)) + 4"
  note p = FrameInfo_poc [OF fi]
  have g: "unat g < 16" unfolding assms(2) by (rule unat_gop_index)
  have poc: "sint (pic_PicOrderCnt (pStdPictureInfo (enc_pNext ?info)))
      = int ((2 * unat g) mod 2 ^ ?n)"
    unfolding videoEncodeInfo_pNext p(2) by (rule sint_poc_shift [OF p(1)])
  have r: "log2_max_pic_order_cnt_lsb_minus4 (m_sps s) = 4
         \<and> sint (pic_PicOrderCnt (pStdPictureInfo (enc_pNext ?info))) = int ((2 * unat g) mod 256)
         \<and> sint (pic_PicOrderCnt (pStdPictureInfo (enc_pNext ?info))) = 2 * int (unat g)"
    if "reachable drv s"
  proof -
    from reachable_sps [OF that] ne
    have l: "log2_max_pic_order_cnt_lsb_minus4 (m_sps s) = 4" by simp
    have e: "(2 :: nat) ^ ?n = 256" unfolding l by simp
    from g have m: "(2 * unat g) mod 256 = 2 * unat g" by simp
    from poc have "sint (pic_PicOrderCnt (pStdPictureInfo (enc_pNext ?info)))
        = int ((2 * unat g) mod 256)"
      unfolding e .
    with l m show ?thesis by simp
  qed
  from c g poc r show ?thesis by blast
qed

lemma reachable_example_frame_done: "reachable example_driver example_frame_done"
proof -
  from reachable_example_queued example_queued_fields(1) example_finish_header
  have "reachable example_driver example_header_sent" by (rule reachable_finishEncode)
  from this example_header_sent_fields(1) example_finish_packet
  show ?thesis by (rule reachable_finishEncode)
qed

text \<open>
  The theorem at the example session: the first frame (GOP index 0) is submitted with
  picture-order-count 0, the second (GOP index 1) with picture-order-count 2.
\<close>

theorem submitted_picture_order_count_witness:
  "reachable example_driver example_ready
   \<and> queueEncode example_driver 0 example_ready = Inr example_queued
   \<and> m_frameCount example_ready mod GOP_LENGTH = 0
   \<and> (\<exists>info. encode_commands (calls example_queued)
                 = encode_commands (calls example_ready) @ [info]
          \<and> sint (pic_PicOrderCnt (pStdPictureInfo (enc_pNext info))) = 0)
   \<and> reachable example_driver example_frame_done
   \<and> queueEncode example_driver 1 example_frame_done = Inr example_second_queued
   \<and> m_frameCount example_frame_done mod GOP_LENGTH = 1
   \<and> log2_max_pic_order_cnt_lsb_minus4 (m_sps example_frame_done) = 4
   \<and> (\<exists>info. encode_commands (calls example_second_queued)
                 = encode_commands (calls example_frame_done) @ [info]
          \<and> sint (pic_PicOrderCnt (pStdPictureInfo (enc_pNext info))) = 2)"
proof -
  from submitted_picture_order_count [OF example_queue example_gop_index(1) [symmetric]]
    reachable_example_ready
  have 1: "\<exists>info. encode_commands (calls example_queued)
                 = encode_commands (calls example_ready) @ [info]
          \<and> sint (pic_PicOrderCnt (pStdPictureInfo (enc_pNext info))) = 0"
    by auto
  from submitted_picture_order_count [OF example_second_queue example_gop_index(2) [symmetric]]
    reachable_example_frame_done
  have 2: "log2_max_pic_order_cnt_lsb_minus4 (m_sps example_frame_done) = 4"
    "\<exists>info. encode_commands (calls example_second_queued)
                 = encode_commands (calls example_frame_done) @ [info]
          \<and> sint (pic_PicOrderCnt (pStdPictureInfo (enc_pNext info))) = 2"
    by auto
  from 1 2 reachable_example_ready example_queue example_gop_index
    reachable_example_frame_done example_second_queue
  show ?thesis by blast
qed

end
